theory Spec2Isabelle
  imports Complex_Main
begin

section \<open>deck-particle: the particle simulation engine of \<open>particle-layer.ts\<close>\<close>

text \<open>
  A shallow embedding of \<open>src/particle-layer.ts\<close>. JavaScript numbers that hold
  longitudes, latitudes, zoom levels, times, speeds and colour channels are modelled as
  real numbers (so rounding, \<open>NaN\<close> and the infinities of IEEE doubles are outside
  the model); the particle and cohort counts are modelled as integers, of either sign.
  The layer's \<open>this.state\<close> and the GPU buffers are explicit: every operation takes the
  state and the device and returns them, or the exception it raises. The rendering of
  the host \<open>LineLayer\<close>, its attribute manager and \<open>setNeedsRedraw\<close> are not modelled.
\<close>

subsection \<open>Viewport functions\<close>

type_synonym Bbox = "real \<times> real \<times> real \<times> real"

text \<open>
  JavaScript's \<open>x % y\<close> is the remainder of the division truncated towards zero: it
  takes the sign of the dividend. (For \<open>y = 0\<close> JavaScript gives \<open>NaN\<close>; the only
  call of \<open>modulo\<close> in the source has \<open>y = 360\<close>.)
\<close>

definition js_trunc :: "real \<Rightarrow> int" where
  "js_trunc x = (if 0 \<le> x then \<lfloor>x\<rfloor> else \<lceil>x\<rceil>)"

definition js_rem :: "real \<Rightarrow> real \<Rightarrow> real" where
  "js_rem x y = x - y * of_int (js_trunc (x / y))"

text \<open>\<open>function modulo(x, y) { return ((x % y) + y) % y; }\<close>\<close>

definition modulo :: "real \<Rightarrow> real \<Rightarrow> real" where
  "modulo x y = js_rem (js_rem x y + y) y"

text \<open>
  \<open>wrapLongitude(lng, minLng = undefined)\<close>: the optional second argument is an
  \<open>option\<close>; \<open>typeof minLng === "number"\<close> is the case \<open>Some\<close>.
\<close>

definition wrapLongitude :: "real \<Rightarrow> real option \<Rightarrow> real" where
  "wrapLongitude lng minLng =
     (let wrappedLng = modulo (lng + 180) 360 - 180
      in case minLng of
           None \<Rightarrow> wrappedLng
         | Some m \<Rightarrow> (if wrappedLng < m then wrappedLng + 360 else wrappedLng))"

text \<open>\<open>wrapBounds(bounds)\<close>, with \<open>bounds = [west, south, east, north]\<close>.\<close>

fun wrapBounds :: "Bbox \<Rightarrow> Bbox" where
  "wrapBounds (b0, b1, b2, b3) =
     (let minLng = (if b2 - b0 < 360 then wrapLongitude b0 None else - 180);
          maxLng = (if b2 - b0 < 360 then wrapLongitude b2 (Some minLng) else 180);
          minLat = max b1 (- 90);
          maxLat = min b3 90
      in (minLng, minLat, maxLng, maxLat))"

text \<open>
  The specification's words for the wrap: the true modulo, whose result has the sign of
  the divisor, and \<open>((lng + 180) mod 360) - 180\<close>.
\<close>

definition true_mod :: "real \<Rightarrow> real \<Rightarrow> real" where
  "true_mod x y = x - y * of_int \<lfloor>x / y\<rfloor>"

definition spec_wrap :: "real \<Rightarrow> real" where
  "spec_wrap lng = true_mod (lng + 180) 360 - 180"

subsection \<open>The device: GPU buffers\<close>

text \<open>
  Buffers are objects with an identity: the layer state and the transform hold references
  to them and the tick swaps the references. The device is an explicit store from buffer
  identities to contents; a buffer holds 32-bit floats, so a byte offset is four times an
  index. A destroyed buffer is absent from the store. Commands that WebGL rejects with an
  error flag (a range outside a buffer, a buffer that does not exist, the same buffer
  read and written) change nothing; they do not raise.
\<close>

datatype error = RangeError | TypeError

type_synonym buffer_id = nat
type_synonym texture_id = nat
type_synonym vec3 = "real \<times> real \<times> real"

record device =
  buffers :: "buffer_id \<Rightarrow> real list option"
  next_buffer :: buffer_id

text \<open>\<open>new Float32Array(n)\<close>: zero-filled; a negative length raises \<open>RangeError\<close>.\<close>

definition Float32Array :: "int \<Rightarrow> error + real list" where
  "Float32Array n = (if n < 0 then Inl RangeError else Inr (replicate (nat n) 0))"

definition createBuffer :: "real list \<Rightarrow> device \<Rightarrow> buffer_id \<times> device" where
  "createBuffer d dev =
     (next_buffer dev,
      dev\<lparr>buffers := (buffers dev)(next_buffer dev \<mapsto> d),
          next_buffer := Suc (next_buffer dev)\<rparr>)"

definition destroy :: "buffer_id \<Rightarrow> device \<Rightarrow> device" where
  "destroy b dev = dev\<lparr>buffers := (buffers dev)(b := None)\<rparr>"

text \<open>\<open>buffer.write(data)\<close>: overwrites the buffer from offset 0.\<close>

definition buffer_write :: "buffer_id \<Rightarrow> real list \<Rightarrow> device \<Rightarrow> device" where
  "buffer_write b d dev =
     (case buffers dev b of
        None \<Rightarrow> dev
      | Some old \<Rightarrow>
          if length d \<le> length old
          then dev\<lparr>buffers := (buffers dev)(b \<mapsto> d @ drop (length d) old)\<rparr>
          else dev)"

text \<open>
  \<open>encoder.copyBufferToBuffer({sourceBuffer, sourceOffset, destinationBuffer,
  destinationOffset, size})\<close>, offsets and size (here \<open>byteSize\<close>) in bytes; the
  command is taken as executed by \<open>encoder.finish()\<close>, after the transform that precedes
  it, as the source's comments describe it.
\<close>

definition copyBufferToBuffer ::
  "buffer_id \<Rightarrow> int \<Rightarrow> buffer_id \<Rightarrow> int \<Rightarrow> int \<Rightarrow> device \<Rightarrow> device" where
  "copyBufferToBuffer sourceBuffer sourceOffset destinationBuffer destinationOffset byteSize dev =
     (case (buffers dev sourceBuffer, buffers dev destinationBuffer) of
        (Some s, Some d) \<Rightarrow>
          if 0 \<le> sourceOffset \<and> 0 \<le> destinationOffset \<and> 0 \<le> byteSize \<and>
             4 dvd sourceOffset \<and> 4 dvd destinationOffset \<and> 4 dvd byteSize \<and>
             sourceBuffer \<noteq> destinationBuffer \<and>
             sourceOffset + byteSize \<le> 4 * int (length s) \<and>
             destinationOffset + byteSize \<le> 4 * int (length d)
          then dev\<lparr>buffers := (buffers dev)(destinationBuffer \<mapsto>
                 take (nat (destinationOffset div 4)) d @
                 take (nat (byteSize div 4)) (drop (nat (sourceOffset div 4)) s) @
                 drop (nat ((destinationOffset + byteSize) div 4)) d)\<rparr>
          else dev
      | _ \<Rightarrow> dev)"

text \<open>
  A position is three consecutive floats (\<open>float32x3\<close>); slot \<open>p\<close> starts at \<open>3 * p\<close>.
  The operations below read a slot only after checking that it lies in the buffer, and the
  theorems speak of slots below the buffer's length.
\<close>

definition slot :: "real list \<Rightarrow> nat \<Rightarrow> vec3" where
  "slot b p = (b ! (3 * p), b ! (3 * p + 1), b ! (3 * p + 2))"

fun vec3_floats :: "vec3 \<Rightarrow> real list" where
  "vec3_floats (x, y, z) = [x, y, z]"

text \<open>The floats of a list of positions.\<close>

definition flatten :: "vec3 list \<Rightarrow> real list" where
  "flatten vs = concat (map vec3_floats vs)"

subsection \<open>Props, uniforms and layer state\<close>

text \<open>\<open>image: string | Texture | null\<close>.\<close>

datatype image = ImageUrl string | ImageNull | ImageTexture texture_id

text \<open>The framework's \<open>Color\<close> is \<open>[r, g, b]\<close> or \<open>[r, g, b, a]\<close>.\<close>

datatype Color = Color3 real real real | Color4 real real real real

fun color0 :: "Color \<Rightarrow> real" where
  "color0 (Color3 r g b) = r"
| "color0 (Color4 r g b a) = r"

fun color1 :: "Color \<Rightarrow> real" where
  "color1 (Color3 r g b) = g"
| "color1 (Color4 r g b a) = g"

fun color2 :: "Color \<Rightarrow> real" where
  "color2 (Color3 r g b) = b"
| "color2 (Color4 r g b a) = b"

text \<open>\<open>color[3]\<close> is \<open>undefined\<close> for a three-channel colour.\<close>

fun color3 :: "Color \<Rightarrow> real option" where
  "color3 (Color3 r g b) = None"
| "color3 (Color4 r g b a) = Some a"

record ParticleLayerProps =
  image_prop :: image
  bounds :: Bbox
  imageUnscale :: "(real \<times> real) option"
  numParticles :: int
  maxAge :: int
  speedFactor :: real
  color :: Color
  width :: real
  animate :: bool

record UniformProps =
  u_numParticles :: int
  u_maxAge :: int
  u_speedFactor :: real
  u_time :: real
  u_seed :: real
  u_viewportBounds :: Bbox
  u_viewportZoomChangeFactor :: real
  u_imageUnscale :: "real \<times> real"
  u_bounds :: Bbox
  u_bitmapTexture :: "texture_id option"

text \<open>
  The \<open>BufferTransform\<close>: the buffer bound as its input attribute \<open>sourcePosition\<close>, the
  buffer bound as its feedback output \<open>targetPosition\<close>, and its vertex count.
\<close>

record BufferTransform =
  sourcePosition :: buffer_id
  targetPosition :: buffer_id
  vertexCount :: int

text \<open>
  \<open>this.state\<close>. A field that JavaScript leaves \<open>undefined\<close> is \<open>None\<close> where the
  source dereferences it; the numeric fields, which are read only under \<open>initialized\<close>,
  hold 0 until they are first set.
\<close>

record LayerState =
  initialized :: bool
  numInstances :: int
  numAgedInstances :: int
  sourcePositions :: "buffer_id option"
  targetPositions :: "buffer_id option"
  sourcePositions64Low :: "real list"
  targetPositions64Low :: "real list"
  colors :: "buffer_id option"
  widths :: "real list"
  transform :: "BufferTransform option"
  previousViewportZoom :: real
  previousTime :: real
  texture :: "texture_id option"
  stepRequested :: bool

definition initial_state :: LayerState where
  "initial_state =
     \<lparr>initialized = False, numInstances = 0, numAgedInstances = 0,
      sourcePositions = None, targetPositions = None,
      sourcePositions64Low = [], targetPositions64Low = [],
      colors = None, widths = [], transform = None,
      previousViewportZoom = 0, previousTime = 0, texture = None,
      stepRequested = False\<rparr>"

definition initial_device :: device where
  "initial_device = \<lparr>buffers = (\<lambda>b. None), next_buffer = 0\<rparr>"

text \<open>
  What a tick reads from outside the layer: \<open>viewport.zoom\<close>, \<open>viewport.getBounds()\<close>,
  \<open>timeline.getTime()\<close> and \<open>Math.random()\<close>.
\<close>

record TickContext =
  viewport_zoom :: real
  viewport_getBounds :: Bbox
  timeline_getTime :: real
  Math_random :: real

text \<open>\<open>getViewportBounds(viewport)\<close>.\<close>

definition getViewportBounds :: "TickContext \<Rightarrow> Bbox" where
  "getViewportBounds ctx = wrapBounds (viewport_getBounds ctx)"

text \<open>
  The update shader \<open>particle-layer-update-transform.vs.glsl.js\<close> is not among the
  sources: the kernel is a parameter, a function of the uniforms, the vertex index and
  the vertex's source position.
\<close>

type_synonym kernel = "UniformProps \<Rightarrow> nat \<Rightarrow> vec3 \<Rightarrow> vec3"

subsection \<open>Allocation and release\<close>

text \<open>\<open>_deleteTransformFeedback()\<close>. The \<open>setState\<close> call clears \<open>sourcePositions\<close>,
  \<open>targetPositions\<close> and \<open>transform\<close> (and fields the state does not have); \<open>colors\<close>
  keeps its reference to the destroyed buffer.\<close>

definition deleteTransformFeedback :: "LayerState \<times> device \<Rightarrow> error + LayerState \<times> device" where
  "deleteTransformFeedback sd =
     (let (st, dev) = sd in
      if \<not> initialized st then Inr (st, dev)
      else
        case (sourcePositions st, targetPositions st, colors st, transform st) of
          (Some src, Some tgt, Some col, Some tf) \<Rightarrow>
            Inr (st\<lparr>initialized := False, sourcePositions := None,
                    targetPositions := None, transform := None\<rparr>,
                 destroy col (destroy tgt (destroy src dev)))
        | _ \<Rightarrow> Inl TypeError)"

text \<open>The data of the colour buffer: four floats for each instance.\<close>

definition colorData :: "Color \<Rightarrow> int \<Rightarrow> int \<Rightarrow> int \<Rightarrow> real list" where
  "colorData c np ma ni =
     concat (map (\<lambda>i.
        let age = \<lfloor>real i / real_of_int np\<rfloor>
        in map (\<lambda>d. d / 255)
             [color0 c, color1 c, color2 c,
              (case color3 c of None \<Rightarrow> 255 | Some a \<Rightarrow> a) *
                (1 - real_of_int age / real_of_int ma)])
        [0..<nat ni])"

text \<open>\<open>_setupTransformFeedback()\<close>.\<close>

definition setupTransformFeedback ::
  "ParticleLayerProps \<Rightarrow> LayerState \<times> device \<Rightarrow> error + LayerState \<times> device" where
  "setupTransformFeedback props sd =
     (case (if initialized (fst sd) then deleteTransformFeedback sd else Inr sd) of
        Inl e \<Rightarrow> Inl e
      | Inr (st, dev) \<Rightarrow>
         (case image_prop props of
            ImageUrl url \<Rightarrow> Inr (st, dev)
          | ImageNull \<Rightarrow> Inr (st, dev)
          | ImageTexture tex \<Rightarrow>
             (let ni = numParticles props * maxAge props;
                  nai = numParticles props * (maxAge props - 1)
              in case Float32Array (ni * 3) of
                   Inl e \<Rightarrow> Inl e
                 | Inr zeros \<Rightarrow>
                    (let (src, dev1) = createBuffer zeros dev;
                         (tgt, dev2) = createBuffer zeros dev1;
                         (col, dev3) = createBuffer
                            (colorData (color props) (numParticles props) (maxAge props) ni) dev2;
                         tf = \<lparr>sourcePosition = src, targetPosition = tgt,
                               vertexCount = numParticles props\<rparr>
                     in Inr (st\<lparr>initialized := True, numInstances := ni,
                                numAgedInstances := nai,
                                sourcePositions := Some src, targetPositions := Some tgt,
                                sourcePositions64Low := [0, 0, 0],
                                targetPositions64Low := [0, 0, 0],
                                colors := Some col, widths := [width props],
                                transform := Some tf, texture := Some tex,
                                previousViewportZoom := 0, previousTime := 0\<rparr>,
                             dev3)))))"

text \<open>\<open>initializeState()\<close>: the part that concerns the engine, on the fresh state.\<close>

definition initializeState :: "ParticleLayerProps \<Rightarrow> device \<Rightarrow> error + LayerState \<times> device" where
  "initializeState props dev = setupTransformFeedback props (initial_state, dev)"

text \<open>\<open>updateState({props, oldProps})\<close>; a number is falsy when it is 0.\<close>

definition updateState ::
  "ParticleLayerProps \<Rightarrow> ParticleLayerProps \<Rightarrow> LayerState \<times> device \<Rightarrow> error + LayerState \<times> device" where
  "updateState props oldProps sd =
     (if numParticles props = 0 \<or> maxAge props = 0 \<or> width props = 0
      then deleteTransformFeedback sd
      else if image_prop props \<noteq> image_prop oldProps \<or>
              numParticles props \<noteq> numParticles oldProps \<or>
              maxAge props \<noteq> maxAge oldProps \<or>
              width props \<noteq> width oldProps
      then setupTransformFeedback props sd
      else Inr sd)"

definition finalizeState :: "LayerState \<times> device \<Rightarrow> error + LayerState \<times> device" where
  "finalizeState sd = deleteTransformFeedback sd"

subsection \<open>The tick\<close>

text \<open>The uniform block of a tick. \<open>x || 0\<close> is 0 when \<open>x\<close> is 0; an array is never
  falsy; an absent \<open>imageUnscale\<close> becomes \<open>[0, 0]\<close>.\<close>

definition moduleUniforms :: "ParticleLayerProps \<Rightarrow> LayerState \<Rightarrow> TickContext \<Rightarrow> UniformProps" where
  "moduleUniforms props st ctx =
     (let viewportBounds = getViewportBounds ctx;
          viewportZoomChangeFactor =
            2 powr ((previousViewportZoom st - viewport_zoom ctx) * 4);
          currentSpeedFactor = speedFactor props / 2 powr (viewport_zoom ctx + 7)
      in \<lparr>u_numParticles = numParticles props,
          u_maxAge = maxAge props,
          u_speedFactor = currentSpeedFactor,
          u_time = timeline_getTime ctx,
          u_seed = Math_random ctx,
          u_viewportBounds = viewportBounds,
          u_viewportZoomChangeFactor =
            (if viewportZoomChangeFactor = 0 then 0 else viewportZoomChangeFactor),
          u_imageUnscale = (case imageUnscale props of None \<Rightarrow> (0, 0) | Some v \<Rightarrow> v),
          u_bounds = bounds props,
          u_bitmapTexture = texture st\<rparr>)"

text \<open>\<open>transform.run()\<close>: the kernel runs on the first \<open>vertexCount\<close> positions of the
  bound source buffer and its outputs are written to the start of the feedback buffer.\<close>

definition transform_run :: "kernel \<Rightarrow> UniformProps \<Rightarrow> BufferTransform \<Rightarrow> device \<Rightarrow> device" where
  "transform_run k u tf dev =
     (case (buffers dev (sourcePosition tf), buffers dev (targetPosition tf)) of
        (Some s, Some t) \<Rightarrow>
          if 0 \<le> vertexCount tf \<and> sourcePosition tf \<noteq> targetPosition tf \<and>
             3 * nat (vertexCount tf) \<le> length s \<and> 3 * nat (vertexCount tf) \<le> length t
          then dev\<lparr>buffers := (buffers dev)(targetPosition tf \<mapsto>
                 concat (map (\<lambda>p. vec3_floats (k u p (slot s p))) [0..<nat (vertexCount tf)]) @
                 drop (3 * nat (vertexCount tf)) t)\<rparr>
          else dev
      | _ \<Rightarrow> dev)"

text \<open>\<open>_runTransformFeedback()\<close>.\<close>

definition runTransformFeedback ::
  "kernel \<Rightarrow> ParticleLayerProps \<Rightarrow> TickContext \<Rightarrow> LayerState \<times> device \<Rightarrow> error + LayerState \<times> device" where
  "runTransformFeedback k props ctx sd =
     (let (st, dev) = sd in
      if \<not> initialized st then Inr (st, dev)
      else
        let time = timeline_getTime ctx in
        if time = previousTime st then Inr (st, dev)
        else
          case (transform st, sourcePositions st, targetPositions st) of
            (Some tf, Some src, Some tgt) \<Rightarrow>
              (let dev1 = transform_run k (moduleUniforms props st ctx) tf dev;
                   dev2 = copyBufferToBuffer src 0 tgt (numParticles props * 4 * 3)
                            (numAgedInstances st * 4 * 3) dev1
               in Inr (st\<lparr>sourcePositions := Some tgt, targetPositions := Some src,
                          transform := Some (tf\<lparr>sourcePosition := tgt, targetPosition := src\<rparr>),
                          previousViewportZoom := viewport_zoom ctx,
                          previousTime := time\<rparr>,
                       dev2))
          | _ \<Rightarrow> Inl TypeError)"

text \<open>\<open>_resetTransformFeedback()\<close>.\<close>

definition resetTransformFeedback :: "LayerState \<times> device \<Rightarrow> error + LayerState \<times> device" where
  "resetTransformFeedback sd =
     (let (st, dev) = sd in
      if \<not> initialized st then Inr (st, dev)
      else
        case (sourcePositions st, targetPositions st) of
          (Some src, Some tgt) \<Rightarrow>
            (case Float32Array (numInstances st * 3) of
               Inl e \<Rightarrow> Inl e
             | Inr zeros \<Rightarrow> Inr (st, buffer_write tgt zeros (buffer_write src zeros dev)))
        | _ \<Rightarrow> Inl TypeError)"

text \<open>\<open>step()\<close> and \<open>clear()\<close>; their \<open>setNeedsRedraw()\<close> is the host layer's and touches
  neither \<open>this.state\<close> nor a buffer.\<close>

definition step ::
  "kernel \<Rightarrow> ParticleLayerProps \<Rightarrow> TickContext \<Rightarrow> LayerState \<times> device \<Rightarrow> error + LayerState \<times> device" where
  "step k props ctx sd = runTransformFeedback k props ctx sd"

definition clear :: "LayerState \<times> device \<Rightarrow> error + LayerState \<times> device" where
  "clear sd = resetTransformFeedback sd"

text \<open>A run of ticks, one for each context, stopping at the first that raises.\<close>

fun steps ::
  "kernel \<Rightarrow> ParticleLayerProps \<Rightarrow> TickContext list \<Rightarrow> LayerState \<times> device \<Rightarrow> error + LayerState \<times> device" where
  "steps k props [] sd = Inr sd"
| "steps k props (ctx # ctxs) sd =
     (case step k props ctx sd of Inl e \<Rightarrow> Inl e | Inr sd' \<Rightarrow> steps k props ctxs sd')"

subsection \<open>The animation scheduler\<close>

text \<open>\<open>const FPS = 30\<close>.\<close>

definition FPS :: real where
  "FPS = 30"

text \<open>
  The JavaScript timers: a pending \<open>setTimeout\<close> is a delay in milliseconds and a
  callback. The source passes one callback, the arrow function
  \<open>() => { this.step(); this.state.stepRequested = false; }\<close>.
\<close>

datatype callback = StepThenClearFlag

type_synonym timer = "real \<times> callback"

text \<open>\<open>requestStep()\<close>.\<close>

definition requestStep :: "LayerState \<times> timer list \<Rightarrow> LayerState \<times> timer list" where
  "requestStep lt =
     (let (st, timers) = lt in
      if stepRequested st then (st, timers)
      else (st\<lparr>stepRequested := True\<rparr>, timers @ [(1000 / FPS, StepThenClearFlag)]))"

text \<open>The callback when its timer fires: an exception of \<open>step\<close> leaves the flag set.\<close>

definition run_callback ::
  "kernel \<Rightarrow> ParticleLayerProps \<Rightarrow> TickContext \<Rightarrow> LayerState \<times> device \<Rightarrow> error + LayerState \<times> device" where
  "run_callback k props ctx sd =
     (case step k props ctx sd of
        Inl e \<Rightarrow> Inl e
      | Inr (st, dev) \<Rightarrow> Inr (st\<lparr>stepRequested := False\<rparr>, dev))"

text \<open>\<open>draw()\<close>: the part that concerns the engine.\<close>

definition draw :: "ParticleLayerProps \<Rightarrow> LayerState \<times> timer list \<Rightarrow> LayerState \<times> timer list" where
  "draw props lt =
     (let (st, timers) = lt in
      if \<not> initialized st then (st, timers)
      else if animate props then requestStep (st, timers)
      else (st, timers))"

text \<open>
  A layer in its surroundings: its props, its state, the device and the pending timers;
  and what can happen to it. A timer that fires is the oldest pending one. A run follows
  the layer from \<open>initializeState\<close> up to the first uncaught exception.
\<close>

record world =
  w_props :: ParticleLayerProps
  w_state :: LayerState
  w_device :: device
  w_timers :: "timer list"

datatype event =
  Draw | RequestStep | TimerFires TickContext | Step TickContext | Clear
  | UpdateState ParticleLayerProps | Finalize

definition commit :: "world \<Rightarrow> error + LayerState \<times> device \<Rightarrow> error + world" where
  "commit w r = (case r of Inl e \<Rightarrow> Inl e
                 | Inr (st, dev) \<Rightarrow> Inr (w\<lparr>w_state := st, w_device := dev\<rparr>))"

fun fire :: "kernel \<Rightarrow> event \<Rightarrow> world \<Rightarrow> error + world" where
  "fire k Draw w =
     (let (st, ts) = draw (w_props w) (w_state w, w_timers w)
      in Inr (w\<lparr>w_state := st, w_timers := ts\<rparr>))"
| "fire k RequestStep w =
     (let (st, ts) = requestStep (w_state w, w_timers w)
      in Inr (w\<lparr>w_state := st, w_timers := ts\<rparr>))"
| "fire k (TimerFires ctx) w =
     (case w_timers w of
        [] \<Rightarrow> Inr w
      | (delay, StepThenClearFlag) # ts \<Rightarrow>
          commit (w\<lparr>w_timers := ts\<rparr>)
            (run_callback k (w_props w) ctx (w_state w, w_device w)))"
| "fire k (Step ctx) w = commit w (step k (w_props w) ctx (w_state w, w_device w))"
| "fire k Clear w = commit w (clear (w_state w, w_device w))"
| "fire k (UpdateState props) w =
     commit (w\<lparr>w_props := props\<rparr>) (updateState props (w_props w) (w_state w, w_device w))"
| "fire k Finalize w = commit w (finalizeState (w_state w, w_device w))"

fun run :: "kernel \<Rightarrow> event list \<Rightarrow> world \<Rightarrow> error + world" where
  "run k [] w = Inr w"
| "run k (e # es) w = (case fire k e w of Inl x \<Rightarrow> Inl x | Inr w' \<Rightarrow> run k es w')"

definition start :: "kernel \<Rightarrow> ParticleLayerProps \<Rightarrow> device \<Rightarrow> event list \<Rightarrow> error + world" where
  "start k props dev evs =
     (case initializeState props dev of
        Inl e \<Rightarrow> Inl e
      | Inr (st, dev') \<Rightarrow>
          run k evs \<lparr>w_props = props, w_state = st, w_device = dev', w_timers = []\<rparr>)"

text \<open>The scheduler's invariant: no timer pending, or the flag set and exactly one.\<close>

definition sched_inv :: "world \<Rightarrow> bool" where
  "sched_inv w =
     (w_timers w = [] \<or>
      (stepRequested (w_state w) \<and> w_timers w = [(1000 / 30, StepThenClearFlag)]))"

subsection \<open>Reading the buffers of a state\<close>

definition sourceData :: "LayerState \<times> device \<Rightarrow> real list option" where
  "sourceData sd =
     (case sourcePositions (fst sd) of None \<Rightarrow> None | Some b \<Rightarrow> buffers (snd sd) b)"

definition targetData :: "LayerState \<times> device \<Rightarrow> real list option" where
  "targetData sd =
     (case targetPositions (fst sd) of None \<Rightarrow> None | Some b \<Rightarrow> buffers (snd sd) b)"

definition colorsData :: "LayerState \<times> device \<Rightarrow> real list option" where
  "colorsData sd =
     (case colors (fst sd) of None \<Rightarrow> None | Some b \<Rightarrow> buffers (snd sd) b)"

subsection \<open>Invariants\<close>

text \<open>
  An initialized state as \<open>_setupTransformFeedback\<close> builds it and the tick keeps it, for
  props with positive counts: the three buffers exist and are distinct, the transform
  reads the source buffer and writes the target buffer, and the sizes are those of
  \<open>numParticles * maxAge\<close> instances.
\<close>

definition state_ok :: "ParticleLayerProps \<Rightarrow> LayerState \<times> device \<Rightarrow> bool" where
  "state_ok props sd =
     (let (st, dev) = sd in
      initialized st \<and> 0 < numParticles props \<and> 0 < maxAge props \<and>
      numInstances st = numParticles props * maxAge props \<and>
      numAgedInstances st = numParticles props * (maxAge props - 1) \<and>
      (case (sourcePositions st, targetPositions st, colors st, transform st) of
         (Some src, Some tgt, Some col, Some tf) \<Rightarrow>
           src \<noteq> tgt \<and> col \<noteq> src \<and> col \<noteq> tgt \<and>
           tf = \<lparr>sourcePosition = src, targetPosition = tgt,
                  vertexCount = numParticles props\<rparr> \<and>
           (case (buffers dev src, buffers dev tgt, buffers dev col) of
              (Some s, Some t, Some c) \<Rightarrow>
                length s = nat (numInstances st * 3) \<and>
                length t = nat (numInstances st * 3) \<and>
                length c = nat (numInstances st * 4)
            | _ \<Rightarrow> False)
       | _ \<Rightarrow> False))"

text \<open>
  The part of it that does not depend on the props, and what an uninitialized state
  looks like: no position buffer, no transform, and no live colour buffer (\<open>colors\<close> may
  still name the destroyed one). The fresh state satisfies it and every operation keeps
  it.
\<close>

definition state_wf :: "LayerState \<times> device \<Rightarrow> bool" where
  "state_wf sd =
     (let (st, dev) = sd in
      if initialized st then
        0 \<le> numInstances st \<and>
        (case (sourcePositions st, targetPositions st, colors st, transform st) of
           (Some src, Some tgt, Some col, Some tf) \<Rightarrow>
             src \<noteq> tgt \<and> col \<noteq> src \<and> col \<noteq> tgt \<and>
             sourcePosition tf = src \<and> targetPosition tf = tgt \<and>
             (case (buffers dev src, buffers dev tgt) of
                (Some s, Some t) \<Rightarrow>
                  length s = nat (numInstances st * 3) \<and>
                  length t = nat (numInstances st * 3)
              | _ \<Rightarrow> False)
         | _ \<Rightarrow> False)
      else
        sourcePositions st = None \<and> targetPositions st = None \<and> transform st = None \<and>
        (case colors st of None \<Rightarrow> True | Some col \<Rightarrow> buffers dev col = None))"

subsection \<open>A concrete engine: four particles, three cohorts\<close>

definition props_4_3 :: ParticleLayerProps where
  "props_4_3 =
     \<lparr>image_prop = ImageTexture 0, bounds = (- 180, - 90, 180, 90),
      imageUnscale = Some (- 128, 127), numParticles = 4, maxAge = 3, speedFactor = 3,
      color = Color4 255 255 255 255, width = 2, animate = True\<rparr>"

definition ctx_1 :: TickContext where
  "ctx_1 = \<lparr>viewport_zoom = 1, viewport_getBounds = (170, - 10, - 170, 10),
            timeline_getTime = 1, Math_random = 1 / 2\<rparr>"

text \<open>A kernel that marks each vertex with its index.\<close>

definition kernel_mark :: kernel where
  "kernel_mark u p v = (1 + real p, 2, 0)"

text \<open>The same moment as the allocation's \<open>previousTime\<close>: timeline time 0.\<close>

definition ctx_0 :: TickContext where
  "ctx_0 = \<lparr>viewport_zoom = 1, viewport_getBounds = (170, - 10, - 170, 10),
            timeline_getTime = 0, Math_random = 1 / 2\<rparr>"

definition state_4_3 :: "LayerState \<times> device" where
  "state_4_3 =
     (\<lparr>initialized = True, numInstances = 12, numAgedInstances = 8,
       sourcePositions = Some 0, targetPositions = Some 1,
       sourcePositions64Low = [0, 0, 0], targetPositions64Low = [0, 0, 0],
       colors = Some 2, widths = [2],
       transform = Some \<lparr>sourcePosition = 0, targetPosition = 1, vertexCount = 4\<rparr>,
       previousViewportZoom = 0, previousTime = 0, texture = Some 0,
       stepRequested = False\<rparr>,
      \<lparr>buffers = (\<lambda>b. None)(0 \<mapsto> replicate 36 0, 1 \<mapsto> replicate 36 0,
                   2 \<mapsto> colorData (Color4 255 255 255 255) 4 3 12),
       next_buffer = 3\<rparr>)"

text \<open>The engine after one tick of \<open>kernel_mark\<close> at time 1.\<close>

definition state_4_3_ticked :: "LayerState \<times> device" where
  "state_4_3_ticked =
     (\<lparr>initialized = True, numInstances = 12, numAgedInstances = 8,
       sourcePositions = Some 1, targetPositions = Some 0,
       sourcePositions64Low = [0, 0, 0], targetPositions64Low = [0, 0, 0],
       colors = Some 2, widths = [2],
       transform = Some \<lparr>sourcePosition = 1, targetPosition = 0, vertexCount = 4\<rparr>,
       previousViewportZoom = 1, previousTime = 1, texture = Some 0,
       stepRequested = False\<rparr>,
      \<lparr>buffers = (\<lambda>b. None)(0 \<mapsto> replicate 36 0,
                   1 \<mapsto> [1, 2, 0, 2, 2, 0, 3, 2, 0, 4, 2, 0] @ replicate 24 0,
                   2 \<mapsto> colorData (Color4 255 255 255 255) 4 3 12),
       next_buffer = 3\<rparr>)"

text \<open>The same props with no particles, and with the image still a URL.\<close>

definition props_0_3 :: ParticleLayerProps where
  "props_0_3 = props_4_3\<lparr>numParticles := 0\<rparr>"

definition props_url :: ParticleLayerProps where
  "props_url = props_4_3\<lparr>image_prop := ImageUrl ''wind.png''\<rparr>"

text \<open>The same props with a null image, and a later tick.\<close>

definition props_null :: ParticleLayerProps where
  "props_null = props_4_3\<lparr>image_prop := ImageNull\<rparr>"

definition ctx_2 :: TickContext where
  "ctx_2 = \<lparr>viewport_zoom = 1, viewport_getBounds = (170, - 10, - 170, 10),
            timeline_getTime = 2, Math_random = 1 / 4\<rparr>"

text \<open>
  What holds of every world a layer reaches: the state satisfies the invariant, and an
  initialized state under props with positive counts is one that allocation built for
  these counts.
\<close>

definition world_ok :: "world \<Rightarrow> bool" where
  "world_ok w =
     (state_wf (w_state w, w_device w) \<and>
      (initialized (w_state w) \<and> 0 < numParticles (w_props w) \<and> 0 < maxAge (w_props w) \<longrightarrow>
         state_ok (w_props w) (w_state w, w_device w)))"

text \<open>The world after allocation and one request for a step.\<close>

definition world_requested :: world where
  "world_requested =
     \<lparr>w_props = props_4_3, w_state = (fst state_4_3)\<lparr>stepRequested := True\<rparr>,
      w_device = snd state_4_3, w_timers = [(1000 / 30, StepThenClearFlag)]\<rparr>"


section \<open>Properties\<close>

subsection \<open>The modulo of the source is the true modulo\<close>

lemma true_mod_ge0:
  assumes "0 < y"
  shows "0 \<le> true_mod x y"
proof -
  have "y * of_int \<lfloor>x / y\<rfloor> \<le> y * (x / y)"
    by (rule mult_left_mono) (use assms in simp_all)
  also have "y * (x / y) = x"
    using assms by simp
  finally show ?thesis
    by (simp add: true_mod_def)
qed

lemma true_mod_lt:
  assumes "0 < y"
  shows "true_mod x y < y"
proof -
  have "x / y < of_int \<lfloor>x / y\<rfloor> + 1"
    by linarith
  hence "x < y * (of_int \<lfloor>x / y\<rfloor> + 1)"
    using assms by (simp add: field_simps)
  thus ?thesis
    by (simp add: true_mod_def algebra_simps)
qed

lemma true_mod_unique:
  assumes "0 < y" "0 \<le> r" "r < y" "r = x - y * of_int k"
  shows "true_mod x y = r"
proof -
  have "x / y = r / y + of_int k"
    using assms by (simp add: field_simps)
  moreover have "0 \<le> r / y" "r / y < 1"
    using assms by simp_all
  ultimately have "\<lfloor>x / y\<rfloor> = k"
    by (simp add: floor_eq_iff)
  thus ?thesis
    using assms by (simp add: true_mod_def)
qed

lemma js_rem_small:
  assumes "0 < y" "0 \<le> x" "x < y"
  shows "js_rem x y = x"
proof -
  have "\<lfloor>x / y\<rfloor> = 0"
    using assms by (simp add: floor_eq_iff)
  thus ?thesis
    using assms by (simp add: js_rem_def js_trunc_def)
qed

lemma js_rem_nonneg:
  assumes "0 < y" "0 \<le> x"
  shows "js_rem x y = true_mod x y"
  using assms by (simp add: js_rem_def js_trunc_def true_mod_def)

lemma js_rem_add_y:
  assumes "0 < y" "0 \<le> x"
  shows "js_rem (x + y) y = js_rem x y"
proof -
  have "(x + y) / y = x / y + 1"
    using assms by (simp add: field_simps)
  thus ?thesis
    using assms by (simp add: js_rem_def js_trunc_def algebra_simps)
qed

text \<open>For a negative dividend the remainder is negative or zero: the case the second
  \<open>%\<close> of \<open>modulo\<close> repairs.\<close>

lemma js_rem_neg_bounds:
  assumes "0 < y" "x < 0"
  shows "- y < js_rem x y" "js_rem x y \<le> 0"
proof -
  have "x / y < 0"
    using assms by (simp add: divide_neg_pos)
  hence c: "js_rem x y = x - y * of_int \<lceil>x / y\<rceil>"
    by (simp add: js_rem_def js_trunc_def)
  have e: "y * (x / y) = x"
    using assms by simp
  have "y * (x / y) \<le> y * of_int \<lceil>x / y\<rceil>"
    by (rule mult_left_mono) (use assms in simp_all)
  thus "js_rem x y \<le> 0"
    using c e by simp
  have "of_int \<lceil>x / y\<rceil> < x / y + 1"
    by linarith
  hence "y * of_int \<lceil>x / y\<rceil> < y * (x / y + 1)"
    using assms(1) by (rule mult_strict_left_mono)
  thus "- y < js_rem x y"
    using c e by (simp add: algebra_simps)
qed

lemma js_rem_int: "\<exists>k::int. js_rem x y = x - y * of_int k"
  by (auto simp: js_rem_def)

lemma modulo_true_mod:
  assumes "0 < y"
  shows "modulo x y = true_mod x y"
proof (cases "0 \<le> x")
  case True
  have "0 \<le> js_rem x y"
    using True assms by (simp add: js_rem_nonneg true_mod_ge0)
  hence "modulo x y = js_rem (js_rem x y) y"
    unfolding modulo_def using assms by (simp add: js_rem_add_y)
  also have "\<dots> = js_rem x y"
    using True assms by (simp add: js_rem_small js_rem_nonneg true_mod_ge0 true_mod_lt)
  finally show ?thesis
    using True assms by (simp add: js_rem_nonneg)
next
  case False
  hence neg: "x < 0"
    by simp
  define r where "r = js_rem x y"
  have b: "- y < r" "r \<le> 0"
    using js_rem_neg_bounds[OF assms neg] by (simp_all add: r_def)
  obtain k :: int where k: "r = x - y * of_int k"
    using js_rem_int r_def by blast
  show ?thesis
  proof (cases "r = 0")
    case True
    have "js_rem y y = 0"
      using assms by (simp add: js_rem_def js_trunc_def)
    hence "modulo x y = 0"
      using True by (simp add: modulo_def r_def[symmetric])
    moreover have "true_mod x y = 0"
      using true_mod_unique[of y 0 x k] assms k True by simp
    ultimately show ?thesis
      by simp
  next
    case False
    hence "0 \<le> r + y" "r + y < y"
      using b by simp_all
    hence "modulo x y = r + y"
      using assms by (simp add: modulo_def r_def[symmetric] js_rem_small)
    moreover have "r + y = x - y * of_int (k - 1)"
      using k by (simp add: algebra_simps)
    hence "true_mod x y = r + y"
      using true_mod_unique[OF assms \<open>0 \<le> r + y\<close> \<open>r + y < y\<close>] by blast
    ultimately show ?thesis
      by simp
  qed
qed

lemma wrapLongitude_None: "wrapLongitude lng None = spec_wrap lng"
  by (simp add: wrapLongitude_def spec_wrap_def modulo_true_mod)

lemma wrapLongitude_Some:
  "wrapLongitude lng (Some m) = (if spec_wrap lng < m then spec_wrap lng + 360 else spec_wrap lng)"
  by (simp add: wrapLongitude_def spec_wrap_def modulo_true_mod)

lemma spec_wrap_range: "- 180 \<le> spec_wrap lng" "spec_wrap lng < 180"
  using true_mod_ge0[of 360 "lng + 180"] true_mod_lt[of 360 "lng + 180"]
  by (simp_all add: spec_wrap_def)

text \<open>
  \<^bold>\<open>C3\<close>. \<open>wrapBounds\<close> is a total function of \<open>[west, south, east, north]\<close>. When
  \<open>east - west < 360\<close>, the new west is \<open>((west + 180) mod 360) - 180\<close> with the true
  modulo and lies in \<open>[-180, 180)\<close>; the new east is wrapped the same way, plus 360 when
  the wrapped east is below the new west, so it is never below the new west. When
  \<open>east - west \<ge> 360\<close>, the new west is -180 and the new east 180. The latitudes are
  clamped, \<open>south' = max south (-90)\<close> and \<open>north' = min north 90\<close>, so
  \<open>south' \<ge> -90\<close> and \<open>north' \<le> 90\<close>; nothing reorders or rejects a box whose clamped
  south exceeds its clamped north.
\<close>

theorem wrapBounds_spec:
  fixes west south east north :: real
  shows "(case wrapBounds (west, south, east, north) of (west', south', east', north') \<Rightarrow>
      (east - west < 360 \<longrightarrow>
         west' = spec_wrap west \<and>
         east' = (if spec_wrap east < west' then spec_wrap east + 360 else spec_wrap east) \<and>
         - 180 \<le> west' \<and> west' < 180 \<and> west' \<le> east') \<and>
      (360 \<le> east - west \<longrightarrow> west' = - 180 \<and> east' = 180) \<and>
      south' = max south (- 90) \<and> north' = min north 90 \<and>
      - 90 \<le> south' \<and> north' \<le> 90)"
proof -
  have "spec_wrap west \<le> spec_wrap east + 360"
    using spec_wrap_range[of west] spec_wrap_range[of east] by linarith
  thus ?thesis
    using spec_wrap_range[of west]
    by (simp add: wrapLongitude_None wrapLongitude_Some Let_def)
qed

theorem wrapBounds_spec_witness:
  "(- 170 - 170 < (360::real)) \<and> wrapBounds (170, - 10, - 170, 10) = (170, - 10, 190, 10) \<and>
   ((360::real) \<le> 200 - (- 200)) \<and> wrapBounds (- 200, - 100, 200, 100) = (- 180, - 90, 180, 90)"
proof -
  have a: "spec_wrap 170 = 170"
    by (simp add: spec_wrap_def true_mod_def)
  have b: "spec_wrap (- 170) = - 170"
    by (simp add: spec_wrap_def true_mod_def)
  show ?thesis
    using wrapBounds_spec[of 170 "- 10" "- 170" 10]
      wrapBounds_spec[of "- 200" "- 100" 200 100]
    by (simp add: a b wrapLongitude_None wrapLongitude_Some Let_def)
qed

subsection \<open>Positions in a flat buffer\<close>

lemma flatten_Nil: "flatten [] = []" by (simp add: flatten_def)
lemma flatten_Cons: "flatten ((x, y, z) # vs) = x # y # z # flatten vs" by (simp add: flatten_def)

lemma length_flatten: "length (flatten vs) = 3 * length vs"
  by (induction vs) (auto simp: flatten_Nil flatten_Cons)

lemma slot_Cons3: "slot (x # y # z # b) (Suc p) = slot b p"
  by (simp add: slot_def)

lemma slot_flatten: "p < length vs \<Longrightarrow> slot (flatten vs @ r) p = vs ! p"
proof (induction vs arbitrary: p)
  case Nil
  then show ?case by simp
next
  case (Cons v vs)
  obtain x y z where v: "v = (x, y, z)" by (cases v)
  show ?case
  proof (cases p)
    case 0
    then show ?thesis by (simp add: v flatten_Cons slot_def)
  next
    case (Suc q)
    then show ?thesis using Cons by (simp add: v flatten_Cons slot_Cons3)
  qed
qed

lemma slot_append_right:
  "length a = 3 * m \<Longrightarrow> slot (a @ b) (m + j) = slot b j"
  by (simp add: slot_def nth_append algebra_simps)

lemma slot_take:
  "p < m \<Longrightarrow> slot (take (3 * m) b) p = slot b p"
  by (simp add: slot_def)

subsection \<open>One tick on an initialized state\<close>

lemma state_okD:
  assumes "state_ok props (st, dev)"
  obtains src tgt col s t c where
    "initialized st" "0 < numParticles props" "0 < maxAge props"
    "numInstances st = numParticles props * maxAge props"
    "numAgedInstances st = numParticles props * (maxAge props - 1)"
    "sourcePositions st = Some src" "targetPositions st = Some tgt" "colors st = Some col"
    "transform st = Some \<lparr>sourcePosition = src, targetPosition = tgt, vertexCount = numParticles props\<rparr>"
    "src \<noteq> tgt" "col \<noteq> src" "col \<noteq> tgt"
    "buffers dev src = Some s" "buffers dev tgt = Some t" "buffers dev col = Some c"
    "length s = nat (numInstances st * 3)" "length t = nat (numInstances st * 3)"
    "length c = nat (numInstances st * 4)"
  using assms unfolding state_ok_def
  by (auto split: option.splits)

lemma length_kernel_out:
  "length (concat (map (\<lambda>p. vec3_floats (f p)) [0..<n])) = 3 * n"
  using length_flatten[of "map f [0..<n]"] by (simp add: flatten_def comp_def)

lemma copyBufferToBuffer_floats:
  assumes "buffers dev a = Some s" "buffers dev b = Some d" "a \<noteq> b"
    and "so = 4 * int i" "dof = 4 * int j" "sz = 4 * int n"
    and "i + n \<le> length s" "j + n \<le> length d"
  shows "copyBufferToBuffer a so b dof sz dev =
     dev\<lparr>buffers := (buffers dev)(b \<mapsto> take j d @ take n (drop i s) @ drop (j + n) d)\<rparr>"
proof -
  have "(4 * int j + 4 * int n) div 4 = int (j + n)"
    by simp
  hence "nat ((4 * int j + 4 * int n) div 4) = j + n"
    by (simp only: nat_int)
  thus ?thesis
    unfolding copyBufferToBuffer_def using assms by simp
qed

lemma step_result:
  assumes ok: "state_ok props (st, dev)"
    and t: "timeline_getTime ctx \<noteq> previousTime st"
    and src: "sourcePositions st = Some src" and tgt: "targetPositions st = Some tgt"
    and s: "buffers dev src = Some s"
  shows "step k props ctx (st, dev) =
     Inr (st\<lparr>sourcePositions := Some tgt, targetPositions := Some src,
             transform := Some \<lparr>sourcePosition = tgt, targetPosition = src,
                                 vertexCount = numParticles props\<rparr>,
             previousViewportZoom := viewport_zoom ctx,
             previousTime := timeline_getTime ctx\<rparr>,
          dev\<lparr>buffers := (buffers dev)(tgt \<mapsto>
             flatten (map (\<lambda>p. k (moduleUniforms props st ctx) p (slot s p))
                        [0..<nat (numParticles props)]) @
             take (3 * nat (numAgedInstances st)) s)\<rparr>)"
proof -
  from ok obtain src' tgt' col s' t' c where f:
    "initialized st" "0 < numParticles props" "0 < maxAge props"
    "numInstances st = numParticles props * maxAge props"
    "numAgedInstances st = numParticles props * (maxAge props - 1)"
    "sourcePositions st = Some src'" "targetPositions st = Some tgt'" "colors st = Some col"
    "transform st = Some \<lparr>sourcePosition = src', targetPosition = tgt', vertexCount = numParticles props\<rparr>"
    "src' \<noteq> tgt'" "col \<noteq> src'" "col \<noteq> tgt'"
    "buffers dev src' = Some s'" "buffers dev tgt' = Some t'" "buffers dev col = Some c"
    "length s' = nat (numInstances st * 3)" "length t' = nat (numInstances st * 3)"
    by (rule state_okD)
  have e: "src' = src" "tgt' = tgt" "s' = s" using f src tgt s by simp_all
  define np where "np = nat (numParticles props)"
  define ma where "ma = nat (maxAge props)"
  have np: "numParticles props = int np" "0 < np" using f by (simp_all add: np_def)
  have ma: "maxAge props = int ma" "0 < ma" using f by (simp_all add: ma_def)
  define na where "na = np * (ma - 1)"
  have sum: "np * ma = np + na"
    using ma(2) by (cases ma) (simp_all add: na_def)
  have ni: "numInstances st = int (np + na)"
    using f(4) np(1) ma(1) sum by (metis of_nat_mult)
  have nai: "numAgedInstances st = int na"
    using f(5) np(1) ma by (simp add: of_nat_diff na_def)
  have "numInstances st * 3 = int (3 * np + 3 * na)"
    using ni by simp
  hence n3: "nat (numInstances st * 3) = 3 * np + 3 * na"
    by (simp only: nat_int)
  have ls: "length s = 3 * np + 3 * na" "length t' = 3 * np + 3 * na"
    using f(16,17) e(3) n3 by simp_all
  define out where
    "out = concat (map (\<lambda>p. vec3_floats (k (moduleUniforms props st ctx) p (slot s p))) [0..<np])"
  define mid where "mid = out @ drop (3 * np) t'"
  have lo: "length out = 3 * np"
    unfolding out_def by (rule length_kernel_out)
  have bs: "buffers dev src = Some s" "buffers dev tgt = Some t'" "src \<noteq> tgt"
    using f(10,13,14) e by simp_all
  have run: "transform_run k (moduleUniforms props st ctx)
       \<lparr>sourcePosition = src, targetPosition = tgt, vertexCount = numParticles props\<rparr> dev
     = dev\<lparr>buffers := (buffers dev)(tgt \<mapsto> mid)\<rparr>"
    using bs ls np by (simp add: transform_run_def mid_def out_def)
  have tk: "take (3 * np) mid = out"
    using lo by (simp add: mid_def)
  have dr: "drop (3 * np + 3 * na) mid = []"
    using lo ls by (simp add: mid_def)
  have bs1: "buffers (dev\<lparr>buffers := (buffers dev)(tgt \<mapsto> mid)\<rparr>) src = Some s"
     "buffers (dev\<lparr>buffers := (buffers dev)(tgt \<mapsto> mid)\<rparr>) tgt = Some mid"
    using bs by simp_all
  have r1: "0 + 3 * na \<le> length s"
    using ls by simp
  have r2: "3 * np + 3 * na \<le> length mid"
    using lo ls by (simp add: mid_def)
  have copy: "copyBufferToBuffer src 0 tgt (numParticles props * 4 * 3) (numAgedInstances st * 4 * 3)
        (dev\<lparr>buffers := (buffers dev)(tgt \<mapsto> mid)\<rparr>)
     = dev\<lparr>buffers := (buffers dev)(tgt \<mapsto> out @ take (3 * na) s)\<rparr>"
    using copyBufferToBuffer_floats[OF bs1 bs(3) _ _ _ r1 r2, of 0 "numParticles props * 4 * 3" "numAgedInstances st * 4 * 3"]
      np(1) nai
    by (simp add: tk dr)
  have st: "initialized st" "transform st = Some \<lparr>sourcePosition = src, targetPosition = tgt, vertexCount = numParticles props\<rparr>"
    using f(1,9) e by simp_all
  show ?thesis
    unfolding step_def runTransformFeedback_def
    using st t src tgt run copy
    by (simp add: flatten_def comp_def nai out_def np_def)
qed


lemma cohort_index_bound:
  fixes c p np ma :: nat
  assumes "1 \<le> c" "c \<le> ma - 1" "p < np"
  shows "(c - 1) * np + p < np * (ma - 1)" "c * np + p = np + ((c - 1) * np + p)"
proof -
  have "(c - 1) * np + p < (c - 1) * np + np"
    using assms(3) by simp
  also have "\<dots> = c * np"
    using assms(1) by (cases c) simp_all
  also have "\<dots> \<le> (ma - 1) * np"
    using assms(2) by (rule mult_le_mono1)
  finally show "(c - 1) * np + p < np * (ma - 1)"
    by (simp add: mult.commute)
  show "c * np + p = np + ((c - 1) * np + p)"
    using assms(1) by (cases c) simp_all
qed

text \<open>
  \<^bold>\<open>C1\<close>. A completed tick (the state is an initialized one for the props, and the
  timeline time differs from \<open>previousTime\<close>) returns normally and shifts the ages: for
  every cohort \<open>c\<close> with \<open>1 \<le> c \<le> maxAge - 1\<close> and every slot \<open>p < numParticles\<close>, cohort
  \<open>c\<close> slot \<open>p\<close> of the new source buffer is cohort \<open>c - 1\<close> slot \<open>p\<close> of the old source
  buffer; cohort 0 of the new source buffer is the kernel's output on cohort 0 of the old
  one: the copy, which starts one cohort in, leaves these slots as the transform wrote
  them; and \<open>numInstances\<close>, equal to \<open>numParticles * maxAge\<close>, and the buffer sizes are
  unchanged. The old source buffer is the new target buffer, with its contents as they
  were.
\<close>

theorem step_age_shift:
  assumes ok: "state_ok props (st, dev)"
    and t: "timeline_getTime ctx \<noteq> previousTime st"
  shows "\<exists>st' dev' old new.
     step k props ctx (st, dev) = Inr (st', dev') \<and>
     sourceData (st, dev) = Some old \<and> sourceData (st', dev') = Some new \<and>
     (\<forall>c p. 1 \<le> c \<and> int c \<le> maxAge props - 1 \<and> int p < numParticles props \<longrightarrow>
        slot new (c * nat (numParticles props) + p) =
        slot old ((c - 1) * nat (numParticles props) + p)) \<and>
     (\<forall>p. int p < numParticles props \<longrightarrow>
        slot new p = k (moduleUniforms props st ctx) p (slot old p)) \<and>
     numInstances st' = numInstances st \<and>
     numInstances st' = numParticles props * maxAge props \<and>
     int (length new) = 3 * numInstances st' \<and> length new = length old \<and>
     targetData (st', dev') = Some old \<and>
     (\<exists>tf b mid. transform st = Some tf \<and> targetPositions st = Some b \<and>
        buffers (transform_run k (moduleUniforms props st ctx) tf dev) b = Some mid \<and>
        (\<forall>p. int p < numParticles props \<longrightarrow> slot new p = slot mid p)) \<and>
     state_ok props (st', dev')"
proof -
  from ok obtain src tgt col s t' c where f:
    "initialized st" "0 < numParticles props" "0 < maxAge props"
    "numInstances st = numParticles props * maxAge props"
    "numAgedInstances st = numParticles props * (maxAge props - 1)"
    "sourcePositions st = Some src" "targetPositions st = Some tgt" "colors st = Some col"
    "transform st = Some \<lparr>sourcePosition = src, targetPosition = tgt, vertexCount = numParticles props\<rparr>"
    "src \<noteq> tgt" "col \<noteq> src" "col \<noteq> tgt"
    "buffers dev src = Some s" "buffers dev tgt = Some t'" "buffers dev col = Some c"
    "length s = nat (numInstances st * 3)" "length t' = nat (numInstances st * 3)"
    "length c = nat (numInstances st * 4)"
    by (rule state_okD)
  define np where "np = nat (numParticles props)"
  define ma where "ma = nat (maxAge props)"
  define na where "na = np * (ma - 1)"
  have np: "numParticles props = int np" "0 < np" using f by (simp_all add: np_def)
  have ma: "maxAge props = int ma" "0 < ma" using f by (simp_all add: ma_def)
  have nai: "numAgedInstances st = int na"
    using f(5) np(1) ma by (simp add: of_nat_diff na_def)
  have sum: "np * ma = np + na"
    using ma(2) by (cases ma) (simp_all add: na_def)
  have nim: "numInstances st = int (np + na)"
    using f(4) np(1) ma(1) sum by (metis of_nat_mult)
  have i3': "numInstances st * 3 = int (3 * np + 3 * na)"
    using nim by simp
  hence n3: "nat (numInstances st * 3) = 3 * np + 3 * na"
    by (simp only: nat_int)
  have ls: "length s = 3 * np + 3 * na" 
    using f(16) n3 by simp
  define out where "out = map (\<lambda>p. k (moduleUniforms props st ctx) p (slot s p)) [0..<np]"
  define new where "new = flatten out @ take (3 * na) s"
  define st' where "st' = st\<lparr>sourcePositions := Some tgt, targetPositions := Some src,
             transform := Some \<lparr>sourcePosition = tgt, targetPosition = src,
                                 vertexCount = numParticles props\<rparr>,
             previousViewportZoom := viewport_zoom ctx,
             previousTime := timeline_getTime ctx\<rparr>"
  define dev' where "dev' = dev\<lparr>buffers := (buffers dev)(tgt \<mapsto> new)\<rparr>"
  have res: "step k props ctx (st, dev) = Inr (st', dev')"
    using step_result[OF ok t f(6) f(7) f(13), of k]
    by (simp add: st'_def dev'_def new_def out_def np_def nai)
  have lout: "length out = np" "length (flatten out) = 3 * np"
    by (simp_all add: out_def length_flatten)
  have lnew: "length new = 3 * np + 3 * na"
    using lout ls by (simp add: new_def)
  have old: "sourceData (st, dev) = Some s"
    using f by (simp add: sourceData_def)
  have new: "sourceData (st', dev') = Some new"
    by (simp add: sourceData_def st'_def dev'_def)
  have tgt': "targetData (st', dev') = Some s"
    using f by (simp add: targetData_def st'_def dev'_def)
  have young: "slot new p = k (moduleUniforms props st ctx) p (slot s p)" if "p < np" for p
    using that slot_flatten[of p out "take (3 * na) s"] lout by (simp add: new_def out_def)
  have aged: "slot new (c * np + p) = slot s ((c - 1) * np + p)"
    if "1 \<le> c" "c \<le> ma - 1" "p < np" for c p
  proof -
    have b: "(c - 1) * np + p < na" and i: "c * np + p = np + ((c - 1) * np + p)"
      using cohort_index_bound[OF that] by (simp_all add: na_def)
    have "slot new (np + ((c - 1) * np + p)) = slot (take (3 * na) s) ((c - 1) * np + p)"
      unfolding new_def using lout(2) by (rule slot_append_right)
    also have "\<dots> = slot s ((c - 1) * np + p)"
      using b by (rule slot_take)
    finally show ?thesis
      by (simp only: i)
  qed
  have ok': "state_ok props (st', dev')"
    using f lnew n3 unfolding state_ok_def
    by (simp add: st'_def dev'_def)
  have cnt: "numInstances st' = numInstances st" "numInstances st' = numParticles props * maxAge props"
    using f by (simp_all add: st'_def)

  have len: "int (length new) = 3 * numInstances st'" "length new = length s"
    using lnew ls cnt(1) i3' by simp_all
  have aged': "\<forall>c p. 1 \<le> c \<and> int c \<le> maxAge props - 1 \<and> int p < numParticles props \<longrightarrow>
        slot new (c * nat (numParticles props) + p) =
        slot s ((c - 1) * nat (numParticles props) + p)"
    using aged ma np by (auto simp: np_def[symmetric])
  have young': "\<forall>p. int p < numParticles props \<longrightarrow>
        slot new p = k (moduleUniforms props st ctx) p (slot s p)"
    using young np by auto
  define mid where "mid = flatten out @ drop (3 * np) t'"
  have lt: "length t' = 3 * np + 3 * na"
    using f(17) n3 by simp
  have midb: "buffers (transform_run k (moduleUniforms props st ctx)
       \<lparr>sourcePosition = src, targetPosition = tgt, vertexCount = numParticles props\<rparr> dev) tgt
     = Some mid"
    using f(10,13,14) ls lt np
    by (simp add: transform_run_def mid_def out_def flatten_def comp_def)
  have "slot new p = slot mid p" if "p < np" for p
    using that slot_flatten[of p out "take (3 * na) s"] slot_flatten[of p out "drop (3 * np) t'"]
      lout(1)
    by (simp add: new_def mid_def)
  hence kept: "\<forall>p. int p < numParticles props \<longrightarrow> slot new p = slot mid p"
    using np by auto
  have copy: "\<exists>tf b mid. transform st = Some tf \<and> targetPositions st = Some b \<and>
        buffers (transform_run k (moduleUniforms props st ctx) tf dev) b = Some mid \<and>
        (\<forall>p. int p < numParticles props \<longrightarrow> slot new p = slot mid p)"
    using f(7,9) midb kept by blast
  have "step k props ctx (st, dev) = Inr (st', dev') \<and>
     sourceData (st, dev) = Some s \<and> sourceData (st', dev') = Some new \<and>
     (\<forall>c p. 1 \<le> c \<and> int c \<le> maxAge props - 1 \<and> int p < numParticles props \<longrightarrow>
        slot new (c * nat (numParticles props) + p) =
        slot s ((c - 1) * nat (numParticles props) + p)) \<and>
     (\<forall>p. int p < numParticles props \<longrightarrow>
        slot new p = k (moduleUniforms props st ctx) p (slot s p)) \<and>
     numInstances st' = numInstances st \<and>
     numInstances st' = numParticles props * maxAge props \<and>
     int (length new) = 3 * numInstances st' \<and> length new = length s \<and>
     targetData (st', dev') = Some s \<and>
     (\<exists>tf b mid. transform st = Some tf \<and> targetPositions st = Some b \<and>
        buffers (transform_run k (moduleUniforms props st ctx) tf dev) b = Some mid \<and>
        (\<forall>p. int p < numParticles props \<longrightarrow> slot new p = slot mid p)) \<and>
     state_ok props (st', dev')"
    using res old new aged' young' cnt len tgt' copy ok' by (intro conjI)
  thus ?thesis
    by (intro exI)
qed

lemma init_4_3: "initializeState props_4_3 initial_device = Inr state_4_3"
proof -
  have n: "Suc (Suc 0) = 2"
    by simp
  show ?thesis
    by (simp add: initializeState_def setupTransformFeedback_def props_4_3_def
        initial_device_def initial_state_def state_4_3_def Float32Array_def
        createBuffer_def Let_def n)
qed

lemma length_colorData: "length (colorData c np ma ni) = 4 * nat ni"
  by (simp add: colorData_def length_concat comp_def Let_def sum_list_triv)

lemma state_ok_4_3: "state_ok props_4_3 (fst state_4_3, snd state_4_3)"
  by (simp add: state_ok_def props_4_3_def state_4_3_def length_colorData)

theorem step_age_shift_witness:
  "state_ok props_4_3 (fst state_4_3, snd state_4_3) \<and>
   timeline_getTime ctx_1 \<noteq> previousTime (fst state_4_3) \<and>
   (\<exists>st' dev' old new.
     step kernel_mark props_4_3 ctx_1 (fst state_4_3, snd state_4_3) = Inr (st', dev') \<and>
     sourceData (fst state_4_3, snd state_4_3) = Some old \<and>
     sourceData (st', dev') = Some new \<and>
     (\<forall>c p. 1 \<le> c \<and> int c \<le> maxAge props_4_3 - 1 \<and> int p < numParticles props_4_3 \<longrightarrow>
        slot new (c * nat (numParticles props_4_3) + p) =
        slot old ((c - 1) * nat (numParticles props_4_3) + p)) \<and>
     (\<forall>p. int p < numParticles props_4_3 \<longrightarrow>
        slot new p = kernel_mark (moduleUniforms props_4_3 (fst state_4_3) ctx_1) p (slot old p)) \<and>
     numInstances st' = numInstances (fst state_4_3) \<and>
     numInstances st' = numParticles props_4_3 * maxAge props_4_3 \<and>
     int (length new) = 3 * numInstances st' \<and> length new = length old \<and>
     targetData (st', dev') = Some old \<and>
     (\<exists>tf b mid. transform (fst state_4_3) = Some tf \<and>
        targetPositions (fst state_4_3) = Some b \<and>
        buffers (transform_run kernel_mark (moduleUniforms props_4_3 (fst state_4_3) ctx_1) tf
                   (snd state_4_3)) b = Some mid \<and>
        (\<forall>p. int p < numParticles props_4_3 \<longrightarrow> slot new p = slot mid p)) \<and>
     state_ok props_4_3 (st', dev'))"
proof -
  have h1: "state_ok props_4_3 (fst state_4_3, snd state_4_3)"
    by (rule state_ok_4_3)
  have h2: "timeline_getTime ctx_1 \<noteq> previousTime (fst state_4_3)"
    by (simp add: ctx_1_def state_4_3_def)
  show ?thesis
    using h1 h2 step_age_shift[OF h1 h2, of kernel_mark] by blast
qed

subsection \<open>Allocation, release and the invariant\<close>

lemma state_wfD:
  assumes "state_wf (st, dev)" "initialized st"
  obtains src tgt col tf s t where
    "0 \<le> numInstances st"
    "sourcePositions st = Some src" "targetPositions st = Some tgt" "colors st = Some col"
    "transform st = Some tf" "sourcePosition tf = src" "targetPosition tf = tgt"
    "src \<noteq> tgt" "col \<noteq> src" "col \<noteq> tgt"
    "buffers dev src = Some s" "buffers dev tgt = Some t"
    "length s = nat (numInstances st * 3)" "length t = nat (numInstances st * 3)"
proof (cases "sourcePositions st"; cases "targetPositions st"; cases "colors st"; cases "transform st")
  fix src tgt col tf
  assume r: "sourcePositions st = Some src" "targetPositions st = Some tgt"
    "colors st = Some col" "transform st = Some tf"
  show thesis
  proof (cases "buffers dev src"; cases "buffers dev tgt")
    fix s t
    assume "buffers dev src = Some s" "buffers dev tgt = Some t"
    thus thesis
      using assms r that[of src tgt col tf s t] by (simp add: state_wf_def)
  qed (use assms r in \<open>simp_all add: state_wf_def\<close>)
qed (use assms in \<open>simp_all add: state_wf_def\<close>)


lemma state_ok_wf:
  assumes "state_ok props (st, dev)"
  shows "state_wf (st, dev)"
  using assms
  by (elim state_okD) (simp add: state_wf_def)

lemma delete_initialized:
  assumes "state_wf (st, dev)" "initialized st"
    and "sourcePositions st = Some src" "targetPositions st = Some tgt" "colors st = Some col"
  shows "deleteTransformFeedback (st, dev) =
     Inr (st\<lparr>initialized := False, sourcePositions := None,
             targetPositions := None, transform := None\<rparr>,
          destroy col (destroy tgt (destroy src dev)))"
proof -
  from assms(1,2) obtain tf where "transform st = Some tf"
    by (rule state_wfD)
  thus ?thesis
    using assms(2-) by (simp add: deleteTransformFeedback_def)
qed

lemma delete_result:
  assumes "state_wf (st, dev)"
  shows "\<exists>st' dev'. deleteTransformFeedback (st, dev) = Inr (st', dev') \<and>
     \<not> initialized st' \<and> state_wf (st', dev') \<and>
     stepRequested st' = stepRequested st \<and>
     next_buffer dev' = next_buffer dev \<and>
     (\<forall>b. buffers dev' b = None \<or> buffers dev' b = buffers dev b) \<and>
     (\<not> initialized st \<longrightarrow> st' = st \<and> dev' = dev)"
proof (cases "initialized st")
  case False
  thus ?thesis
    using assms by (simp add: deleteTransformFeedback_def)
next
  case True
  from assms True obtain src tgt col tf s t where f:
    "0 \<le> numInstances st"
    "sourcePositions st = Some src" "targetPositions st = Some tgt" "colors st = Some col"
    "transform st = Some tf" "sourcePosition tf = src" "targetPosition tf = tgt"
    "src \<noteq> tgt" "col \<noteq> src" "col \<noteq> tgt"
    "buffers dev src = Some s" "buffers dev tgt = Some t"
    "length s = nat (numInstances st * 3)" "length t = nat (numInstances st * 3)"
    by (rule state_wfD)
  define st' where "st' = st\<lparr>initialized := False, sourcePositions := None,
             targetPositions := None, transform := None\<rparr>"
  define dev' where "dev' = destroy col (destroy tgt (destroy src dev))"
  have d: "deleteTransformFeedback (st, dev) = Inr (st', dev')"
    using delete_initialized[OF assms True f(2,3,4)] by (simp add: st'_def dev'_def)
  have "\<not> initialized st'" "state_wf (st', dev')" "stepRequested st' = stepRequested st"
    "next_buffer dev' = next_buffer dev"
    "\<forall>b. buffers dev' b = None \<or> buffers dev' b = buffers dev b"
    using f(4) by (simp_all add: st'_def dev'_def state_wf_def destroy_def)
  thus ?thesis
    using d True by blast
qed

lemma setup_fresh:
  assumes "\<not> initialized st" "image_prop props = ImageTexture tex"
    and "0 \<le> numParticles props * maxAge props"
  shows "setupTransformFeedback props (st, dev) =
     Inr (st\<lparr>initialized := True,
             numInstances := numParticles props * maxAge props,
             numAgedInstances := numParticles props * (maxAge props - 1),
             sourcePositions := Some (next_buffer dev),
             targetPositions := Some (Suc (next_buffer dev)),
             sourcePositions64Low := [0, 0, 0], targetPositions64Low := [0, 0, 0],
             colors := Some (Suc (Suc (next_buffer dev))), widths := [width props],
             transform := Some \<lparr>sourcePosition = next_buffer dev,
                                 targetPosition = Suc (next_buffer dev),
                                 vertexCount = numParticles props\<rparr>,
             texture := Some tex, previousViewportZoom := 0, previousTime := 0\<rparr>,
          dev\<lparr>buffers := (buffers dev)
                 (next_buffer dev \<mapsto> replicate (nat (numParticles props * maxAge props * 3)) 0,
                  Suc (next_buffer dev) \<mapsto> replicate (nat (numParticles props * maxAge props * 3)) 0,
                  Suc (Suc (next_buffer dev)) \<mapsto>
                    colorData (color props) (numParticles props) (maxAge props)
                      (numParticles props * maxAge props)),
              next_buffer := Suc (Suc (Suc (next_buffer dev)))\<rparr>)"
  using assms
  by (simp add: setupTransformFeedback_def Float32Array_def createBuffer_def Let_def)

lemma setup_allocates:
  assumes wf: "state_wf (st, dev)" and img: "image_prop props = ImageTexture tex"
    and pos: "0 < numParticles props" "0 < maxAge props"
  shows "\<exists>st' dev'. setupTransformFeedback props (st, dev) = Inr (st', dev') \<and>
     state_ok props (st', dev') \<and>
     previousTime st' = 0 \<and> previousViewportZoom st' = 0 \<and>
     widths st' = [width props] \<and> stepRequested st' = stepRequested st \<and>
     sourceData (st', dev') = Some (replicate (nat (numParticles props * maxAge props * 3)) 0) \<and>
     targetData (st', dev') = Some (replicate (nat (numParticles props * maxAge props * 3)) 0) \<and>
     colorsData (st', dev') =
       Some (colorData (color props) (numParticles props) (maxAge props)
               (numParticles props * maxAge props))"
proof -
  obtain st1 dev1 where d: "deleteTransformFeedback (st, dev) = Inr (st1, dev1)"
    "\<not> initialized st1" "stepRequested st1 = stepRequested st"
    "\<not> initialized st \<longrightarrow> st1 = st \<and> dev1 = dev"
    using delete_result[OF wf] by blast
  have ni: "0 \<le> numParticles props * maxAge props"
    using pos by simp
  define st' where "st' = st1\<lparr>initialized := True,
             numInstances := numParticles props * maxAge props,
             numAgedInstances := numParticles props * (maxAge props - 1),
             sourcePositions := Some (next_buffer dev1),
             targetPositions := Some (Suc (next_buffer dev1)),
             sourcePositions64Low := [0, 0, 0], targetPositions64Low := [0, 0, 0],
             colors := Some (Suc (Suc (next_buffer dev1))), widths := [width props],
             transform := Some \<lparr>sourcePosition = next_buffer dev1,
                                 targetPosition = Suc (next_buffer dev1),
                                 vertexCount = numParticles props\<rparr>,
             texture := Some tex, previousViewportZoom := 0, previousTime := 0\<rparr>"
  define dev' where "dev' = dev1\<lparr>buffers := (buffers dev1)
                 (next_buffer dev1 \<mapsto> replicate (nat (numParticles props * maxAge props * 3)) 0,
                  Suc (next_buffer dev1) \<mapsto> replicate (nat (numParticles props * maxAge props * 3)) 0,
                  Suc (Suc (next_buffer dev1)) \<mapsto>
                    colorData (color props) (numParticles props) (maxAge props)
                      (numParticles props * maxAge props)),
              next_buffer := Suc (Suc (Suc (next_buffer dev1)))\<rparr>"
  have f: "setupTransformFeedback props (st1, dev1) = Inr (st', dev')"
    using setup_fresh[OF d(2) img ni] by (simp add: st'_def dev'_def)
  have "setupTransformFeedback props (st, dev) = setupTransformFeedback props (st1, dev1)"
    using d(1,2,4) by (cases "initialized st") (simp_all add: setupTransformFeedback_def)
  hence r: "setupTransformFeedback props (st, dev) = Inr (st', dev')"
    using f by simp
  have ok: "state_ok props (st', dev')"
    using pos by (simp add: state_ok_def st'_def dev'_def length_colorData)
  have rest: "previousTime st' = 0" "previousViewportZoom st' = 0"
     "widths st' = [width props]" "stepRequested st' = stepRequested st"
     "sourceData (st', dev') = Some (replicate (nat (numParticles props * maxAge props * 3)) 0)"
     "targetData (st', dev') = Some (replicate (nat (numParticles props * maxAge props * 3)) 0)"
     "colorsData (st', dev') =
       Some (colorData (color props) (numParticles props) (maxAge props)
               (numParticles props * maxAge props))"
    using d(3) by (simp_all add: st'_def dev'_def sourceData_def targetData_def colorsData_def)
  show ?thesis
    using r ok rest by blast
qed

lemma transform_run_frame:
  "next_buffer (transform_run k u tf dev) = next_buffer dev"
  "b \<noteq> targetPosition tf \<Longrightarrow> buffers (transform_run k u tf dev) b = buffers dev b"
  by (simp_all add: transform_run_def split: option.splits)

lemma transform_run_length:
  assumes "buffers dev (targetPosition tf) = Some t"
  shows "\<exists>t'. buffers (transform_run k u tf dev) (targetPosition tf) = Some t' \<and>
     length t' = length t"
  using assms
  by (simp add: transform_run_def length_kernel_out split: option.splits del: length_concat)

lemma copyBufferToBuffer_frame:
  "next_buffer (copyBufferToBuffer a so b dof sz dev) = next_buffer dev"
  "c \<noteq> b \<Longrightarrow> buffers (copyBufferToBuffer a so b dof sz dev) c = buffers dev c"
  by (simp_all add: copyBufferToBuffer_def split: option.splits)

lemma byte_offset:
  fixes x :: int
  assumes "0 \<le> x" "4 dvd x"
  obtains i :: nat where "x = 4 * int i"
proof -
  from assms(2) obtain k where k: "x = 4 * k"
    by (elim dvdE)
  hence "0 \<le> k"
    using assms(1) by simp
  hence "x = 4 * int (nat k)"
    using k by simp
  thus thesis
    by (rule that)
qed

lemma copyBufferToBuffer_length:
  assumes "buffers dev b = Some d"
  shows "\<exists>d'. buffers (copyBufferToBuffer a so b dof sz dev) b = Some d' \<and>
     length d' = length d"
proof (cases "buffers dev a")
  case None
  thus ?thesis
    using assms by (simp add: copyBufferToBuffer_def)
next
  case (Some s)
  show ?thesis
  proof (cases "0 \<le> so \<and> 0 \<le> dof \<and> 0 \<le> sz \<and> 4 dvd so \<and> 4 dvd dof \<and> 4 dvd sz \<and>
             a \<noteq> b \<and> so + sz \<le> 4 * int (length s) \<and> dof + sz \<le> 4 * int (length d)")
    case False
    thus ?thesis
      using assms Some by (auto simp: copyBufferToBuffer_def)
  next
    case True
    obtain i where i: "so = 4 * int i"
      using True by (elim conjE byte_offset)
    obtain j where j: "dof = 4 * int j"
      using True by (elim conjE byte_offset)
    obtain n where n: "sz = 4 * int n"
      using True by (elim conjE byte_offset)
    note ijn = i j n
    have rng: "i + n \<le> length s" "j + n \<le> length d"
      using True ijn by simp_all
    have "copyBufferToBuffer a so b dof sz dev =
        dev\<lparr>buffers := (buffers dev)(b \<mapsto> take j d @ take n (drop i s) @ drop (j + n) d)\<rparr>"
      using copyBufferToBuffer_floats[OF Some assms _ ijn rng] True by simp
    thus ?thesis
      using rng by simp
  qed
qed

lemma upt4: "[0..<4] = [0, 1, 2, 3]"
  by (simp add: upt_rec)

lemma step_4_3:
  "step kernel_mark props_4_3 ctx_1 (fst state_4_3, snd state_4_3) = Inr state_4_3_ticked"
proof -
  have t: "timeline_getTime ctx_1 \<noteq> previousTime (fst state_4_3)"
    by (simp add: ctx_1_def state_4_3_def)
  have m: "(\<lambda>b::nat. None)(0 \<mapsto> a, 2 \<mapsto> c, Suc 0 \<mapsto> n) = (\<lambda>b. None)(0 \<mapsto> a, Suc 0 \<mapsto> n, 2 \<mapsto> c)"
    for a c n :: "real list"
    by (rule ext) simp
  show ?thesis
    using step_result[OF state_ok_4_3 t, of 0 1 "replicate 36 0" kernel_mark]
    by (simp add: state_4_3_def state_4_3_ticked_def props_4_3_def ctx_1_def
        kernel_mark_def flatten_def upt4 m)
qed

lemma state_wf_4_3_ticked: "state_wf (fst state_4_3_ticked, snd state_4_3_ticked)"
  by (simp add: state_wf_def state_4_3_ticked_def)

lemma state_wf_initial: "state_wf (initial_state, dev)"
  by (simp add: state_wf_def initial_state_def)

subsection \<open>The stale-tick guard\<close>

text \<open>
  \<^bold>\<open>C2\<close>. When the timeline time equals \<open>previousTime\<close>, \<open>step\<close> returns the state and
  the device as they are: no kernel run, no copy, no swap, \<open>previousTime\<close> and
  \<open>previousViewportZoom\<close> unchanged. So a second \<open>step\<close> at the time of a first one that
  returned changes nothing, whatever the kernel, the props and the viewport of the
  second call.
\<close>

theorem step_same_time_noop:
  "(timeline_getTime ctx = previousTime st \<longrightarrow> step k props ctx (st, dev) = Inr (st, dev)) \<and>
   (step k props ctx (st, dev) = Inr sd' \<and> timeline_getTime ctx' = timeline_getTime ctx \<longrightarrow>
      step k' props' ctx' sd' = Inr sd')"
proof (intro conjI impI)
  assume "timeline_getTime ctx = previousTime st"
  thus "step k props ctx (st, dev) = Inr (st, dev)"
    by (simp add: step_def runTransformFeedback_def)
next
  assume a: "step k props ctx (st, dev) = Inr sd' \<and> timeline_getTime ctx' = timeline_getTime ctx"
  show "step k' props' ctx' sd' = Inr sd'"
  proof (cases "initialized st \<and> timeline_getTime ctx \<noteq> previousTime st")
    case False
    hence r: "step k props ctx (st, dev) = Inr (st, dev)"
      by (auto simp: step_def runTransformFeedback_def)
    hence "sd' = (st, dev)"
      using a by simp
    moreover have "step k' props' ctx' (st, dev) = Inr (st, dev)"
      using False a by (auto simp: step_def runTransformFeedback_def)
    ultimately show ?thesis
      by simp
  next
    case True
    obtain st' dev' where sd': "sd' = (st', dev')"
      by (cases sd')
    have "initialized st' \<and> previousTime st' = timeline_getTime ctx"
      using a True unfolding sd' step_def runTransformFeedback_def
      by (simp add: Let_def split: option.splits) auto
    thus ?thesis
      using a by (simp add: sd' step_def runTransformFeedback_def)
  qed
qed

theorem step_same_time_noop_witness:
  "timeline_getTime ctx_0 = previousTime (fst state_4_3) \<and>
   step kernel_mark props_4_3 ctx_0 (fst state_4_3, snd state_4_3) =
     Inr (fst state_4_3, snd state_4_3) \<and>
   step kernel_mark props_4_3 ctx_1 (fst state_4_3, snd state_4_3) = Inr state_4_3_ticked \<and>
   timeline_getTime ctx_1 = timeline_getTime ctx_1 \<and>
   state_4_3_ticked \<noteq> state_4_3 \<and>
   step kernel_mark props_4_3 ctx_1 state_4_3_ticked = Inr state_4_3_ticked"
proof -
  have h0: "timeline_getTime ctx_0 = previousTime (fst state_4_3)"
    by (simp add: ctx_0_def state_4_3_def)
  have d: "state_4_3_ticked \<noteq> state_4_3"
    by (simp add: state_4_3_ticked_def state_4_3_def)
  show ?thesis
    using h0 d step_4_3
      step_same_time_noop[of ctx_0 "fst state_4_3" kernel_mark props_4_3 "snd state_4_3"]
      step_same_time_noop[of ctx_1 "fst state_4_3" kernel_mark props_4_3 "snd state_4_3"
        state_4_3_ticked ctx_1 kernel_mark props_4_3]
    by simp
qed

subsection \<open>Clearing\<close>

text \<open>
  \<^bold>\<open>C8\<close>. \<open>clear\<close> on an initialized engine returns the same layer state (so
  \<open>initialized\<close>, the buffer references, \<open>colors\<close>, \<open>widths\<close>, \<open>previousTime\<close> and
  \<open>previousViewportZoom\<close> are as before) and a device in which both position buffers
  hold \<open>numInstances * 3\<close> zeros, every slot the sentinel \<open>(0, 0, 0)\<close>, and every other
  buffer, the colour buffer among them, is as before. On an uninitialized engine it
  changes nothing.
\<close>

theorem clear_resets_positions:
  assumes "state_wf (st, dev)"
  shows "(initialized st \<longrightarrow>
      (\<exists>dev' src tgt.
         clear (st, dev) = Inr (st, dev') \<and>
         sourcePositions st = Some src \<and> targetPositions st = Some tgt \<and>
         buffers dev' src = Some (replicate (nat (numInstances st * 3)) 0) \<and>
         buffers dev' tgt = Some (replicate (nat (numInstances st * 3)) 0) \<and>
         (\<forall>p. int p < numInstances st \<longrightarrow>
            slot (replicate (nat (numInstances st * 3)) 0) p = (0, 0, 0)) \<and>
         (\<forall>b. b \<noteq> src \<and> b \<noteq> tgt \<longrightarrow> buffers dev' b = buffers dev b) \<and>
         next_buffer dev' = next_buffer dev \<and>
         colorsData (st, dev') = colorsData (st, dev))) \<and>
     (\<not> initialized st \<longrightarrow> clear (st, dev) = Inr (st, dev))"
proof (cases "initialized st")
  case False
  then show ?thesis
    by (simp add: clear_def resetTransformFeedback_def)
next
  case True
  from assms True obtain src tgt col tf s t where f:
    "0 \<le> numInstances st"
    "sourcePositions st = Some src" "targetPositions st = Some tgt" "colors st = Some col"
    "transform st = Some tf" "sourcePosition tf = src" "targetPosition tf = tgt"
    "src \<noteq> tgt" "col \<noteq> src" "col \<noteq> tgt"
    "buffers dev src = Some s" "buffers dev tgt = Some t"
    "length s = nat (numInstances st * 3)" "length t = nat (numInstances st * 3)"
    by (rule state_wfD)
  define z where "z = replicate (nat (numInstances st * 3)) (0::real)"
  define dev' where "dev' = dev\<lparr>buffers := (buffers dev)(src \<mapsto> z, tgt \<mapsto> z)\<rparr>"
  have lz: "length z = length s" "length z = length t"
    using f by (simp_all add: z_def)
  have w1: "buffer_write src z dev = dev\<lparr>buffers := (buffers dev)(src \<mapsto> z)\<rparr>"
    using f(11) lz by (simp add: buffer_write_def)
  have w2: "buffer_write tgt z (dev\<lparr>buffers := (buffers dev)(src \<mapsto> z)\<rparr>) = dev'"
    using f(8,12) lz by (simp add: buffer_write_def dev'_def)
  have c: "clear (st, dev) = Inr (st, dev')"
    using True f(1,2,3) w1 w2
    by (simp add: clear_def resetTransformFeedback_def Float32Array_def z_def[symmetric])
  have zero: "slot z p = (0, 0, 0)" if "int p < numInstances st" for p
  proof -
    have "int (3 * p + 2) < numInstances st * 3"
      using that by simp
    hence "3 * p + 2 < nat (numInstances st * 3)"
      by (simp only: zless_nat_eq_int_zless)
    thus ?thesis
      by (simp add: slot_def z_def)
  qed
  have r: "buffers dev' src = Some z" "buffers dev' tgt = Some z"
    "\<forall>b. b \<noteq> src \<and> b \<noteq> tgt \<longrightarrow> buffers dev' b = buffers dev b"
    "next_buffer dev' = next_buffer dev"
    "colorsData (st, dev') = colorsData (st, dev)"
    using f(4,8,9,10) by (simp_all add: dev'_def colorsData_def)
  have "clear (st, dev) = Inr (st, dev') \<and>
         sourcePositions st = Some src \<and> targetPositions st = Some tgt \<and>
         buffers dev' src = Some z \<and> buffers dev' tgt = Some z \<and>
         (\<forall>p. int p < numInstances st \<longrightarrow> slot z p = (0, 0, 0)) \<and>
         (\<forall>b. b \<noteq> src \<and> b \<noteq> tgt \<longrightarrow> buffers dev' b = buffers dev b) \<and>
         next_buffer dev' = next_buffer dev \<and>
         colorsData (st, dev') = colorsData (st, dev)"
    using c f(2,3) r zero by simp
  hence "\<exists>dev' src tgt. clear (st, dev) = Inr (st, dev') \<and>
         sourcePositions st = Some src \<and> targetPositions st = Some tgt \<and>
         buffers dev' src = Some z \<and> buffers dev' tgt = Some z \<and>
         (\<forall>p. int p < numInstances st \<longrightarrow> slot z p = (0, 0, 0)) \<and>
         (\<forall>b. b \<noteq> src \<and> b \<noteq> tgt \<longrightarrow> buffers dev' b = buffers dev b) \<and>
         next_buffer dev' = next_buffer dev \<and>
         colorsData (st, dev') = colorsData (st, dev)"
    by (intro exI)
  thus ?thesis
    using True unfolding z_def by simp
qed

theorem clear_resets_positions_witness:
  "state_wf (fst state_4_3_ticked, snd state_4_3_ticked) \<and>
   initialized (fst state_4_3_ticked) \<and>
   (\<exists>dev'. clear (fst state_4_3_ticked, snd state_4_3_ticked) = Inr (fst state_4_3_ticked, dev') \<and>
      buffers (snd state_4_3_ticked) 1 = Some ([1, 2, 0, 2, 2, 0, 3, 2, 0, 4, 2, 0] @ replicate 24 0) \<and>
      buffers dev' 1 = Some (replicate 36 0) \<and> buffers dev' 0 = Some (replicate 36 0) \<and>
      buffers dev' 2 = buffers (snd state_4_3_ticked) 2) \<and>
   state_wf (initial_state, initial_device) \<and> \<not> initialized initial_state \<and>
   clear (initial_state, initial_device) = Inr (initial_state, initial_device)"
proof -
  have h1: "state_wf (fst state_4_3_ticked, snd state_4_3_ticked)"
    by (rule state_wf_4_3_ticked)
  have h2: "state_wf (initial_state, initial_device)"
    by (rule state_wf_initial)
  have i: "initialized (fst state_4_3_ticked)" "\<not> initialized initial_state"
    "sourcePositions (fst state_4_3_ticked) = Some 1"
    "targetPositions (fst state_4_3_ticked) = Some 0"
    "nat (numInstances (fst state_4_3_ticked) * 3) = 36"
    "buffers (snd state_4_3_ticked) 1 = Some ([1, 2, 0, 2, 2, 0, 3, 2, 0, 4, 2, 0] @ replicate 24 0)"
    by (simp_all add: state_4_3_ticked_def initial_state_def)
  from clear_resets_positions[OF h1] i(1) obtain dev' src tgt where c:
    "clear (fst state_4_3_ticked, snd state_4_3_ticked) = Inr (fst state_4_3_ticked, dev')"
    "sourcePositions (fst state_4_3_ticked) = Some src"
    "targetPositions (fst state_4_3_ticked) = Some tgt"
    "buffers dev' src = Some (replicate (nat (numInstances (fst state_4_3_ticked) * 3)) 0)"
    "buffers dev' tgt = Some (replicate (nat (numInstances (fst state_4_3_ticked) * 3)) 0)"
    "\<forall>b. b \<noteq> src \<and> b \<noteq> tgt \<longrightarrow> buffers dev' b = buffers (snd state_4_3_ticked) b"
    by blast
  have e: "src = 1" "tgt = 0"
    using c(2,3) i(3,4) by simp_all
  have "buffers dev' 2 = buffers (snd state_4_3_ticked) 2"
    using c(6) e by simp
  hence a: "\<exists>dev'. clear (fst state_4_3_ticked, snd state_4_3_ticked) = Inr (fst state_4_3_ticked, dev') \<and>
      buffers (snd state_4_3_ticked) 1 = Some ([1, 2, 0, 2, 2, 0, 3, 2, 0, 4, 2, 0] @ replicate 24 0) \<and>
      buffers dev' 1 = Some (replicate 36 0) \<and> buffers dev' 0 = Some (replicate 36 0) \<and>
      buffers dev' 2 = buffers (snd state_4_3_ticked) 2"
    using c(1,4,5) e i(5,6) by auto
  have b: "clear (initial_state, initial_device) = Inr (initial_state, initial_device)"
    using clear_resets_positions[OF h2] i(2) by simp
  show ?thesis
    using h1 h2 i(1,2) a b by simp
qed

subsection \<open>Invalid configuration and the uninitialized engine\<close>

lemma delete_destroys:
  assumes wf: "state_wf (st, dev)" and r: "deleteTransformFeedback (st, dev) = Inr (st', dev')"
  shows "\<forall>b. buffers dev' b =
     (if initialized st \<and>
         (sourcePositions st = Some b \<or> targetPositions st = Some b \<or> colors st = Some b)
      then None else buffers dev b)"
proof (cases "initialized st")
  case False
  hence "dev' = dev"
    using r by (simp add: deleteTransformFeedback_def)
  thus ?thesis
    using False by simp
next
  case True
  from wf True obtain src tgt col tf s t where f:
    "0 \<le> numInstances st"
    "sourcePositions st = Some src" "targetPositions st = Some tgt" "colors st = Some col"
    "transform st = Some tf" "sourcePosition tf = src" "targetPosition tf = tgt"
    "src \<noteq> tgt" "col \<noteq> src" "col \<noteq> tgt"
    "buffers dev src = Some s" "buffers dev tgt = Some t"
    "length s = nat (numInstances st * 3)" "length t = nat (numInstances st * 3)"
    by (rule state_wfD)
  have "dev' = destroy col (destroy tgt (destroy src dev))"
    using delete_initialized[OF wf True f(2,3,4)] r by simp
  thus ?thesis
    using True f(2,3,4) by (auto simp: destroy_def)
qed

text \<open>
  \<^bold>\<open>C7\<close>. On every state of the invariant nothing here raises. When \<open>numParticles\<close>,
  \<open>maxAge\<close> or \<open>width\<close> is 0, \<open>updateState\<close> returns normally with the engine
  uninitialized and deallocated: the device it returns is the one it was given with the
  source, target and colour buffers of an initialized engine destroyed (absent from the
  device) and nothing else changed, so the state has no source, target or colour buffer
  and no transform, and no buffer was created; an engine that was already uninitialized
  is unchanged. On an uninitialized engine \<open>step\<close>, \<open>clear\<close> and
  \<open>_deleteTransformFeedback\<close> return the state and the device unchanged. Releasing
  always returns normally with \<open>initialized = false\<close> and these three buffers destroyed,
  and releasing again returns the same state and device.
\<close>

theorem invalid_configuration_no_raise:
  assumes "state_wf (st, dev)"
  shows "(numParticles props = 0 \<or> maxAge props = 0 \<or> width props = 0 \<longrightarrow>
       (\<exists>st' dev'. updateState props oldProps (st, dev) = Inr (st', dev') \<and>
          \<not> initialized st' \<and>
          (\<forall>b. buffers dev' b =
             (if initialized st \<and>
                 (sourcePositions st = Some b \<or> targetPositions st = Some b \<or>
                  colors st = Some b)
              then None else buffers dev b)) \<and>
          sourcePositions st' = None \<and> targetPositions st' = None \<and>
          sourceData (st', dev') = None \<and> targetData (st', dev') = None \<and>
          colorsData (st', dev') = None \<and> transform st' = None \<and>
          next_buffer dev' = next_buffer dev \<and>
          (\<forall>b. buffers dev' b = None \<or> buffers dev' b = buffers dev b) \<and>
          (\<not> initialized st \<longrightarrow> st' = st \<and> dev' = dev))) \<and>
     (\<not> initialized st \<longrightarrow>
        step k props ctx (st, dev) = Inr (st, dev) \<and>
        clear (st, dev) = Inr (st, dev) \<and>
        deleteTransformFeedback (st, dev) = Inr (st, dev)) \<and>
     (\<exists>st' dev'. deleteTransformFeedback (st, dev) = Inr (st', dev') \<and>
        \<not> initialized st' \<and>
        (\<forall>b. buffers dev' b =
           (if initialized st \<and>
               (sourcePositions st = Some b \<or> targetPositions st = Some b \<or>
                colors st = Some b)
            then None else buffers dev b)) \<and>
        deleteTransformFeedback (st', dev') = Inr (st', dev'))"
proof -
  obtain st' dev' where d: "deleteTransformFeedback (st, dev) = Inr (st', dev')"
    "\<not> initialized st'" "state_wf (st', dev')" "next_buffer dev' = next_buffer dev"
    "\<forall>b. buffers dev' b = None \<or> buffers dev' b = buffers dev b"
    "\<not> initialized st \<longrightarrow> st' = st \<and> dev' = dev"
    using delete_result[OF assms] by blast
  have gone: "\<forall>b. buffers dev' b =
     (if initialized st \<and>
         (sourcePositions st = Some b \<or> targetPositions st = Some b \<or> colors st = Some b)
      then None else buffers dev b)"
    using delete_destroys[OF assms d(1)] .
  have n: "sourceData (st', dev') = None" "targetData (st', dev') = None"
    "colorsData (st', dev') = None" "transform st' = None"
    "sourcePositions st' = None" "targetPositions st' = None"
    using d(2,3)
    by (simp_all add: state_wf_def sourceData_def targetData_def colorsData_def
        split: option.splits)
  have a: "numParticles props = 0 \<or> maxAge props = 0 \<or> width props = 0 \<longrightarrow>
       (\<exists>st' dev'. updateState props oldProps (st, dev) = Inr (st', dev') \<and>
          \<not> initialized st' \<and>
          (\<forall>b. buffers dev' b =
             (if initialized st \<and>
                 (sourcePositions st = Some b \<or> targetPositions st = Some b \<or>
                  colors st = Some b)
              then None else buffers dev b)) \<and>
          sourcePositions st' = None \<and> targetPositions st' = None \<and>
          sourceData (st', dev') = None \<and> targetData (st', dev') = None \<and>
          colorsData (st', dev') = None \<and> transform st' = None \<and>
          next_buffer dev' = next_buffer dev \<and>
          (\<forall>b. buffers dev' b = None \<or> buffers dev' b = buffers dev b) \<and>
          (\<not> initialized st \<longrightarrow> st' = st \<and> dev' = dev))"
  proof
    assume "numParticles props = 0 \<or> maxAge props = 0 \<or> width props = 0"
    hence "updateState props oldProps (st, dev) = Inr (st', dev')"
      using d(1) by (simp add: updateState_def)
    hence "updateState props oldProps (st, dev) = Inr (st', dev') \<and>
          \<not> initialized st' \<and>
          (\<forall>b. buffers dev' b =
             (if initialized st \<and>
                 (sourcePositions st = Some b \<or> targetPositions st = Some b \<or>
                  colors st = Some b)
              then None else buffers dev b)) \<and>
          sourcePositions st' = None \<and> targetPositions st' = None \<and>
          sourceData (st', dev') = None \<and> targetData (st', dev') = None \<and>
          colorsData (st', dev') = None \<and> transform st' = None \<and>
          next_buffer dev' = next_buffer dev \<and>
          (\<forall>b. buffers dev' b = None \<or> buffers dev' b = buffers dev b) \<and>
          (\<not> initialized st \<longrightarrow> st' = st \<and> dev' = dev)"
      using d(2,4,5,6) n gone by (intro conjI)
    thus "\<exists>st' dev'. updateState props oldProps (st, dev) = Inr (st', dev') \<and>
          \<not> initialized st' \<and>
          (\<forall>b. buffers dev' b =
             (if initialized st \<and>
                 (sourcePositions st = Some b \<or> targetPositions st = Some b \<or>
                  colors st = Some b)
              then None else buffers dev b)) \<and>
          sourcePositions st' = None \<and> targetPositions st' = None \<and>
          sourceData (st', dev') = None \<and> targetData (st', dev') = None \<and>
          colorsData (st', dev') = None \<and> transform st' = None \<and>
          next_buffer dev' = next_buffer dev \<and>
          (\<forall>b. buffers dev' b = None \<or> buffers dev' b = buffers dev b) \<and>
          (\<not> initialized st \<longrightarrow> st' = st \<and> dev' = dev)"
      by (intro exI)
  qed
  have b: "\<not> initialized st \<longrightarrow>
        step k props ctx (st, dev) = Inr (st, dev) \<and>
        clear (st, dev) = Inr (st, dev) \<and>
        deleteTransformFeedback (st, dev) = Inr (st, dev)"
    by (simp add: step_def runTransformFeedback_def clear_def resetTransformFeedback_def
        deleteTransformFeedback_def)
  have "deleteTransformFeedback (st', dev') = Inr (st', dev')"
    using d(2) by (simp add: deleteTransformFeedback_def)
  hence "deleteTransformFeedback (st, dev) = Inr (st', dev') \<and>
        \<not> initialized st' \<and>
        (\<forall>b. buffers dev' b =
           (if initialized st \<and>
               (sourcePositions st = Some b \<or> targetPositions st = Some b \<or>
                colors st = Some b)
            then None else buffers dev b)) \<and>
        deleteTransformFeedback (st', dev') = Inr (st', dev')"
    using d(1,2) gone by (intro conjI)
  hence c: "\<exists>st' dev'. deleteTransformFeedback (st, dev) = Inr (st', dev') \<and>
        \<not> initialized st' \<and>
        (\<forall>b. buffers dev' b =
           (if initialized st \<and>
               (sourcePositions st = Some b \<or> targetPositions st = Some b \<or>
                colors st = Some b)
            then None else buffers dev b)) \<and>
        deleteTransformFeedback (st', dev') = Inr (st', dev')"
    by (intro exI)
  show ?thesis
    using a b c by (intro conjI)
qed

theorem invalid_configuration_no_raise_witness:
  "state_wf (fst state_4_3_ticked, snd state_4_3_ticked) \<and> numParticles props_0_3 = 0 \<and>
   buffers (snd state_4_3_ticked) 0 = Some (replicate 36 0) \<and>
   buffers (snd state_4_3_ticked) 1 =
     Some ([1, 2, 0, 2, 2, 0, 3, 2, 0, 4, 2, 0] @ replicate 24 0) \<and>
   buffers (snd state_4_3_ticked) 2 = Some (colorData (Color4 255 255 255 255) 4 3 12) \<and>
   (\<exists>st' dev'.
      updateState props_0_3 props_4_3 (fst state_4_3_ticked, snd state_4_3_ticked) = Inr (st', dev') \<and>
      \<not> initialized st' \<and>
      buffers dev' 0 = None \<and> buffers dev' 1 = None \<and> buffers dev' 2 = None \<and>
      buffers dev' = (\<lambda>b. None) \<and>
      sourceData (st', dev') = None \<and> targetData (st', dev') = None \<and>
      colorsData (st', dev') = None \<and>
      deleteTransformFeedback (st', dev') = Inr (st', dev')) \<and>
   state_wf (initial_state, initial_device) \<and> \<not> initialized initial_state \<and>
   step kernel_mark props_4_3 ctx_1 (initial_state, initial_device) =
     Inr (initial_state, initial_device) \<and>
   clear (initial_state, initial_device) = Inr (initial_state, initial_device) \<and>
   deleteTransformFeedback (initial_state, initial_device) = Inr (initial_state, initial_device)"
proof -
  have h1: "state_wf (fst state_4_3_ticked, snd state_4_3_ticked)"
    by (rule state_wf_4_3_ticked)
  have h2: "state_wf (initial_state, initial_device)"
    by (rule state_wf_initial)
  have z: "numParticles props_0_3 = 0" "\<not> initialized initial_state"
    by (simp_all add: props_0_3_def initial_state_def)
  have v: "initialized (fst state_4_3_ticked)"
    "sourcePositions (fst state_4_3_ticked) = Some 1"
    "targetPositions (fst state_4_3_ticked) = Some 0"
    "colors (fst state_4_3_ticked) = Some 2"
    by (simp_all add: state_4_3_ticked_def)
  have live: "buffers (snd state_4_3_ticked) 0 = Some (replicate 36 0)"
    "buffers (snd state_4_3_ticked) 1 =
       Some ([1, 2, 0, 2, 2, 0, 3, 2, 0, 4, 2, 0] @ replicate 24 0)"
    "buffers (snd state_4_3_ticked) 2 = Some (colorData (Color4 255 255 255 255) 4 3 12)"
    by (simp_all add: state_4_3_ticked_def)
  have others: "buffers (snd state_4_3_ticked) b = None" if "b \<noteq> 0" "b \<noteq> 1" "b \<noteq> 2" for b
    using that by (simp add: state_4_3_ticked_def)
  note t1 = invalid_configuration_no_raise[OF h1, of props_0_3 props_4_3 kernel_mark ctx_1]
  note t2 = invalid_configuration_no_raise[OF h2, of props_4_3 props_4_3 kernel_mark ctx_1]
  from t1 z(1) obtain st' dev' where u:
    "updateState props_0_3 props_4_3 (fst state_4_3_ticked, snd state_4_3_ticked) = Inr (st', dev')"
    "\<not> initialized st'"
    "\<forall>b. buffers dev' b =
       (if initialized (fst state_4_3_ticked) \<and>
           (sourcePositions (fst state_4_3_ticked) = Some b \<or>
            targetPositions (fst state_4_3_ticked) = Some b \<or>
            colors (fst state_4_3_ticked) = Some b)
        then None else buffers (snd state_4_3_ticked) b)"
    "sourceData (st', dev') = None" "targetData (st', dev') = None"
    "colorsData (st', dev') = None"
    by blast
  have g: "buffers dev' b = None" for b
    using u(3)[rule_format, of b] v others[of b] by (cases "b = 0 \<or> b = 1 \<or> b = 2") auto
  hence g': "buffers dev' = (\<lambda>b. None)"
    by (intro ext)
  have "deleteTransformFeedback (st', dev') = Inr (st', dev')"
    using u(2) by (simp add: deleteTransformFeedback_def)
  hence "updateState props_0_3 props_4_3 (fst state_4_3_ticked, snd state_4_3_ticked) = Inr (st', dev') \<and>
      \<not> initialized st' \<and>
      buffers dev' 0 = None \<and> buffers dev' 1 = None \<and> buffers dev' 2 = None \<and>
      buffers dev' = (\<lambda>b. None) \<and>
      sourceData (st', dev') = None \<and> targetData (st', dev') = None \<and>
      colorsData (st', dev') = None \<and>
      deleteTransformFeedback (st', dev') = Inr (st', dev')"
    using u(1,2,4,5,6) g g' by (intro conjI)
  hence a: "\<exists>st' dev'.
      updateState props_0_3 props_4_3 (fst state_4_3_ticked, snd state_4_3_ticked) = Inr (st', dev') \<and>
      \<not> initialized st' \<and>
      buffers dev' 0 = None \<and> buffers dev' 1 = None \<and> buffers dev' 2 = None \<and>
      buffers dev' = (\<lambda>b. None) \<and>
      sourceData (st', dev') = None \<and> targetData (st', dev') = None \<and>
      colorsData (st', dev') = None \<and>
      deleteTransformFeedback (st', dev') = Inr (st', dev')"
    by (intro exI)
  show ?thesis
    using h1 h2 z live a t2 by simp
qed

subsection \<open>Allocation without a texture\<close>

text \<open>
  \<^bold>\<open>C10\<close>. When the \<open>image\<close> prop is \<open>null\<close> or a string, \<open>_setupTransformFeedback\<close>
  returns normally without creating a buffer, whatever \<open>numParticles\<close>, \<open>maxAge\<close> and
  \<open>width\<close> are: the engine is uninitialized afterwards, with no source, target or colour
  buffer and no transform, and an engine that was uninitialized is unchanged.
\<close>

theorem setup_without_texture:
  assumes "state_wf (st, dev)"
    and "image_prop props = ImageNull \<or> image_prop props = ImageUrl url"
  shows "\<exists>st' dev'. setupTransformFeedback props (st, dev) = Inr (st', dev') \<and>
     \<not> initialized st' \<and>
     sourceData (st', dev') = None \<and> targetData (st', dev') = None \<and>
     colorsData (st', dev') = None \<and> transform st' = None \<and>
     next_buffer dev' = next_buffer dev \<and>
     (\<forall>b. buffers dev' b = None \<or> buffers dev' b = buffers dev b) \<and>
     (\<not> initialized st \<longrightarrow> st' = st \<and> dev' = dev)"
proof -
  obtain st' dev' where d: "deleteTransformFeedback (st, dev) = Inr (st', dev')"
    "\<not> initialized st'" "state_wf (st', dev')" "next_buffer dev' = next_buffer dev"
    "\<forall>b. buffers dev' b = None \<or> buffers dev' b = buffers dev b"
    "\<not> initialized st \<longrightarrow> st' = st \<and> dev' = dev"
    using delete_result[OF assms(1)] by blast
  have n: "sourceData (st', dev') = None" "targetData (st', dev') = None"
    "colorsData (st', dev') = None" "transform st' = None"
    using d(2,3)
    by (simp_all add: state_wf_def sourceData_def targetData_def colorsData_def
        split: option.splits)
  have "(if initialized st then deleteTransformFeedback (st, dev) else Inr (st, dev)) = Inr (st', dev')"
    using d(1,6) by simp
  hence "setupTransformFeedback props (st, dev) = Inr (st', dev')"
    using assms(2) by (auto simp: setupTransformFeedback_def)
  thus ?thesis
    using d(2,4,5,6) n by blast
qed

theorem setup_without_texture_witness:
  "state_wf (initial_state, initial_device) \<and>
   (image_prop props_url = ImageNull \<or> image_prop props_url = ImageUrl ''wind.png'') \<and>
   numParticles props_url \<noteq> 0 \<and> maxAge props_url \<noteq> 0 \<and> width props_url \<noteq> 0 \<and>
   \<not> initialized initial_state \<and>
   setupTransformFeedback props_url (initial_state, initial_device) =
     Inr (initial_state, initial_device)"
proof -
  have h1: "state_wf (initial_state, initial_device)"
    by (rule state_wf_initial)
  have h2: "image_prop props_url = ImageNull \<or> image_prop props_url = ImageUrl ''wind.png''"
    by (simp add: props_url_def)
  have v: "numParticles props_url \<noteq> 0" "maxAge props_url \<noteq> 0" "width props_url \<noteq> 0"
    "\<not> initialized initial_state"
    by (simp_all add: props_url_def props_4_3_def initial_state_def)
  show ?thesis
    using h1 h2 v setup_without_texture[OF h1 h2] by auto
qed

subsection \<open>The tick keeps the invariant and the colours\<close>

lemma step_uninitialized_or_stale:
  "\<not> initialized st \<or> timeline_getTime ctx = previousTime st \<Longrightarrow>
   step k props ctx (st, dev) = Inr (st, dev)"
  by (auto simp: step_def runTransformFeedback_def)

lemma step_wf:
  assumes wf: "state_wf (st, dev)" and r: "step k props ctx (st, dev) = Inr (st', dev')"
  shows "state_wf (st', dev') \<and> colors st' = colors st \<and>
     colorsData (st', dev') = colorsData (st, dev) \<and>
     initialized st' = initialized st \<and> numInstances st' = numInstances st \<and>
     widths st' = widths st \<and> stepRequested st' = stepRequested st \<and>
     next_buffer dev' = next_buffer dev"
proof (cases "\<not> initialized st \<or> timeline_getTime ctx = previousTime st")
  case True
  hence "st' = st \<and> dev' = dev"
    using r step_uninitialized_or_stale[OF True, of k props dev] by simp
  thus ?thesis
    using wf by simp
next
  case False
  hence init: "initialized st" and t: "timeline_getTime ctx \<noteq> previousTime st"
    by simp_all
  from wf init obtain src tgt col tf s t where f:
    "0 \<le> numInstances st"
    "sourcePositions st = Some src" "targetPositions st = Some tgt" "colors st = Some col"
    "transform st = Some tf" "sourcePosition tf = src" "targetPosition tf = tgt"
    "src \<noteq> tgt" "col \<noteq> src" "col \<noteq> tgt"
    "buffers dev src = Some s" "buffers dev tgt = Some t"
    "length s = nat (numInstances st * 3)" "length t = nat (numInstances st * 3)"
    by (rule state_wfD)
  define dev1 where "dev1 = transform_run k (moduleUniforms props st ctx) tf dev"
  define dev2 where "dev2 = copyBufferToBuffer src 0 tgt (numParticles props * 4 * 3)
                            (numAgedInstances st * 4 * 3) dev1"
  have st': "st' = st\<lparr>sourcePositions := Some tgt, targetPositions := Some src,
                          transform := Some (tf\<lparr>sourcePosition := tgt, targetPosition := src\<rparr>),
                          previousViewportZoom := viewport_zoom ctx,
                          previousTime := timeline_getTime ctx\<rparr>"
    and dev': "dev' = dev2"
    using r init t f(2,3,5)
    by (simp_all add: step_def runTransformFeedback_def Let_def dev1_def dev2_def)
  obtain t1 where t1: "buffers dev1 tgt = Some t1" "length t1 = length t"
    unfolding dev1_def
    using transform_run_length[of dev tf t k "moduleUniforms props st ctx"] f(7,12)
    by auto
  have o1: "buffers dev1 b = buffers dev b" if "b \<noteq> tgt" for b
    using that f(7) by (simp add: dev1_def transform_run_frame)
  obtain t2 where t2: "buffers dev2 tgt = Some t2" "length t2 = length t1"
    unfolding dev2_def using copyBufferToBuffer_length[OF t1(1)] by blast
  have o2: "buffers dev2 b = buffers dev b" if "b \<noteq> tgt" for b
    using that o1 by (simp add: dev2_def copyBufferToBuffer_frame)
  have nb: "next_buffer dev2 = next_buffer dev"
    by (simp add: dev2_def dev1_def copyBufferToBuffer_frame transform_run_frame)
  have "state_wf (st', dev')"
    using init f t1 t2 o2[of src] unfolding st' dev'
    by (simp add: state_wf_def)
  moreover have "colorsData (st', dev') = colorsData (st, dev)"
    using f(4,10) o2[of col] by (simp add: colorsData_def st' dev')
  ultimately show ?thesis
    using nb by (simp add: st' dev')
qed

lemma nth_concat_blocks:
  assumes "\<forall>x \<in> set xs. length (f x) = m" "i < length xs" "j < m"
  shows "concat (map f xs) ! (m * i + j) = f (xs ! i) ! j"
  using assms
proof (induction xs arbitrary: i)
  case Nil
  then show ?case by simp
next
  case (Cons x xs)
  show ?case
  proof (cases i)
    case 0
    then show ?thesis using Cons.prems by (simp add: nth_append)
  next
    case (Suc i')
    have "m * i + j = length (f x) + (m * i' + j)"
      using Suc Cons.prems(1) by simp
    hence "concat (map f (x # xs)) ! (m * i + j) = concat (map f xs) ! (m * i' + j)"
      by (simp add: nth_append)
    thus ?thesis
      using Cons.IH[of i'] Cons.prems Suc by simp
  qed
qed

lemma colorData_nth:
  assumes "0 < np" "i < nat ni" "j < 4"
  shows "colorData c np ma ni ! (4 * i + j) =
     [color0 c / 255, color1 c / 255, color2 c / 255,
      (case color3 c of None \<Rightarrow> 255 | Some a \<Rightarrow> a) *
        (1 - real (i div nat np) / real_of_int ma) / 255] ! j"
proof -
  have fl: "\<lfloor>real i / real_of_int np\<rfloor> = int (i div nat np)"
  proof -
    have "real_of_int np = real (nat np)"
      using assms(1) by simp
    thus ?thesis
      by (simp only: floor_divide_of_nat_eq)
  qed
  let ?f = "\<lambda>i. let age = \<lfloor>real i / real_of_int np\<rfloor>
        in map (\<lambda>d. d / 255)
             [color0 c, color1 c, color2 c,
              (case color3 c of None \<Rightarrow> 255 | Some a \<Rightarrow> a) *
                (1 - real_of_int age / real_of_int ma)]"
  have "concat (map ?f [0..<nat ni]) ! (4 * i + j) = ?f ([0..<nat ni] ! i) ! j"
    by (rule nth_concat_blocks) (use assms in \<open>simp_all add: Let_def\<close>)
  thus ?thesis
    using assms(2) fl by (simp add: colorData_def Let_def)
qed

lemma steps_wf:
  assumes "state_wf sd" "steps k props ctxs sd = Inr sd'"
  shows "state_wf sd' \<and> colors (fst sd') = colors (fst sd) \<and> colorsData sd' = colorsData sd"
  using assms
proof (induction ctxs arbitrary: sd)
  case Nil
  then show ?case by simp
next
  case (Cons ctx ctxs)
  obtain st dev where sd: "sd = (st, dev)"
    by (cases sd)
  from Cons.prems(2) obtain st1 dev1 where
    s1: "step k props ctx (st, dev) = Inr (st1, dev1)" and
    r: "steps k props ctxs (st1, dev1) = Inr sd'"
    unfolding sd by (cases "step k props ctx (st, dev)") auto
  have w: "state_wf (st1, dev1)" "colors st1 = colors st"
    "colorsData (st1, dev1) = colorsData (st, dev)"
    using step_wf[OF _ s1] Cons.prems(1) sd by simp_all
  show ?case
    using Cons.IH[OF w(1) r] w(2,3) sd by simp
qed

subsection \<open>The colour buffer\<close>

text \<open>
  \<^bold>\<open>C5\<close>. Allocation (props with a texture and positive counts) computes the colour
  buffer: \<open>numInstances\<close> RGBA entries, four floats each; for slot \<open>i\<close>, of cohort
  \<open>i div numParticles\<close> (below \<open>maxAge\<close>), red, green and blue are the colour's channels
  divided by 255 and alpha is the colour's alpha (255 when the colour has three
  channels) times \<open>1 - cohort / maxAge\<close>, divided by 255. With channels in \<open>[0, 255]\<close>
  every entry lies in \<open>[0, 1]\<close>. No run of ticks, whatever the kernel, props and
  contexts, changes the \<open>colors\<close> reference or the buffer's contents.
\<close>

theorem color_buffer_ramp:
  assumes wf: "state_wf (st, dev)" and img: "image_prop props = ImageTexture tex"
    and pos: "0 < numParticles props" "0 < maxAge props"
  shows "\<exists>st' dev' cs.
     setupTransformFeedback props (st, dev) = Inr (st', dev') \<and>
     colorsData (st', dev') = Some cs \<and>
     numInstances st' = numParticles props * maxAge props \<and>
     int (length cs) = 4 * numInstances st' \<and>
     (\<forall>i. int i < numInstances st' \<longrightarrow>
        int (i div nat (numParticles props)) < maxAge props \<and>
        cs ! (4 * i) = color0 (color props) / 255 \<and>
        cs ! (4 * i + 1) = color1 (color props) / 255 \<and>
        cs ! (4 * i + 2) = color2 (color props) / 255 \<and>
        cs ! (4 * i + 3) =
          (case color3 (color props) of None \<Rightarrow> 255 | Some a \<Rightarrow> a) *
          (1 - real (i div nat (numParticles props)) / real_of_int (maxAge props)) / 255) \<and>
     (0 \<le> color0 (color props) \<and> color0 (color props) \<le> 255 \<and>
      0 \<le> color1 (color props) \<and> color1 (color props) \<le> 255 \<and>
      0 \<le> color2 (color props) \<and> color2 (color props) \<le> 255 \<and>
      (case color3 (color props) of None \<Rightarrow> True | Some a \<Rightarrow> 0 \<le> a \<and> a \<le> 255) \<longrightarrow>
      (\<forall>i j. int i < numInstances st' \<and> j < 4 \<longrightarrow>
         0 \<le> cs ! (4 * i + j) \<and> cs ! (4 * i + j) \<le> 1)) \<and>
     (\<forall>k props' ctxs sd''. steps k props' ctxs (st', dev') = Inr sd'' \<longrightarrow>
        colors (fst sd'') = colors st' \<and> colorsData sd'' = Some cs)"
proof -
  define np where "np = nat (numParticles props)"
  define ma where "ma = nat (maxAge props)"
  define c where "c = color props"
  define al where "al = (case color3 c of None \<Rightarrow> 255 | Some a \<Rightarrow> a)"
  define cs where "cs = colorData c (numParticles props) (maxAge props)
               (numParticles props * maxAge props)"
  have np: "numParticles props = int np" "0 < np"
    using pos by (simp_all add: np_def)
  have ma: "maxAge props = int ma" "0 < ma"
    using pos by (simp_all add: ma_def)
  have nim: "numParticles props * maxAge props = int (np * ma)"
    using np(1) ma(1) by simp
  obtain st' dev' where r: "setupTransformFeedback props (st, dev) = Inr (st', dev')"
    "state_ok props (st', dev')" "colorsData (st', dev') = Some cs"
    using setup_allocates[OF wf img pos] unfolding cs_def c_def by blast
  have ni: "numInstances st' = numParticles props * maxAge props"
    using r(2) by (elim state_okD)
  have len: "int (length cs) = 4 * numInstances st'"
    using nim ni by (simp add: cs_def length_colorData)
  have idx: "i < np * ma" if "int i < numInstances st'" for i
  proof -
    have "int i < int (np * ma)"
      using that unfolding ni nim .
    thus ?thesis
      by (simp only: of_nat_less_iff)
  qed
  have cohort: "i div np < ma" if "i < np * ma" for i
    using that by (simp add: less_mult_imp_div_less mult.commute)
  have entry: "cs ! (4 * i + j) =
     [color0 c / 255, color1 c / 255, color2 c / 255,
      al * (1 - real (i div np) / real ma) / 255] ! j"
    if "i < np * ma" "j < 4" for i j
  proof -
    have "nat (numParticles props * maxAge props) = np * ma"
      unfolding nim by (rule nat_int)
    hence "i < nat (numParticles props * maxAge props)"
      using that(1) by simp
    thus ?thesis
      using colorData_nth[OF pos(1) _ that(2), of i "numParticles props * maxAge props" c "maxAge props"]
      by (simp add: cs_def al_def np_def ma(1))
  qed
  have ramp: "\<forall>i. int i < numInstances st' \<longrightarrow>
        int (i div nat (numParticles props)) < maxAge props \<and>
        cs ! (4 * i) = color0 (color props) / 255 \<and>
        cs ! (4 * i + 1) = color1 (color props) / 255 \<and>
        cs ! (4 * i + 2) = color2 (color props) / 255 \<and>
        cs ! (4 * i + 3) =
          (case color3 (color props) of None \<Rightarrow> 255 | Some a \<Rightarrow> a) *
          (1 - real (i div nat (numParticles props)) / real_of_int (maxAge props)) / 255"
  proof (intro allI impI)
    fix i :: nat
    assume "int i < numInstances st'"
    hence i: "i < np * ma"
      by (rule idx)
    show "int (i div nat (numParticles props)) < maxAge props \<and>
        cs ! (4 * i) = color0 (color props) / 255 \<and>
        cs ! (4 * i + 1) = color1 (color props) / 255 \<and>
        cs ! (4 * i + 2) = color2 (color props) / 255 \<and>
        cs ! (4 * i + 3) =
          (case color3 (color props) of None \<Rightarrow> 255 | Some a \<Rightarrow> a) *
          (1 - real (i div nat (numParticles props)) / real_of_int (maxAge props)) / 255"
      using cohort[OF i] entry[OF i, of 0] entry[OF i, of 1] entry[OF i, of 2] entry[OF i, of 3]
      by (simp add: ma(1) np_def[symmetric] c_def[symmetric] al_def[symmetric])
  qed
  have range: "0 \<le> color0 (color props) \<and> color0 (color props) \<le> 255 \<and>
      0 \<le> color1 (color props) \<and> color1 (color props) \<le> 255 \<and>
      0 \<le> color2 (color props) \<and> color2 (color props) \<le> 255 \<and>
      (case color3 (color props) of None \<Rightarrow> True | Some a \<Rightarrow> 0 \<le> a \<and> a \<le> 255) \<longrightarrow>
      (\<forall>i j. int i < numInstances st' \<and> j < 4 \<longrightarrow>
         0 \<le> cs ! (4 * i + j) \<and> cs ! (4 * i + j) \<le> 1)"
  proof (intro impI allI, elim conjE)
    fix i j :: nat
    assume b: "0 \<le> color0 (color props)" "color0 (color props) \<le> 255"
      "0 \<le> color1 (color props)" "color1 (color props) \<le> 255"
      "0 \<le> color2 (color props)" "color2 (color props) \<le> 255"
      "case color3 (color props) of None \<Rightarrow> True | Some a \<Rightarrow> 0 \<le> a \<and> a \<le> 255"
      and ii: "int i < numInstances st'" and j: "j < 4"
    have i: "i < np * ma"
      using ii by (rule idx)
    have al: "0 \<le> al" "al \<le> 255"
      using b(7) by (simp_all add: al_def c_def split: option.splits)
    define f where "f = 1 - real (i div np) / real ma"
    have "real (i div np) / real ma \<le> 1" "0 \<le> real (i div np) / real ma"
      using cohort[OF i] ma(2) by simp_all
    hence f: "0 \<le> f" "f \<le> 1"
      by (simp_all add: f_def)
    have "al * f \<le> 255 * 1"
      using al f by (intro mult_mono) simp_all
    moreover have "0 \<le> al * f"
      using al f by simp
    ultimately have a: "0 \<le> al * f / 255" "al * f / 255 \<le> 1"
      by simp_all
    have "j = 0 \<or> j = 1 \<or> j = 2 \<or> j = 3"
      using j by linarith
    thus "0 \<le> cs ! (4 * i + j) \<and> cs ! (4 * i + j) \<le> 1"
      using entry[OF i j] a b(1-6) by (auto simp: c_def f_def)
  qed
  have ticks: "\<forall>k props' ctxs sd''. steps k props' ctxs (st', dev') = Inr sd'' \<longrightarrow>
        colors (fst sd'') = colors st' \<and> colorsData sd'' = Some cs"
    using steps_wf[OF state_ok_wf[OF r(2)]] r(3) by fastforce
  show ?thesis
    using r(1,3) ni len ramp range ticks by blast
qed

theorem color_buffer_ramp_witness:
  "state_wf (initial_state, initial_device) \<and> image_prop props_4_3 = ImageTexture 0 \<and>
   0 < numParticles props_4_3 \<and> 0 < maxAge props_4_3 \<and>
   (\<exists>st' dev' cs.
      setupTransformFeedback props_4_3 (initial_state, initial_device) = Inr (st', dev') \<and>
      colorsData (st', dev') = Some cs \<and> length cs = 48 \<and>
      cs ! 0 = 1 \<and> cs ! 3 = 1 \<and> cs ! (4 * 4 + 3) = 2 / 3 \<and> cs ! (4 * 8 + 3) = 1 / 3 \<and>
      0 \<le> cs ! (4 * 11 + 3) \<and> cs ! (4 * 11 + 3) \<le> 1 \<and>
      (\<forall>sd''. steps kernel_mark props_4_3 [ctx_1, ctx_0] (st', dev') = Inr sd'' \<longrightarrow>
         colorsData sd'' = Some cs))"
proof -
  have h1: "state_wf (initial_state, initial_device)"
    by (rule state_wf_initial)
  have h2: "image_prop props_4_3 = ImageTexture 0"
    by (simp add: props_4_3_def)
  have h3: "0 < numParticles props_4_3" "0 < maxAge props_4_3"
    by (simp_all add: props_4_3_def)
  have v: "numParticles props_4_3 = 4" "maxAge props_4_3 = 3"
    "color props_4_3 = Color4 255 255 255 255"
    by (simp_all add: props_4_3_def)
  from color_buffer_ramp[OF h1 h2 h3] obtain st' dev' cs where r:
    "setupTransformFeedback props_4_3 (initial_state, initial_device) = Inr (st', dev')"
    "colorsData (st', dev') = Some cs"
    "numInstances st' = numParticles props_4_3 * maxAge props_4_3"
    "int (length cs) = 4 * numInstances st'"
    "\<forall>i. int i < numInstances st' \<longrightarrow>
        int (i div nat (numParticles props_4_3)) < maxAge props_4_3 \<and>
        cs ! (4 * i) = color0 (color props_4_3) / 255 \<and>
        cs ! (4 * i + 1) = color1 (color props_4_3) / 255 \<and>
        cs ! (4 * i + 2) = color2 (color props_4_3) / 255 \<and>
        cs ! (4 * i + 3) =
          (case color3 (color props_4_3) of None \<Rightarrow> 255 | Some a \<Rightarrow> a) *
          (1 - real (i div nat (numParticles props_4_3)) / real_of_int (maxAge props_4_3)) / 255"
    "0 \<le> color0 (color props_4_3) \<and> color0 (color props_4_3) \<le> 255 \<and>
      0 \<le> color1 (color props_4_3) \<and> color1 (color props_4_3) \<le> 255 \<and>
      0 \<le> color2 (color props_4_3) \<and> color2 (color props_4_3) \<le> 255 \<and>
      (case color3 (color props_4_3) of None \<Rightarrow> True | Some a \<Rightarrow> 0 \<le> a \<and> a \<le> 255) \<longrightarrow>
      (\<forall>i j. int i < numInstances st' \<and> j < 4 \<longrightarrow>
         0 \<le> cs ! (4 * i + j) \<and> cs ! (4 * i + j) \<le> 1)"
    "\<forall>k props' ctxs sd''. steps k props' ctxs (st', dev') = Inr sd'' \<longrightarrow>
        colors (fst sd'') = colors st' \<and> colorsData sd'' = Some cs"
    by blast
  have ni: "numInstances st' = 12"
    using r(3) v by simp
  have len: "length cs = 48"
    using r(4) ni by simp
  have e0: "cs ! 0 = 1" "cs ! 3 = 1"
    using r(5)[rule_format, of 0] ni v by simp_all
  have e4: "cs ! (4 * 4 + 3) = 2 / 3"
    using r(5)[rule_format, of 4] ni v by simp
  have e8: "cs ! (4 * 8 + 3) = 1 / 3"
    using r(5)[rule_format, of 8] ni v by simp
  have rng: "\<forall>i j. int i < numInstances st' \<and> j < 4 \<longrightarrow>
         0 \<le> cs ! (4 * i + j) \<and> cs ! (4 * i + j) \<le> 1"
    using r(6) v by simp
  have e11: "0 \<le> cs ! (4 * 11 + 3) \<and> cs ! (4 * 11 + 3) \<le> 1"
    using rng[rule_format, of 11 3] ni by simp
  have t: "\<forall>sd''. steps kernel_mark props_4_3 [ctx_1, ctx_0] (st', dev') = Inr sd'' \<longrightarrow>
         colorsData sd'' = Some cs"
    using r(7) by blast
  have "\<exists>st' dev' cs.
      setupTransformFeedback props_4_3 (initial_state, initial_device) = Inr (st', dev') \<and>
      colorsData (st', dev') = Some cs \<and> length cs = 48 \<and>
      cs ! 0 = 1 \<and> cs ! 3 = 1 \<and> cs ! (4 * 4 + 3) = 2 / 3 \<and> cs ! (4 * 8 + 3) = 1 / 3 \<and>
      0 \<le> cs ! (4 * 11 + 3) \<and> cs ! (4 * 11 + 3) \<le> 1 \<and>
      (\<forall>sd''. steps kernel_mark props_4_3 [ctx_1, ctx_0] (st', dev') = Inr sd'' \<longrightarrow>
         colorsData sd'' = Some cs)"
    using r(1,2) len e0 e4 e8 e11 t by blast
  thus ?thesis
    using h1 h2 h3 by simp
qed

subsection \<open>End to end: four particles, three cohorts\<close>

lemma cohort_counts:
  fixes np ma :: int
  assumes "0 < np" "0 < ma"
  shows "nat (np * ma * 3) = 3 * nat np + 3 * nat (np * (ma - 1))"
proof -
  have "np * ma * 3 = 3 * np + 3 * (np * (ma - 1))"
    by (simp add: algebra_simps)
  moreover have "0 \<le> 3 * np" "0 \<le> 3 * (np * (ma - 1))"
    using assms by simp_all
  ultimately have "nat (np * ma * 3) = nat (3 * np) + nat (3 * (np * (ma - 1)))"
    by (simp only: nat_add_distrib)
  thus ?thesis
    by (simp add: nat_mult_distrib)
qed

lemma step_state_ok:
  assumes ok: "state_ok props (st, dev)" and r: "step k props ctx (st, dev) = Inr (st', dev')"
  shows "state_ok props (st', dev')"
proof (cases "timeline_getTime ctx = previousTime st")
  case True
  hence "st' = st \<and> dev' = dev"
    using r step_uninitialized_or_stale[of st ctx k props dev] by simp
  thus ?thesis
    using ok by simp
next
  case False
  from ok obtain src tgt col s t c where f:
    "initialized st" "0 < numParticles props" "0 < maxAge props"
    "numInstances st = numParticles props * maxAge props"
    "numAgedInstances st = numParticles props * (maxAge props - 1)"
    "sourcePositions st = Some src" "targetPositions st = Some tgt" "colors st = Some col"
    "transform st = Some \<lparr>sourcePosition = src, targetPosition = tgt, vertexCount = numParticles props\<rparr>"
    "src \<noteq> tgt" "col \<noteq> src" "col \<noteq> tgt"
    "buffers dev src = Some s" "buffers dev tgt = Some t" "buffers dev col = Some c"
    "length s = nat (numInstances st * 3)" "length t = nat (numInstances st * 3)"
    "length c = nat (numInstances st * 4)"
    by (rule state_okD)
  have n3: "nat (numInstances st * 3) =
      3 * nat (numParticles props) + 3 * nat (numAgedInstances st)"
    unfolding f(4,5) using f(2,3) by (rule cohort_counts)
  have ls: "length s = 3 * nat (numParticles props) + 3 * nat (numAgedInstances st)"
    using f(16) n3 by simp
  have e: "(st', dev') =
      (st\<lparr>sourcePositions := Some tgt, targetPositions := Some src,
             transform := Some \<lparr>sourcePosition = tgt, targetPosition = src,
                                 vertexCount = numParticles props\<rparr>,
             previousViewportZoom := viewport_zoom ctx,
             previousTime := timeline_getTime ctx\<rparr>,
          dev\<lparr>buffers := (buffers dev)(tgt \<mapsto>
             flatten (map (\<lambda>p. k (moduleUniforms props st ctx) p (slot s p))
                        [0..<nat (numParticles props)]) @
             take (3 * nat (numAgedInstances st)) s)\<rparr>)"
    using step_result[OF ok False f(6) f(7) f(13), of k] r by simp
  show ?thesis
    unfolding e using f ls n3
    by (simp add: state_ok_def length_flatten)
qed

lemma step_shift:
  assumes ok: "state_ok props (st, dev)"
    and t: "timeline_getTime ctx \<noteq> previousTime st"
    and src: "sourcePositions st = Some src" and tgt: "targetPositions st = Some tgt"
    and s: "buffers dev src = Some s"
  shows "\<exists>st' dev' new. step k props ctx (st, dev) = Inr (st', dev') \<and>
     sourcePositions st' = Some tgt \<and> targetPositions st' = Some src \<and>
     buffers dev' tgt = Some new \<and> length new = length s \<and>
     (\<forall>p. p < nat (numParticles props) \<longrightarrow>
        slot new p = k (moduleUniforms props st ctx) p (slot s p)) \<and>
     (\<forall>j. j < nat (numAgedInstances st) \<longrightarrow>
        slot new (nat (numParticles props) + j) = slot s j)"
proof -
  from ok obtain src' tgt' col s' t' c where f:
    "initialized st" "0 < numParticles props" "0 < maxAge props"
    "numInstances st = numParticles props * maxAge props"
    "numAgedInstances st = numParticles props * (maxAge props - 1)"
    "sourcePositions st = Some src'" "targetPositions st = Some tgt'" "colors st = Some col"
    "transform st = Some \<lparr>sourcePosition = src', targetPosition = tgt', vertexCount = numParticles props\<rparr>"
    "src' \<noteq> tgt'" "col \<noteq> src'" "col \<noteq> tgt'"
    "buffers dev src' = Some s'" "buffers dev tgt' = Some t'" "buffers dev col = Some c"
    "length s' = nat (numInstances st * 3)" "length t' = nat (numInstances st * 3)"
    "length c = nat (numInstances st * 4)"
    by (rule state_okD)
  have e: "s' = s"
    using f(6,13) src s by simp
  define np where "np = nat (numParticles props)"
  define na where "na = nat (numAgedInstances st)"
  have n3: "nat (numInstances st * 3) = 3 * np + 3 * na"
    unfolding f(4,5) np_def na_def using f(2,3) by (rule cohort_counts)
  have ls: "length s = 3 * np + 3 * na"
    using f(16) e n3 by simp
  define out where "out = map (\<lambda>p. k (moduleUniforms props st ctx) p (slot s p)) [0..<np]"
  define new where "new = flatten out @ take (3 * na) s"
  define st' where "st' = st\<lparr>sourcePositions := Some tgt, targetPositions := Some src,
             transform := Some \<lparr>sourcePosition = tgt, targetPosition = src,
                                 vertexCount = numParticles props\<rparr>,
             previousViewportZoom := viewport_zoom ctx,
             previousTime := timeline_getTime ctx\<rparr>"
  define dev' where "dev' = dev\<lparr>buffers := (buffers dev)(tgt \<mapsto> new)\<rparr>"
  have res: "step k props ctx (st, dev) = Inr (st', dev')"
    using step_result[OF ok t src tgt s, of k]
    by (simp add: st'_def dev'_def new_def out_def np_def na_def)
  have lout: "length out = np" "length (flatten out) = 3 * np"
    by (simp_all add: out_def length_flatten)
  have lnew: "length new = length s"
    using lout ls by (simp add: new_def)
  have young: "slot new p = k (moduleUniforms props st ctx) p (slot s p)" if "p < np" for p
    using that slot_flatten[of p out "take (3 * na) s"] lout by (simp add: new_def out_def)
  have aged: "slot new (np + j) = slot s j" if "j < na" for j
  proof -
    have "slot new (np + j) = slot (take (3 * na) s) j"
      unfolding new_def using lout(2) by (rule slot_append_right)
    also have "\<dots> = slot s j"
      using that by (rule slot_take)
    finally show ?thesis .
  qed
  have "step k props ctx (st, dev) = Inr (st', dev') \<and>
     sourcePositions st' = Some tgt \<and> targetPositions st' = Some src \<and>
     buffers dev' tgt = Some new \<and> length new = length s \<and>
     (\<forall>p. p < nat (numParticles props) \<longrightarrow>
        slot new p = k (moduleUniforms props st ctx) p (slot s p)) \<and>
     (\<forall>j. j < nat (numAgedInstances st) \<longrightarrow>
        slot new (nat (numParticles props) + j) = slot s j)"
    using res lnew young aged
    by (simp add: st'_def dev'_def np_def[symmetric] na_def[symmetric])
  thus ?thesis
    by (intro exI)
qed

lemma step_unfold:
  assumes "initialized st" "timeline_getTime ctx \<noteq> previousTime st"
    and "transform st = Some tf" "sourcePositions st = Some a" "targetPositions st = Some b"
  shows "step k props ctx (st, dev) =
     Inr (st\<lparr>sourcePositions := Some b, targetPositions := Some a,
             transform := Some (tf\<lparr>sourcePosition := b, targetPosition := a\<rparr>),
             previousViewportZoom := viewport_zoom ctx,
             previousTime := timeline_getTime ctx\<rparr>,
          copyBufferToBuffer a 0 b (numParticles props * 4 * 3) (numAgedInstances st * 4 * 3)
            (transform_run k (moduleUniforms props st ctx) tf dev))"
  using assms by (simp add: step_def runTransformFeedback_def)

lemma slot_zeros: "3 * p + 2 < n \<Longrightarrow> slot (replicate n 0) p = (0, 0, 0)"
  by (simp add: slot_def)

text \<open>
  \<^bold>\<open>C6\<close>, as the code has it. With \<open>numParticles = 4\<close>, \<open>maxAge = 3\<close> and a texture as
  the image, allocation returns \<open>numInstances = 12\<close>, \<open>numAgedInstances = 8\<close> and two
  position buffers of 36 floats whose 12 slots are all \<open>(0, 0, 0)\<close>. One \<open>step\<close> at a
  timeline time other than 0, the \<open>previousTime\<close> that allocation sets, returns with the
  old target buffer as the new source: its slots \<open>[0, 4)\<close> are the kernel's outputs on
  \<open>(0, 0, 0)\<close>, its slots \<open>[4, 12)\<close> are \<open>(0, 0, 0)\<close>, and the device is the one after the
  transform and a copy of \<open>8 * 12\<close> bytes to destination offset \<open>4 * 12\<close> bytes, 12 bytes
  being one position. That the copy lands exactly one cohort in shows at the next tick,
  at any further time and whatever the kernel: the first tick's four outputs are then
  slots \<open>[4, 8)\<close> of the source, slots \<open>[0, 4)\<close> are the kernel's outputs on them, and
  slots \<open>[8, 12)\<close> are \<open>(0, 0, 0)\<close>.
\<close>

theorem end_to_end_4_3:
  assumes np: "numParticles props = 4" and ma: "maxAge props = 3"
    and img: "image_prop props = ImageTexture tex"
    and t: "timeline_getTime ctx \<noteq> 0"
  shows "\<exists>st dev a b tf src tgt st' dev' new.
     initializeState props dev0 = Inr (st, dev) \<and> initialized st \<and>
     numInstances st = 12 \<and> numAgedInstances st = 8 \<and>
     sourcePositions st = Some a \<and> targetPositions st = Some b \<and> transform st = Some tf \<and>
     buffers dev a = Some src \<and> buffers dev b = Some tgt \<and>
     length src = 3 * 12 \<and> length tgt = 3 * 12 \<and>
     (\<forall>p<12. slot src p = (0, 0, 0) \<and> slot tgt p = (0, 0, 0)) \<and>
     step k props ctx (st, dev) = Inr (st', dev') \<and>
     sourcePositions st' = Some b \<and> buffers dev' b = Some new \<and> length new = 3 * 12 \<and>
     (\<forall>p<4. slot new p = k (moduleUniforms props st ctx) p (0, 0, 0)) \<and>
     (\<forall>p. 4 \<le> p \<and> p < 12 \<longrightarrow> slot new p = (0, 0, 0)) \<and>
     dev' = copyBufferToBuffer a 0 b (4 * 12) (8 * 12)
              (transform_run k (moduleUniforms props st ctx) tf dev) \<and>
     (\<forall>ctx2. timeline_getTime ctx2 \<noteq> timeline_getTime ctx \<longrightarrow>
        (\<exists>st2 dev2 new2.
           step k props ctx2 (st', dev') = Inr (st2, dev2) \<and>
           sourcePositions st2 = Some a \<and> buffers dev2 a = Some new2 \<and>
           length new2 = 3 * 12 \<and>
           (\<forall>p<4. slot new2 p = k (moduleUniforms props st' ctx2) p (slot new p)) \<and>
           (\<forall>p<4. slot new2 (4 + p) = k (moduleUniforms props st ctx) p (0, 0, 0)) \<and>
           (\<forall>p. 8 \<le> p \<and> p < 12 \<longrightarrow> slot new2 p = (0, 0, 0))))"
proof -
  define n where "n = next_buffer dev0"
  define z where "z = replicate 36 (0::real)"
  define tf where "tf = \<lparr>sourcePosition = n, targetPosition = Suc n, vertexCount = 4\<rparr>"
  define st where "st = initial_state\<lparr>initialized := True,
             numInstances := 12, numAgedInstances := 8,
             sourcePositions := Some n, targetPositions := Some (Suc n),
             sourcePositions64Low := [0, 0, 0], targetPositions64Low := [0, 0, 0],
             colors := Some (Suc (Suc n)), widths := [width props],
             transform := Some tf,
             texture := Some tex, previousViewportZoom := 0, previousTime := 0\<rparr>"
  define dev where "dev = dev0\<lparr>buffers := (buffers dev0)
                 (n \<mapsto> z, Suc n \<mapsto> z,
                  Suc (Suc n) \<mapsto> colorData (color props) 4 3 12),
              next_buffer := Suc (Suc (Suc n))\<rparr>"
  have ui: "\<not> initialized initial_state"
    by (simp add: initial_state_def)
  have ni: "0 \<le> numParticles props * maxAge props"
    by (simp add: np ma)
  have init: "initializeState props dev0 = Inr (st, dev)"
    unfolding initializeState_def setup_fresh[OF ui img ni]
    by (simp add: st_def dev_def tf_def n_def z_def np ma)
  have s: "initialized st" "numInstances st = 12" "numAgedInstances st = 8"
    "sourcePositions st = Some n" "targetPositions st = Some (Suc n)" "transform st = Some tf"
    "previousTime st = 0"
    by (simp_all add: st_def)
  have b: "buffers dev n = Some z" "buffers dev (Suc n) = Some z" "length z = 3 * 12"
    by (simp_all add: dev_def z_def)
  have zero: "\<forall>p<12. slot z p = (0, 0, 0) \<and> slot z p = (0, 0, 0)"
    by (simp add: z_def slot_zeros)
  have ok: "state_ok props (st, dev)"
    by (simp add: state_ok_def st_def dev_def tf_def z_def np ma length_colorData)
  have t': "timeline_getTime ctx \<noteq> previousTime st"
    using t s(7) by simp
  define out where
    "out = map (\<lambda>p. k (moduleUniforms props st ctx) p (slot z p)) [0..<4]"
  define new where "new = flatten out @ take 24 z"
  define st' where "st' = st\<lparr>sourcePositions := Some (Suc n), targetPositions := Some n,
             transform := Some \<lparr>sourcePosition = Suc n, targetPosition = n,
                                 vertexCount = numParticles props\<rparr>,
             previousViewportZoom := viewport_zoom ctx,
             previousTime := timeline_getTime ctx\<rparr>"
  define dev' where "dev' = dev\<lparr>buffers := (buffers dev)(Suc n \<mapsto> new)\<rparr>"
  have res: "step k props ctx (st, dev) = Inr (st', dev')"
    using step_result[OF ok t' s(4) s(5) b(1), of k]
    by (simp add: st'_def dev'_def new_def out_def np s(3))
  have lout: "length out = 4" "length (flatten out) = 3 * 4"
    by (simp_all add: out_def length_flatten)
  have lnew: "length new = 3 * 12"
    using lout by (simp add: new_def z_def)
  have young: "slot new p = k (moduleUniforms props st ctx) p (0, 0, 0)" if "p < 4" for p
  proof -
    have "slot new p = out ! p"
      unfolding new_def using that lout(1) by (simp add: slot_flatten)
    also have "\<dots> = k (moduleUniforms props st ctx) p (slot z p)"
      using that by (simp add: out_def)
    also have "slot z p = (0, 0, 0)"
      using that by (simp add: z_def slot_zeros)
    finally show ?thesis .
  qed
  have aged: "slot new p = (0, 0, 0)" if "4 \<le> p" "p < 12" for p
  proof -
    define j where "j = p - 4"
    have j: "p = 4 + j" "j < 8"
      using that by (simp_all add: j_def)
    have "slot new (4 + j) = slot (take 24 z) j"
      unfolding new_def using lout(2) by (rule slot_append_right)
    also have "\<dots> = (0, 0, 0)"
      using j(2) by (simp add: z_def slot_zeros)
    finally show ?thesis
      using j(1) by simp
  qed
  have copy: "dev' = copyBufferToBuffer n 0 (Suc n) (4 * 12) (8 * 12)
              (transform_run k (moduleUniforms props st ctx) tf dev)"
    using res step_unfold[OF s(1) t' s(6) s(4) s(5), of k props dev]
    by (simp add: np s(3))
  have new: "sourcePositions st' = Some (Suc n)" "buffers dev' (Suc n) = Some new"
    by (simp_all add: st'_def dev'_def)
  have young': "\<forall>p<4. slot new p = k (moduleUniforms props st ctx) p (0, 0, 0)"
    using young by simp
  have aged': "\<forall>p. 4 \<le> p \<and> p < 12 \<longrightarrow> slot new p = (0, 0, 0)"
    using aged by simp
  have ok': "state_ok props (st', dev')"
    using step_state_ok[OF ok res] .
  have s': "previousTime st' = timeline_getTime ctx" "targetPositions st' = Some n"
    "numAgedInstances st' = 8"
    by (simp_all add: st'_def s(3))
  have second: "\<forall>ctx2. timeline_getTime ctx2 \<noteq> timeline_getTime ctx \<longrightarrow>
        (\<exists>st2 dev2 new2.
           step k props ctx2 (st', dev') = Inr (st2, dev2) \<and>
           sourcePositions st2 = Some n \<and> buffers dev2 n = Some new2 \<and>
           length new2 = 3 * 12 \<and>
           (\<forall>p<4. slot new2 p = k (moduleUniforms props st' ctx2) p (slot new p)) \<and>
           (\<forall>p<4. slot new2 (4 + p) = k (moduleUniforms props st ctx) p (0, 0, 0)) \<and>
           (\<forall>p. 8 \<le> p \<and> p < 12 \<longrightarrow> slot new2 p = (0, 0, 0)))"
  proof (intro allI impI)
    fix ctx2 :: TickContext
    assume "timeline_getTime ctx2 \<noteq> timeline_getTime ctx"
    hence t2: "timeline_getTime ctx2 \<noteq> previousTime st'"
      using s'(1) by simp
    from step_shift[OF ok' t2 new(1) s'(2) new(2), of k] obtain st2 dev2 new2 where r2:
      "step k props ctx2 (st', dev') = Inr (st2, dev2)"
      "sourcePositions st2 = Some n" "buffers dev2 n = Some new2" "length new2 = length new"
      "\<forall>p. p < nat (numParticles props) \<longrightarrow>
         slot new2 p = k (moduleUniforms props st' ctx2) p (slot new p)"
      "\<forall>j. j < nat (numAgedInstances st') \<longrightarrow>
         slot new2 (nat (numParticles props) + j) = slot new j"
      by blast
    have y2: "\<forall>p<4. slot new2 p = k (moduleUniforms props st' ctx2) p (slot new p)"
      using r2(5) by (simp add: np)
    have sh: "slot new2 (4 + j) = slot new j" if "j < 8" for j
      using r2(6)[rule_format, of j] that by (simp add: np s'(3))
    have a2: "\<forall>p<4. slot new2 (4 + p) = k (moduleUniforms props st ctx) p (0, 0, 0)"
      using sh young by simp
    have z2: "slot new2 p = (0, 0, 0)" if "8 \<le> p" "p < 12" for p
    proof -
      define j where "j = p - 4"
      have j: "p = 4 + j" "j < 8" "4 \<le> j" "j < 12"
        using that by (simp_all add: j_def)
      show ?thesis
        using sh[OF j(2)] aged[OF j(3,4)] j(1) by simp
    qed
    have "step k props ctx2 (st', dev') = Inr (st2, dev2) \<and>
           sourcePositions st2 = Some n \<and> buffers dev2 n = Some new2 \<and>
           length new2 = 3 * 12 \<and>
           (\<forall>p<4. slot new2 p = k (moduleUniforms props st' ctx2) p (slot new p)) \<and>
           (\<forall>p<4. slot new2 (4 + p) = k (moduleUniforms props st ctx) p (0, 0, 0)) \<and>
           (\<forall>p. 8 \<le> p \<and> p < 12 \<longrightarrow> slot new2 p = (0, 0, 0))"
      using r2(1,2,3,4) lnew y2 a2 z2 by simp
    thus "\<exists>st2 dev2 new2.
           step k props ctx2 (st', dev') = Inr (st2, dev2) \<and>
           sourcePositions st2 = Some n \<and> buffers dev2 n = Some new2 \<and>
           length new2 = 3 * 12 \<and>
           (\<forall>p<4. slot new2 p = k (moduleUniforms props st' ctx2) p (slot new p)) \<and>
           (\<forall>p<4. slot new2 (4 + p) = k (moduleUniforms props st ctx) p (0, 0, 0)) \<and>
           (\<forall>p. 8 \<le> p \<and> p < 12 \<longrightarrow> slot new2 p = (0, 0, 0))"
      by (intro exI)
  qed
  have "initializeState props dev0 = Inr (st, dev) \<and> initialized st \<and>
     numInstances st = 12 \<and> numAgedInstances st = 8 \<and>
     sourcePositions st = Some n \<and> targetPositions st = Some (Suc n) \<and> transform st = Some tf \<and>
     buffers dev n = Some z \<and> buffers dev (Suc n) = Some z \<and>
     length z = 3 * 12 \<and> length z = 3 * 12 \<and>
     (\<forall>p<12. slot z p = (0, 0, 0) \<and> slot z p = (0, 0, 0)) \<and>
     step k props ctx (st, dev) = Inr (st', dev') \<and>
     sourcePositions st' = Some (Suc n) \<and> buffers dev' (Suc n) = Some new \<and> length new = 3 * 12 \<and>
     (\<forall>p<4. slot new p = k (moduleUniforms props st ctx) p (0, 0, 0)) \<and>
     (\<forall>p. 4 \<le> p \<and> p < 12 \<longrightarrow> slot new p = (0, 0, 0)) \<and>
     dev' = copyBufferToBuffer n 0 (Suc n) (4 * 12) (8 * 12)
              (transform_run k (moduleUniforms props st ctx) tf dev) \<and>
     (\<forall>ctx2. timeline_getTime ctx2 \<noteq> timeline_getTime ctx \<longrightarrow>
        (\<exists>st2 dev2 new2.
           step k props ctx2 (st', dev') = Inr (st2, dev2) \<and>
           sourcePositions st2 = Some n \<and> buffers dev2 n = Some new2 \<and>
           length new2 = 3 * 12 \<and>
           (\<forall>p<4. slot new2 p = k (moduleUniforms props st' ctx2) p (slot new p)) \<and>
           (\<forall>p<4. slot new2 (4 + p) = k (moduleUniforms props st ctx) p (0, 0, 0)) \<and>
           (\<forall>p. 8 \<le> p \<and> p < 12 \<longrightarrow> slot new2 p = (0, 0, 0))))"
    using init s(1-6) b zero res new lnew young' aged' copy second by (intro conjI)
  thus ?thesis
    by (intro exI)
qed

theorem end_to_end_4_3_witness:
  "numParticles props_4_3 = 4 \<and> maxAge props_4_3 = 3 \<and>
   image_prop props_4_3 = ImageTexture 0 \<and> timeline_getTime ctx_1 \<noteq> 0 \<and>
   timeline_getTime ctx_2 \<noteq> timeline_getTime ctx_1 \<and>
   (\<exists>st dev a b st' dev' new st2 dev2 new2.
     initializeState props_4_3 initial_device = Inr (st, dev) \<and> initialized st \<and>
     numInstances st = 12 \<and> numAgedInstances st = 8 \<and>
     sourcePositions st = Some a \<and> targetPositions st = Some b \<and>
     step kernel_mark props_4_3 ctx_1 (st, dev) = Inr (st', dev') \<and>
     sourcePositions st' = Some b \<and> buffers dev' b = Some new \<and> length new = 36 \<and>
     slot new 0 = (1, 2, 0) \<and> slot new 3 = (4, 2, 0) \<and>
     slot new 4 = (0, 0, 0) \<and> slot new 11 = (0, 0, 0) \<and>
     step kernel_mark props_4_3 ctx_2 (st', dev') = Inr (st2, dev2) \<and>
     sourcePositions st2 = Some a \<and> buffers dev2 a = Some new2 \<and> length new2 = 36 \<and>
     slot new2 0 = (1, 2, 0) \<and>
     slot new2 4 = (1, 2, 0) \<and> slot new2 7 = (4, 2, 0) \<and>
     slot new2 8 = (0, 0, 0) \<and> slot new2 11 = (0, 0, 0))"
proof -
  have h1: "numParticles props_4_3 = 4" and h2: "maxAge props_4_3 = 3"
    and h3: "image_prop props_4_3 = ImageTexture 0"
    by (simp_all add: props_4_3_def)
  have h4: "timeline_getTime ctx_1 \<noteq> 0"
    by (simp add: ctx_1_def)
  have h5: "timeline_getTime ctx_2 \<noteq> timeline_getTime ctx_1"
    by (simp add: ctx_1_def ctx_2_def)
  from end_to_end_4_3[OF h1 h2 h3 h4, where k = kernel_mark and ?dev0.0 = initial_device]
  obtain st dev a b tf src tgt st' dev' new where r:
    "initializeState props_4_3 initial_device = Inr (st, dev)" "initialized st"
    "numInstances st = 12" "numAgedInstances st = 8"
    "sourcePositions st = Some a" "targetPositions st = Some b"
    "step kernel_mark props_4_3 ctx_1 (st, dev) = Inr (st', dev')"
    "sourcePositions st' = Some b" "buffers dev' b = Some new" "length new = 3 * 12"
    "\<forall>p<4. slot new p = kernel_mark (moduleUniforms props_4_3 st ctx_1) p (0, 0, 0)"
    "\<forall>p. 4 \<le> p \<and> p < 12 \<longrightarrow> slot new p = (0, 0, 0)"
    "\<forall>ctx2. timeline_getTime ctx2 \<noteq> timeline_getTime ctx_1 \<longrightarrow>
        (\<exists>st2 dev2 new2.
           step kernel_mark props_4_3 ctx2 (st', dev') = Inr (st2, dev2) \<and>
           sourcePositions st2 = Some a \<and> buffers dev2 a = Some new2 \<and>
           length new2 = 3 * 12 \<and>
           (\<forall>p<4. slot new2 p = kernel_mark (moduleUniforms props_4_3 st' ctx2) p (slot new p)) \<and>
           (\<forall>p<4. slot new2 (4 + p) = kernel_mark (moduleUniforms props_4_3 st ctx_1) p (0, 0, 0)) \<and>
           (\<forall>p. 8 \<le> p \<and> p < 12 \<longrightarrow> slot new2 p = (0, 0, 0)))"
    by blast
  from r(13)[rule_format, OF h5] obtain st2 dev2 new2 where r2:
    "step kernel_mark props_4_3 ctx_2 (st', dev') = Inr (st2, dev2)"
    "sourcePositions st2 = Some a" "buffers dev2 a = Some new2" "length new2 = 3 * 12"
    "\<forall>p<4. slot new2 p = kernel_mark (moduleUniforms props_4_3 st' ctx_2) p (slot new p)"
    "\<forall>p<4. slot new2 (4 + p) = kernel_mark (moduleUniforms props_4_3 st ctx_1) p (0, 0, 0)"
    "\<forall>p. 8 \<le> p \<and> p < 12 \<longrightarrow> slot new2 p = (0, 0, 0)"
    by blast
  have n1: "slot new 0 = (1, 2, 0)" "slot new 3 = (4, 2, 0)"
    using r(11)[rule_format, of 0] r(11)[rule_format, of 3] by (simp_all add: kernel_mark_def)
  have n2: "slot new 4 = (0, 0, 0)" "slot new 11 = (0, 0, 0)"
    using r(12)[rule_format, of 4] r(12)[rule_format, of 11] by simp_all
  have m0: "slot new2 0 = (1, 2, 0)"
    using r2(5)[rule_format, of 0] by (simp add: kernel_mark_def)
  have m1: "slot new2 4 = (1, 2, 0)" "slot new2 7 = (4, 2, 0)"
    using r2(6)[rule_format, of 0] r2(6)[rule_format, of 3] by (simp_all add: kernel_mark_def)
  have m2: "slot new2 8 = (0, 0, 0)" "slot new2 11 = (0, 0, 0)"
    using r2(7)[rule_format, of 8] r2(7)[rule_format, of 11] by simp_all
  have "initializeState props_4_3 initial_device = Inr (st, dev) \<and> initialized st \<and>
     numInstances st = 12 \<and> numAgedInstances st = 8 \<and>
     sourcePositions st = Some a \<and> targetPositions st = Some b \<and>
     step kernel_mark props_4_3 ctx_1 (st, dev) = Inr (st', dev') \<and>
     sourcePositions st' = Some b \<and> buffers dev' b = Some new \<and> length new = 36 \<and>
     slot new 0 = (1, 2, 0) \<and> slot new 3 = (4, 2, 0) \<and>
     slot new 4 = (0, 0, 0) \<and> slot new 11 = (0, 0, 0) \<and>
     step kernel_mark props_4_3 ctx_2 (st', dev') = Inr (st2, dev2) \<and>
     sourcePositions st2 = Some a \<and> buffers dev2 a = Some new2 \<and> length new2 = 36 \<and>
     slot new2 0 = (1, 2, 0) \<and>
     slot new2 4 = (1, 2, 0) \<and> slot new2 7 = (4, 2, 0) \<and>
     slot new2 8 = (0, 0, 0) \<and> slot new2 11 = (0, 0, 0)"
    using r(1-10) r2(1-4) n1 n2 m0 m1 m2 by simp
  hence "\<exists>st dev a b st' dev' new st2 dev2 new2.
     initializeState props_4_3 initial_device = Inr (st, dev) \<and> initialized st \<and>
     numInstances st = 12 \<and> numAgedInstances st = 8 \<and>
     sourcePositions st = Some a \<and> targetPositions st = Some b \<and>
     step kernel_mark props_4_3 ctx_1 (st, dev) = Inr (st', dev') \<and>
     sourcePositions st' = Some b \<and> buffers dev' b = Some new \<and> length new = 36 \<and>
     slot new 0 = (1, 2, 0) \<and> slot new 3 = (4, 2, 0) \<and>
     slot new 4 = (0, 0, 0) \<and> slot new 11 = (0, 0, 0) \<and>
     step kernel_mark props_4_3 ctx_2 (st', dev') = Inr (st2, dev2) \<and>
     sourcePositions st2 = Some a \<and> buffers dev2 a = Some new2 \<and> length new2 = 36 \<and>
     slot new2 0 = (1, 2, 0) \<and>
     slot new2 4 = (1, 2, 0) \<and> slot new2 7 = (4, 2, 0) \<and>
     slot new2 8 = (0, 0, 0) \<and> slot new2 11 = (0, 0, 0)"
    by (intro exI)
  thus ?thesis
    using h1 h2 h3 h4 h5 by (intro conjI)
qed

text \<open>
  The claim as stated, with neither condition, fails twice. A \<open>step\<close> at timeline time 0
  right after allocation is stopped by the guard \<open>time === previousTime\<close>, and slot 0 of
  the source buffer is still \<open>(0, 0, 0)\<close>, not the kernel's output \<open>(1, 2, 0)\<close>. And with
  \<open>numParticles = 4\<close>, \<open>maxAge = 3\<close> and a null image, allocation returns the fresh state:
  uninitialized, with no source buffer.
\<close>

theorem end_to_end_4_3_counterexample:
  "initializeState props_4_3 initial_device = Inr state_4_3 \<and>
   timeline_getTime ctx_0 = 0 \<and>
   step kernel_mark props_4_3 ctx_0 state_4_3 = Inr state_4_3 \<and>
   sourceData state_4_3 = Some (replicate 36 0) \<and>
   slot (replicate 36 0) 0 = (0, 0, 0) \<and>
   kernel_mark (moduleUniforms props_4_3 (fst state_4_3) ctx_0) 0 (0, 0, 0) = (1, 2, 0) \<and>
   slot (replicate 36 0) 0 \<noteq>
     kernel_mark (moduleUniforms props_4_3 (fst state_4_3) ctx_0) 0 (0, 0, 0) \<and>
   numParticles props_null = 4 \<and> maxAge props_null = 3 \<and>
   initializeState props_null initial_device = Inr (initial_state, initial_device) \<and>
   \<not> initialized initial_state \<and> numInstances initial_state \<noteq> 12 \<and>
   sourceData (initial_state, initial_device) = None"
proof -
  have a: "step kernel_mark props_4_3 ctx_0 state_4_3 = Inr state_4_3"
    by (simp add: step_def runTransformFeedback_def state_4_3_def ctx_0_def)
  have b: "sourceData state_4_3 = Some (replicate 36 0)"
    by (simp add: sourceData_def state_4_3_def)
  have c: "slot (replicate 36 0) 0 = (0, 0, 0)"
    by (simp add: slot_def)
  have d: "kernel_mark (moduleUniforms props_4_3 (fst state_4_3) ctx_0) 0 (0, 0, 0) = (1, 2, 0)"
    by (simp add: kernel_mark_def)
  have e: "timeline_getTime ctx_0 = 0"
    by (simp add: ctx_0_def)
  have f: "numParticles props_null = 4" "maxAge props_null = 3"
    by (simp_all add: props_null_def props_4_3_def)
  have g: "initializeState props_null initial_device = Inr (initial_state, initial_device)"
    by (simp add: initializeState_def setupTransformFeedback_def props_null_def
        initial_state_def)
  have h: "\<not> initialized initial_state" "numInstances initial_state \<noteq> 12"
    "sourceData (initial_state, initial_device) = None"
    by (simp_all add: initial_state_def sourceData_def)
  show ?thesis
    using init_4_3 a b c d e f g h by simp
qed

subsection \<open>The viewport parameters of a tick\<close>

text \<open>
  \<^bold>\<open>C4\<close>. The uniforms of a tick hold \<open>viewportZoomChangeFactor =
  2 ** ((previousViewportZoom - zoom) * 4)\<close>, below 1 when the zoom exceeds the previous
  one, \<open>speedFactor = props.speedFactor / 2 ** (zoom + 7)\<close> and \<open>viewportBounds =
  wrapBounds(viewport.getBounds())\<close>; a tick that runs passes exactly these uniforms to
  the kernel and stores the zoom as the next \<open>previousViewportZoom\<close>.
\<close>

theorem tick_viewport_parameters:
  "u_viewportZoomChangeFactor (moduleUniforms props st ctx) =
     2 powr ((previousViewportZoom st - viewport_zoom ctx) * 4) \<and>
   u_speedFactor (moduleUniforms props st ctx) =
     speedFactor props / 2 powr (viewport_zoom ctx + 7) \<and>
   u_viewportBounds (moduleUniforms props st ctx) = wrapBounds (viewport_getBounds ctx) \<and>
   (previousViewportZoom st < viewport_zoom ctx \<longrightarrow>
      u_viewportZoomChangeFactor (moduleUniforms props st ctx) < 1) \<and>
   (initialized st \<and> timeline_getTime ctx \<noteq> previousTime st \<and>
    transform st = Some tf \<and> sourcePositions st = Some a \<and> targetPositions st = Some b \<longrightarrow>
      (\<exists>st'. step k props ctx (st, dev) =
          Inr (st', copyBufferToBuffer a 0 b (numParticles props * 4 * 3)
                      (numAgedInstances st * 4 * 3)
                      (transform_run k (moduleUniforms props st ctx) tf dev)) \<and>
         previousViewportZoom st' = viewport_zoom ctx))"
proof -
  define e where "e = (previousViewportZoom st - viewport_zoom ctx) * 4"
  have nz: "2 powr e \<noteq> 0"
    by simp
  have f: "u_viewportZoomChangeFactor (moduleUniforms props st ctx) = 2 powr e"
    using nz by (simp add: moduleUniforms_def Let_def e_def)
  have lt: "previousViewportZoom st < viewport_zoom ctx \<longrightarrow> 2 powr e < 1"
  proof
    assume "previousViewportZoom st < viewport_zoom ctx"
    hence "e < 0"
      by (simp add: e_def)
    hence "2 powr e < 2 powr 0"
      by (simp only: powr_less_cancel_iff one_less_numeral_iff semiring_norm)
    thus "2 powr e < 1"
      by simp
  qed
  have s: "u_speedFactor (moduleUniforms props st ctx) =
     speedFactor props / 2 powr (viewport_zoom ctx + 7)"
    "u_viewportBounds (moduleUniforms props st ctx) = wrapBounds (viewport_getBounds ctx)"
    by (simp_all add: moduleUniforms_def Let_def getViewportBounds_def)
  have r: "initialized st \<and> timeline_getTime ctx \<noteq> previousTime st \<and>
    transform st = Some tf \<and> sourcePositions st = Some a \<and> targetPositions st = Some b \<longrightarrow>
      (\<exists>st'. step k props ctx (st, dev) =
          Inr (st', copyBufferToBuffer a 0 b (numParticles props * 4 * 3)
                      (numAgedInstances st * 4 * 3)
                      (transform_run k (moduleUniforms props st ctx) tf dev)) \<and>
         previousViewportZoom st' = viewport_zoom ctx)"
  proof (intro impI, elim conjE)
    assume h: "initialized st" "timeline_getTime ctx \<noteq> previousTime st"
      "transform st = Some tf" "sourcePositions st = Some a" "targetPositions st = Some b"
    show "\<exists>st'. step k props ctx (st, dev) =
          Inr (st', copyBufferToBuffer a 0 b (numParticles props * 4 * 3)
                      (numAgedInstances st * 4 * 3)
                      (transform_run k (moduleUniforms props st ctx) tf dev)) \<and>
         previousViewportZoom st' = viewport_zoom ctx"
      unfolding step_unfold[OF h] by simp
  qed
  show ?thesis
    using f lt s r unfolding e_def by simp
qed

lemma wrapBounds_antimeridian: "wrapBounds (170, - 10, - 170, 10) = (170, - 10, 190, 10)"
proof -
  have a: "spec_wrap 170 = 170"
    by (simp add: spec_wrap_def true_mod_def)
  have b: "spec_wrap (- 170) = - 170"
    by (simp add: spec_wrap_def true_mod_def)
  show ?thesis
    by (simp add: a b wrapLongitude_None wrapLongitude_Some Let_def)
qed

theorem tick_viewport_parameters_witness:
  "u_viewportZoomChangeFactor (moduleUniforms props_4_3 (fst state_4_3) ctx_1) = 1 / 16 \<and>
   u_speedFactor (moduleUniforms props_4_3 (fst state_4_3) ctx_1) = 3 / 256 \<and>
   u_viewportBounds (moduleUniforms props_4_3 (fst state_4_3) ctx_1) = (170, - 10, 190, 10) \<and>
   previousViewportZoom (fst state_4_3) < viewport_zoom ctx_1 \<and>
   u_viewportZoomChangeFactor (moduleUniforms props_4_3 (fst state_4_3) ctx_1) < 1 \<and>
   initialized (fst state_4_3) \<and> timeline_getTime ctx_1 \<noteq> previousTime (fst state_4_3) \<and>
   transform (fst state_4_3) = Some \<lparr>sourcePosition = 0, targetPosition = 1, vertexCount = 4\<rparr> \<and>
   sourcePositions (fst state_4_3) = Some 0 \<and> targetPositions (fst state_4_3) = Some 1 \<and>
   (\<exists>st'. step kernel_mark props_4_3 ctx_1 (fst state_4_3, snd state_4_3) =
          Inr (st', copyBufferToBuffer 0 0 1 (numParticles props_4_3 * 4 * 3)
                      (numAgedInstances (fst state_4_3) * 4 * 3)
                      (transform_run kernel_mark (moduleUniforms props_4_3 (fst state_4_3) ctx_1)
                         \<lparr>sourcePosition = 0, targetPosition = 1, vertexCount = 4\<rparr>
                         (snd state_4_3))) \<and>
         previousViewportZoom st' = viewport_zoom ctx_1)"
proof -
  have v: "previousViewportZoom (fst state_4_3) = 0" "viewport_zoom ctx_1 = 1"
    "speedFactor props_4_3 = 3" "viewport_getBounds ctx_1 = (170, - 10, - 170, 10)"
    by (simp_all add: state_4_3_def ctx_1_def props_4_3_def)
  have h: "initialized (fst state_4_3)" "timeline_getTime ctx_1 \<noteq> previousTime (fst state_4_3)"
    "transform (fst state_4_3) = Some \<lparr>sourcePosition = 0, targetPosition = 1, vertexCount = 4\<rparr>"
    "sourcePositions (fst state_4_3) = Some 0" "targetPositions (fst state_4_3) = Some 1"
    by (simp_all add: state_4_3_def ctx_1_def)
  have w: "wrapBounds (170, - 10, - 170, 10) = (170, - 10, 190, 10)"
    by (rule wrapBounds_antimeridian)
  have p: "(2::real) powr - 4 = 1 / 16" "(2::real) powr 8 = 256"
    by (simp_all add: powr_minus_divide)
  note t = tick_viewport_parameters[of props_4_3 "fst state_4_3" ctx_1
      "\<lparr>sourcePosition = 0, targetPosition = 1, vertexCount = 4\<rparr>" 0 1 kernel_mark "snd state_4_3"]
  show ?thesis
    using t h by (simp add: v w p del: wrapBounds.simps)
qed

subsection \<open>The scheduler\<close>

lemma delete_stepRequested:
  "deleteTransformFeedback (st, dev) = Inr (st', dev') \<Longrightarrow> stepRequested st' = stepRequested st"
  by (auto simp: deleteTransformFeedback_def split: if_splits option.splits)

lemma setup_stepRequested:
  assumes "setupTransformFeedback props (st, dev) = Inr (st', dev')"
  shows "stepRequested st' = stepRequested st"
proof -
  obtain st1 dev1 where d:
    "(if initialized st then deleteTransformFeedback (st, dev) else Inr (st, dev)) = Inr (st1, dev1)"
    using assms unfolding setupTransformFeedback_def
    by (cases "if initialized (fst (st, dev)) then deleteTransformFeedback (st, dev) else Inr (st, dev)")
      auto
  hence s1: "stepRequested st1 = stepRequested st"
    using delete_stepRequested[of st dev st1 dev1] by (auto split: if_splits)
  have "stepRequested st' = stepRequested st1"
    using assms d unfolding setupTransformFeedback_def
    by (auto simp: Let_def createBuffer_def Float32Array_def split: image.splits if_splits)
  thus ?thesis
    using s1 by simp
qed

lemma step_stepRequested:
  "step k props ctx (st, dev) = Inr (st', dev') \<Longrightarrow> stepRequested st' = stepRequested st"
  by (auto simp: step_def runTransformFeedback_def Let_def split: if_splits option.splits)

lemma clear_stepRequested:
  "clear (st, dev) = Inr (st', dev') \<Longrightarrow> stepRequested st' = stepRequested st"
  by (auto simp: clear_def resetTransformFeedback_def Float32Array_def
      split: if_splits option.splits)

lemma updateState_stepRequested:
  "updateState props old (st, dev) = Inr (st', dev') \<Longrightarrow> stepRequested st' = stepRequested st"
  unfolding updateState_def
  by (auto dest: delete_stepRequested setup_stepRequested split: if_splits)

lemma requestStep_inv:
  assumes "sched_inv w" "requestStep (w_state w, w_timers w) = (st, ts)"
  shows "sched_inv (w\<lparr>w_state := st, w_timers := ts\<rparr>)"
  using assms by (auto simp: sched_inv_def requestStep_def FPS_def split: if_splits)

lemma commit_inv:
  assumes "commit w r = Inr w'" "w_timers w = [] \<or> (\<forall>st dev. r = Inr (st, dev) \<longrightarrow> stepRequested st = stepRequested (w_state w))"
    "sched_inv w"
  shows "sched_inv w'"
  using assms by (auto simp: commit_def sched_inv_def split: sum.splits)

lemma fire_inv:
  assumes "sched_inv w" "fire k e w = Inr w'"
  shows "sched_inv w'"
proof (cases e)
  case Draw
  obtain st ts where d: "draw (w_props w) (w_state w, w_timers w) = (st, ts)"
    by (cases "draw (w_props w) (w_state w, w_timers w)")
  hence "requestStep (w_state w, w_timers w) = (st, ts) \<or> (st, ts) = (w_state w, w_timers w)"
    by (auto simp: draw_def split: if_splits)
  hence "sched_inv (w\<lparr>w_state := st, w_timers := ts\<rparr>)"
    using requestStep_inv[OF assms(1)] assms(1) by (auto simp: sched_inv_def)
  thus ?thesis
    using assms(2) Draw d by simp
next
  case RequestStep
  obtain st ts where d: "requestStep (w_state w, w_timers w) = (st, ts)"
    by (cases "requestStep (w_state w, w_timers w)")
  thus ?thesis
    using assms RequestStep requestStep_inv[OF assms(1) d] by simp
next
  case (TimerFires ctx)
  show ?thesis
  proof (cases "w_timers w")
    case Nil
    thus ?thesis
      using assms TimerFires by simp
  next
    case (Cons t ts)
    hence ts: "ts = []"
      using assms(1) by (auto simp: sched_inv_def)
    obtain d c where t: "t = (d, c)"
      by (cases t)
    have "commit (w\<lparr>w_timers := []\<rparr>)
            (run_callback k (w_props w) ctx (w_state w, w_device w)) = Inr w'"
      using assms(2) TimerFires Cons ts t by (cases c) simp
    thus ?thesis
      by (rule commit_inv) (simp_all add: sched_inv_def)
  qed
next
  case (Step ctx)
  hence "commit w (step k (w_props w) ctx (w_state w, w_device w)) = Inr w'"
    using assms(2) by simp
  thus ?thesis
    by (rule commit_inv) (use assms(1) in \<open>auto dest: step_stepRequested\<close>)
next
  case Clear
  hence "commit w (clear (w_state w, w_device w)) = Inr w'"
    using assms(2) by simp
  thus ?thesis
    by (rule commit_inv) (use assms(1) in \<open>auto dest: clear_stepRequested\<close>)
next
  case (UpdateState props)
  hence "commit (w\<lparr>w_props := props\<rparr>)
      (updateState props (w_props w) (w_state w, w_device w)) = Inr w'"
    using assms(2) by simp
  thus ?thesis
    by (rule commit_inv)
      (use assms(1) in \<open>auto simp: sched_inv_def dest: updateState_stepRequested\<close>)
next
  case Finalize
  hence "commit w (finalizeState (w_state w, w_device w)) = Inr w'"
    using assms(2) by simp
  thus ?thesis
    by (rule commit_inv)
      (use assms(1) in \<open>auto simp: finalizeState_def dest: delete_stepRequested\<close>)
qed

lemma run_inv:
  assumes "sched_inv w" "run k evs w = Inr w'"
  shows "sched_inv w'"
  using assms
proof (induction evs arbitrary: w)
  case Nil
  then show ?case by simp
next
  case (Cons e evs)
  from Cons.prems(2) obtain w1 where f: "fire k e w = Inr w1" and r: "run k evs w1 = Inr w'"
    by (cases "fire k e w") auto
  show ?case
    using Cons.IH[OF fire_inv[OF Cons.prems(1) f] r] .
qed

lemma start_inv:
  assumes "start k props dev evs = Inr w"
  shows "sched_inv w"
proof -
  from assms obtain st dev' where
    r: "run k evs \<lparr>w_props = props, w_state = st, w_device = dev', w_timers = []\<rparr> = Inr w"
    unfolding start_def by (cases "initializeState props dev") auto
  have "sched_inv \<lparr>w_props = props, w_state = st, w_device = dev', w_timers = []\<rparr>"
    by (simp add: sched_inv_def)
  thus ?thesis
    using r by (rule run_inv)
qed

lemma state_wf_stepRequested:
  "state_wf (st\<lparr>stepRequested := b\<rparr>, dev) = state_wf (st, dev)"
  by (simp add: state_wf_def split: option.splits)

lemma setup_wf:
  assumes wf: "state_wf (st, dev)" and r: "setupTransformFeedback props (st, dev) = Inr (st', dev')"
  shows "state_wf (st', dev')"
proof -
  obtain st1 dev1 where d: "deleteTransformFeedback (st, dev) = Inr (st1, dev1)"
    "\<not> initialized st1" "state_wf (st1, dev1)"
    "\<not> initialized st \<longrightarrow> st1 = st \<and> dev1 = dev"
    using delete_result[OF wf] by blast
  have e: "setupTransformFeedback props (st, dev) = setupTransformFeedback props (st1, dev1)"
    using d(1,2,4) by (cases "initialized st") (simp_all add: setupTransformFeedback_def)
  show ?thesis
  proof (cases "image_prop props")
    case (ImageUrl url)
    hence "setupTransformFeedback props (st1, dev1) = Inr (st1, dev1)"
      using d(2) by (simp add: setupTransformFeedback_def)
    thus ?thesis
      using r e d(3) by simp
  next
    case ImageNull
    hence "setupTransformFeedback props (st1, dev1) = Inr (st1, dev1)"
      using d(2) by (simp add: setupTransformFeedback_def)
    thus ?thesis
      using r e d(3) by simp
  next
    case (ImageTexture tex)
    have ni: "0 \<le> numParticles props * maxAge props"
    proof (rule ccontr)
      assume "\<not> 0 \<le> numParticles props * maxAge props"
      hence "setupTransformFeedback props (st1, dev1) = Inl RangeError"
        using d(2) ImageTexture by (simp add: setupTransformFeedback_def Float32Array_def)
      thus False
        using r e by simp
    qed
    show ?thesis
      using r ni unfolding e setup_fresh[OF d(2) ImageTexture ni]
      by (auto simp: state_wf_def)
  qed
qed

lemma clear_wf:
  assumes wf: "state_wf (st, dev)" and r: "clear (st, dev) = Inr (st', dev')"
  shows "state_wf (st', dev')"
proof (cases "initialized st")
  case False
  thus ?thesis
    using wf r by (simp add: clear_def resetTransformFeedback_def)
next
  case True
  from wf True obtain src tgt col tf s t where f:
    "0 \<le> numInstances st"
    "sourcePositions st = Some src" "targetPositions st = Some tgt" "colors st = Some col"
    "transform st = Some tf" "sourcePosition tf = src" "targetPosition tf = tgt"
    "src \<noteq> tgt" "col \<noteq> src" "col \<noteq> tgt"
    "buffers dev src = Some s" "buffers dev tgt = Some t"
    "length s = nat (numInstances st * 3)" "length t = nat (numInstances st * 3)"
    by (rule state_wfD)
  define z where "z = replicate (nat (numInstances st * 3)) (0::real)"
  have lz: "length z = length s" "length z = length t"
    using f by (simp_all add: z_def)
  have w1: "buffer_write src z dev = dev\<lparr>buffers := (buffers dev)(src \<mapsto> z)\<rparr>"
    using f(11) lz by (simp add: buffer_write_def)
  have w2: "buffer_write tgt z (dev\<lparr>buffers := (buffers dev)(src \<mapsto> z)\<rparr>) =
      dev\<lparr>buffers := (buffers dev)(src \<mapsto> z, tgt \<mapsto> z)\<rparr>"
    using f(8,12) lz by (simp add: buffer_write_def)
  have "clear (st, dev) = Inr (st, dev\<lparr>buffers := (buffers dev)(src \<mapsto> z, tgt \<mapsto> z)\<rparr>)"
    using True f(1,2,3) w1 w2
    by (simp add: clear_def resetTransformFeedback_def Float32Array_def z_def[symmetric])
  hence "st' = st" "dev' = dev\<lparr>buffers := (buffers dev)(src \<mapsto> z, tgt \<mapsto> z)\<rparr>"
    using r by simp_all
  thus ?thesis
    using True f by (simp add: state_wf_def z_def)
qed

lemma updateState_wf:
  assumes "state_wf (st, dev)" "updateState props old (st, dev) = Inr (st', dev')"
  shows "state_wf (st', dev')"
proof -
  have "deleteTransformFeedback (st, dev) = Inr (st', dev') \<or>
      setupTransformFeedback props (st, dev) = Inr (st', dev') \<or> (st', dev') = (st, dev)"
    using assms(2) unfolding updateState_def by (auto split: if_splits)
  thus ?thesis
    using assms(1) delete_result[OF assms(1)] setup_wf[OF assms(1)] by auto
qed

lemma commit_wf:
  assumes "commit w r = Inr w'" "\<forall>st dev. r = Inr (st, dev) \<longrightarrow> state_wf (st, dev)"
  shows "state_wf (w_state w', w_device w')"
  using assms by (auto simp: commit_def split: sum.splits)

lemma fire_wf:
  assumes wf: "state_wf (w_state w, w_device w)" and f: "fire k e w = Inr w'"
  shows "state_wf (w_state w', w_device w')"
proof (cases e)
  case Draw
  obtain st ts where d: "draw (w_props w) (w_state w, w_timers w) = (st, ts)"
    by (cases "draw (w_props w) (w_state w, w_timers w)")
  hence "st = w_state w \<or> st = (w_state w)\<lparr>stepRequested := True\<rparr>"
    by (auto simp: draw_def requestStep_def split: if_splits)
  thus ?thesis
    using wf f Draw d by (auto simp: state_wf_stepRequested)
next
  case RequestStep
  obtain st ts where d: "requestStep (w_state w, w_timers w) = (st, ts)"
    by (cases "requestStep (w_state w, w_timers w)")
  hence "st = w_state w \<or> st = (w_state w)\<lparr>stepRequested := True\<rparr>"
    by (auto simp: requestStep_def split: if_splits)
  thus ?thesis
    using wf f RequestStep d by (auto simp: state_wf_stepRequested)
next
  case (TimerFires ctx)
  show ?thesis
  proof (cases "w_timers w")
    case Nil
    thus ?thesis
      using wf f TimerFires by simp
  next
    case (Cons t ts)
    obtain d c where t: "t = (d, c)"
      by (cases t)
    have c: "commit (w\<lparr>w_timers := ts\<rparr>)
            (run_callback k (w_props w) ctx (w_state w, w_device w)) = Inr w'"
      using f TimerFires Cons t by (cases c) simp
    have "state_wf (st, dev)"
      if "run_callback k (w_props w) ctx (w_state w, w_device w) = Inr (st, dev)" for st dev
    proof -
      from that obtain st1 where s: "step k (w_props w) ctx (w_state w, w_device w) = Inr (st1, dev)"
        and e: "st = st1\<lparr>stepRequested := False\<rparr>"
        by (cases "step k (w_props w) ctx (w_state w, w_device w)") (auto simp: run_callback_def)
      show ?thesis
        using step_wf[OF wf s] e by (simp add: state_wf_stepRequested)
    qed
    thus ?thesis
      using commit_wf[OF c] by blast
  qed
next
  case (Step ctx)
  hence c: "commit w (step k (w_props w) ctx (w_state w, w_device w)) = Inr w'"
    using f by simp
  show ?thesis
    using commit_wf[OF c] step_wf[OF wf] by blast
next
  case Clear
  hence c: "commit w (clear (w_state w, w_device w)) = Inr w'"
    using f by simp
  show ?thesis
    using commit_wf[OF c] clear_wf[OF wf] by blast
next
  case (UpdateState props)
  hence c: "commit (w\<lparr>w_props := props\<rparr>)
      (updateState props (w_props w) (w_state w, w_device w)) = Inr w'"
    using f by simp
  show ?thesis
    using commit_wf[OF c] updateState_wf[OF wf] by blast
next
  case Finalize
  hence c: "commit w (deleteTransformFeedback (w_state w, w_device w)) = Inr w'"
    using f by (simp add: finalizeState_def)
  show ?thesis
    using commit_wf[OF c] delete_result[OF wf] by auto
qed

lemma state_ok_stepRequested:
  "state_ok props (st\<lparr>stepRequested := b\<rparr>, dev) = state_ok props (st, dev)"
  by (simp add: state_ok_def split: option.splits)

lemma state_ok_props:
  assumes "numParticles props' = numParticles props" "maxAge props' = maxAge props"
  shows "state_ok props' sd = state_ok props sd"
  unfolding state_ok_def assms ..

lemma clear_result:
  assumes wf: "state_wf (st, dev)" and i: "initialized st"
    and "sourcePositions st = Some src" "targetPositions st = Some tgt"
  shows "clear (st, dev) =
     Inr (st, dev\<lparr>buffers := (buffers dev)
            (src \<mapsto> replicate (nat (numInstances st * 3)) 0,
             tgt \<mapsto> replicate (nat (numInstances st * 3)) 0)\<rparr>)"
proof -
  from wf i obtain src' tgt' col tf s t where f:
    "0 \<le> numInstances st"
    "sourcePositions st = Some src'" "targetPositions st = Some tgt'" "colors st = Some col"
    "transform st = Some tf" "sourcePosition tf = src'" "targetPosition tf = tgt'"
    "src' \<noteq> tgt'" "col \<noteq> src'" "col \<noteq> tgt'"
    "buffers dev src' = Some s" "buffers dev tgt' = Some t"
    "length s = nat (numInstances st * 3)" "length t = nat (numInstances st * 3)"
    by (rule state_wfD)
  have e: "src' = src" "tgt' = tgt"
    using f(2,3) assms(3,4) by simp_all
  define z where "z = replicate (nat (numInstances st * 3)) (0::real)"
  have lz: "length z = length s" "length z = length t"
    using f by (simp_all add: z_def)
  have w1: "buffer_write src z dev = dev\<lparr>buffers := (buffers dev)(src \<mapsto> z)\<rparr>"
    using f(11) e lz by (simp add: buffer_write_def)
  have w2: "buffer_write tgt z (dev\<lparr>buffers := (buffers dev)(src \<mapsto> z)\<rparr>) =
      dev\<lparr>buffers := (buffers dev)(src \<mapsto> z, tgt \<mapsto> z)\<rparr>"
    using f(8,12) e lz by (simp add: buffer_write_def)
  show ?thesis
    using i f(1) assms(3,4) w1 w2
    by (simp add: clear_def resetTransformFeedback_def Float32Array_def z_def[symmetric])
qed

lemma clear_state_ok:
  assumes ok: "state_ok props (st, dev)" and r: "clear (st, dev) = Inr (st', dev')"
  shows "state_ok props (st', dev')"
proof -
  from ok obtain src tgt col s t c where f:
    "initialized st" "0 < numParticles props" "0 < maxAge props"
    "numInstances st = numParticles props * maxAge props"
    "numAgedInstances st = numParticles props * (maxAge props - 1)"
    "sourcePositions st = Some src" "targetPositions st = Some tgt" "colors st = Some col"
    "transform st = Some \<lparr>sourcePosition = src, targetPosition = tgt, vertexCount = numParticles props\<rparr>"
    "src \<noteq> tgt" "col \<noteq> src" "col \<noteq> tgt"
    "buffers dev src = Some s" "buffers dev tgt = Some t" "buffers dev col = Some c"
    "length s = nat (numInstances st * 3)" "length t = nat (numInstances st * 3)"
    "length c = nat (numInstances st * 4)"
    by (rule state_okD)
  have e: "(st', dev') = (st, dev\<lparr>buffers := (buffers dev)
            (src \<mapsto> replicate (nat (numInstances st * 3)) 0,
             tgt \<mapsto> replicate (nat (numInstances st * 3)) 0)\<rparr>)"
    using clear_result[OF state_ok_wf[OF ok] f(1) f(6) f(7)] r by simp
  show ?thesis
    unfolding e using f by (simp add: state_ok_def)
qed

lemma setup_state_ok:
  assumes wf: "state_wf (st, dev)" and r: "setupTransformFeedback props (st, dev) = Inr (st', dev')"
    and i: "initialized st'" and pos: "0 < numParticles props" "0 < maxAge props"
  shows "state_ok props (st', dev')"
proof (cases "image_prop props")
  case (ImageTexture tex)
  thus ?thesis
    using setup_allocates[OF wf ImageTexture pos] r by auto
next
  case (ImageUrl url)
  obtain st1 dev1 where d: "deleteTransformFeedback (st, dev) = Inr (st1, dev1)"
    "\<not> initialized st1" "\<not> initialized st \<longrightarrow> st1 = st \<and> dev1 = dev"
    using delete_result[OF wf] by blast
  have "setupTransformFeedback props (st, dev) = Inr (st1, dev1)"
    using d ImageUrl by (cases "initialized st") (simp_all add: setupTransformFeedback_def)
  thus ?thesis
    using r i d(2) by simp
next
  case ImageNull
  obtain st1 dev1 where d: "deleteTransformFeedback (st, dev) = Inr (st1, dev1)"
    "\<not> initialized st1" "\<not> initialized st \<longrightarrow> st1 = st \<and> dev1 = dev"
    using delete_result[OF wf] by blast
  have "setupTransformFeedback props (st, dev) = Inr (st1, dev1)"
    using d ImageNull by (cases "initialized st") (simp_all add: setupTransformFeedback_def)
  thus ?thesis
    using r i d(2) by simp
qed

lemma commit_cases:
  assumes "commit w r = Inr w'"
  obtains st dev where "r = Inr (st, dev)" "w' = w\<lparr>w_state := st, w_device := dev\<rparr>"
  using assms by (auto simp: commit_def split: sum.splits)

lemma clear_state:
  "clear (st, dev) = Inr (st', dev') \<Longrightarrow> st' = st"
  by (auto simp: clear_def resetTransformFeedback_def Float32Array_def
      split: if_splits option.splits)

lemma fire_state_ok:
  assumes ok: "world_ok w" and f: "fire k e w = Inr w'"
    and i: "initialized (w_state w')"
    and pos: "0 < numParticles (w_props w')" "0 < maxAge (w_props w')"
  shows "state_ok (w_props w') (w_state w', w_device w')"
proof -
  have wf: "state_wf (w_state w, w_device w)"
    using ok by (simp add: world_ok_def)
  have sok: "initialized (w_state w) \<Longrightarrow> 0 < numParticles (w_props w) \<Longrightarrow>
      0 < maxAge (w_props w) \<Longrightarrow> state_ok (w_props w) (w_state w, w_device w)"
    using ok by (simp add: world_ok_def)
  show ?thesis
  proof (cases e)
    case Draw
    obtain st ts where d: "draw (w_props w) (w_state w, w_timers w) = (st, ts)"
      by (cases "draw (w_props w) (w_state w, w_timers w)")
    hence "st = w_state w \<or> st = (w_state w)\<lparr>stepRequested := True\<rparr>"
      by (auto simp: draw_def requestStep_def split: if_splits)
    moreover have "w' = w\<lparr>w_state := st, w_timers := ts\<rparr>"
      using f Draw d by simp
    ultimately show ?thesis
      using sok i pos by (auto simp: state_ok_stepRequested)
  next
    case RequestStep
    obtain st ts where d: "requestStep (w_state w, w_timers w) = (st, ts)"
      by (cases "requestStep (w_state w, w_timers w)")
    hence "st = w_state w \<or> st = (w_state w)\<lparr>stepRequested := True\<rparr>"
      by (auto simp: requestStep_def split: if_splits)
    moreover have "w' = w\<lparr>w_state := st, w_timers := ts\<rparr>"
      using f RequestStep d by simp
    ultimately show ?thesis
      using sok i pos by (auto simp: state_ok_stepRequested)
  next
    case (TimerFires ctx)
    show ?thesis
    proof (cases "w_timers w")
      case Nil
      hence "w' = w"
        using f TimerFires by simp
      thus ?thesis
        using sok i pos by simp
    next
      case (Cons t ts)
      obtain d c where t: "t = (d, c)"
        by (cases t)
      have "commit (w\<lparr>w_timers := ts\<rparr>)
            (run_callback k (w_props w) ctx (w_state w, w_device w)) = Inr w'"
        using f TimerFires Cons t by (cases c) simp
      then obtain st dev where
        rc: "run_callback k (w_props w) ctx (w_state w, w_device w) = Inr (st, dev)" and
        w': "w' = w\<lparr>w_timers := ts, w_state := st, w_device := dev\<rparr>"
        by (rule commit_cases)
      from rc obtain st1 where
        s: "step k (w_props w) ctx (w_state w, w_device w) = Inr (st1, dev)" and
        e: "st = st1\<lparr>stepRequested := False\<rparr>"
        by (cases "step k (w_props w) ctx (w_state w, w_device w)") (auto simp: run_callback_def)
      have "initialized (w_state w)"
        using step_wf[OF wf s] i w' e by simp
      hence "state_ok (w_props w) (st1, dev)"
        using sok pos w' step_state_ok[OF _ s] by simp
      thus ?thesis
        using w' e by (simp add: state_ok_stepRequested)
    qed
  next
    case (Step ctx)
    hence "commit w (step k (w_props w) ctx (w_state w, w_device w)) = Inr w'"
      using f by simp
    then obtain st dev where
      s: "step k (w_props w) ctx (w_state w, w_device w) = Inr (st, dev)" and
      w': "w' = w\<lparr>w_state := st, w_device := dev\<rparr>"
      by (rule commit_cases)
    have "initialized (w_state w)"
      using step_wf[OF wf s] i w' by simp
    thus ?thesis
      using sok pos w' step_state_ok[OF _ s] by simp
  next
    case Clear
    hence "commit w (clear (w_state w, w_device w)) = Inr w'"
      using f by simp
    then obtain st dev where
      s: "clear (w_state w, w_device w) = Inr (st, dev)" and
      w': "w' = w\<lparr>w_state := st, w_device := dev\<rparr>"
      by (rule commit_cases)
    have "initialized (w_state w)"
      using clear_state[OF s] i w' by simp
    thus ?thesis
      using sok pos w' clear_state_ok[OF _ s] by simp
  next
    case (UpdateState props)
    hence "commit (w\<lparr>w_props := props\<rparr>)
        (updateState props (w_props w) (w_state w, w_device w)) = Inr w'"
      using f by simp
    then obtain st dev where
      u: "updateState props (w_props w) (w_state w, w_device w) = Inr (st, dev)" and
      w': "w' = w\<lparr>w_props := props, w_state := st, w_device := dev\<rparr>"
      by (rule commit_cases)
    have p: "0 < numParticles props" "0 < maxAge props" "initialized st"
      using pos i w' by simp_all
    show ?thesis
    proof (cases "numParticles props = 0 \<or> maxAge props = 0 \<or> width props = 0")
      case True
      hence "deleteTransformFeedback (w_state w, w_device w) = Inr (st, dev)"
        using u by (simp add: updateState_def)
      thus ?thesis
        using delete_result[OF wf] p(3) by auto
    next
      case valid: False
      show ?thesis
      proof (cases "image_prop props \<noteq> image_prop (w_props w) \<or>
              numParticles props \<noteq> numParticles (w_props w) \<or>
              maxAge props \<noteq> maxAge (w_props w) \<or>
              width props \<noteq> width (w_props w)")
        case True
        hence set: "setupTransformFeedback props (w_state w, w_device w) = Inr (st, dev)"
          using u valid by (simp add: updateState_def)
        show ?thesis
          using setup_state_ok[OF wf set p(3) p(1,2)] w' by simp
      next
        case False
        hence same: "numParticles props = numParticles (w_props w)"
          "maxAge props = maxAge (w_props w)"
          by simp_all
        have e: "st = w_state w" "dev = w_device w"
          using u valid False by (simp_all add: updateState_def)
        have "state_ok (w_props w) (w_state w, w_device w)"
          using sok p e same by simp
        hence "state_ok props (w_state w, w_device w)"
          using state_ok_props[OF same] by simp
        thus ?thesis
          using e w' by simp
      qed
    qed
  next
    case Finalize
    hence "commit w (deleteTransformFeedback (w_state w, w_device w)) = Inr w'"
      using f by (simp add: finalizeState_def)
    then obtain st dev where
      s: "deleteTransformFeedback (w_state w, w_device w) = Inr (st, dev)" and
      w': "w' = w\<lparr>w_state := st, w_device := dev\<rparr>"
      by (rule commit_cases)
    thus ?thesis
      using delete_result[OF wf] i by auto
  qed
qed

lemma fire_world_ok:
  assumes "world_ok w" "fire k e w = Inr w'"
  shows "world_ok w'"
  unfolding world_ok_def
  using fire_wf[OF _ assms(2)] fire_state_ok[OF assms] assms(1)
  by (simp add: world_ok_def)

text \<open>
  Every world that a layer reaches satisfies \<open>world_ok\<close>: the invariant \<open>state_wf\<close> that
  the theorems on release, clearing and allocation assume, and \<open>state_ok\<close> for an
  initialized engine under positive counts, which the theorem on the tick assumes.
\<close>

lemma start_world_ok:
  assumes "start k props dev evs = Inr w"
  shows "world_ok w"
proof -
  from assms obtain st dev' where i: "initializeState props dev = Inr (st, dev')" and
    r: "run k evs \<lparr>w_props = props, w_state = st, w_device = dev', w_timers = []\<rparr> = Inr w"
    unfolding start_def by (cases "initializeState props dev") auto
  have s: "setupTransformFeedback props (initial_state, dev) = Inr (st, dev')"
    using i by (simp add: initializeState_def)
  have w0: "world_ok \<lparr>w_props = props, w_state = st, w_device = dev', w_timers = []\<rparr>"
    using setup_wf[OF state_wf_initial s] setup_state_ok[OF state_wf_initial s]
    by (simp add: world_ok_def)
  have "world_ok w1 \<Longrightarrow> run k evs w1 = Inr w \<Longrightarrow> world_ok w" for w1
  proof (induction evs arbitrary: w1)
    case Nil
    thus ?case by simp
  next
    case (Cons e evs)
    from Cons.prems(2) obtain w2 where f: "fire k e w1 = Inr w2" and r2: "run k evs w2 = Inr w"
      by (cases "fire k e w1") auto
    show ?case
      using Cons.IH[OF fire_world_ok[OF Cons.prems(1) f] r2] .
  qed
  from this[OF w0 r] show ?thesis .
qed

text \<open>
  \<^bold>\<open>C9\<close>. \<open>requestStep\<close> changes nothing when \<open>stepRequested\<close> is set; otherwise it
  sets the flag and adds one timer, of delay \<open>1000 / 30\<close> ms, whose callback runs \<open>step\<close>
  and then clears the flag, after which a \<open>requestStep\<close> schedules again. In every world
  reached from \<open>initializeState\<close> by draws, requests, timers firing, steps, clears, prop
  updates and the finalization, at most one timer is pending, it is that timer, and the
  flag is set while it is pending.
\<close>

theorem scheduler_single_pending:
  "(stepRequested st \<longrightarrow> requestStep (st, timers) = (st, timers)) \<and>
   (\<not> stepRequested st \<longrightarrow>
      requestStep (st, timers) =
        (st\<lparr>stepRequested := True\<rparr>, timers @ [(1000 / 30, StepThenClearFlag)])) \<and>
   (run_callback k props ctx (st, dev) = Inr (st', dev') \<longrightarrow>
      (\<exists>st1. step k props ctx (st, dev) = Inr (st1, dev') \<and>
         st' = st1\<lparr>stepRequested := False\<rparr>) \<and>
      requestStep (st', []) = (st'\<lparr>stepRequested := True\<rparr>, [(1000 / 30, StepThenClearFlag)])) \<and>
   (start k props dev0 evs = Inr w \<longrightarrow>
      length (w_timers w) \<le> 1 \<and>
      (\<forall>t \<in> set (w_timers w). t = (1000 / 30, StepThenClearFlag)) \<and>
      (w_timers w \<noteq> [] \<longrightarrow> stepRequested (w_state w)))"
proof (intro conjI impI)
  assume "stepRequested st"
  thus "requestStep (st, timers) = (st, timers)"
    by (simp add: requestStep_def)
next
  assume "\<not> stepRequested st"
  thus "requestStep (st, timers) =
        (st\<lparr>stepRequested := True\<rparr>, timers @ [(1000 / 30, StepThenClearFlag)])"
    by (simp add: requestStep_def FPS_def)
next
  assume a: "run_callback k props ctx (st, dev) = Inr (st', dev')"
  thus "\<exists>st1. step k props ctx (st, dev) = Inr (st1, dev') \<and>
         st' = st1\<lparr>stepRequested := False\<rparr>"
    by (cases "step k props ctx (st, dev)") (auto simp: run_callback_def)
  hence "\<not> stepRequested st'"
    by auto
  thus "requestStep (st', []) = (st'\<lparr>stepRequested := True\<rparr>, [(1000 / 30, StepThenClearFlag)])"
    by (simp add: requestStep_def FPS_def)
next
  assume "start k props dev0 evs = Inr w"
  hence i: "sched_inv w"
    by (rule start_inv)
  show "length (w_timers w) \<le> 1" "\<forall>t \<in> set (w_timers w). t = (1000 / 30, StepThenClearFlag)"
    "w_timers w \<noteq> [] \<Longrightarrow> stepRequested (w_state w)"
    using i by (auto simp: sched_inv_def)
qed

lemma start_requested:
  "start kernel_mark props_4_3 initial_device [RequestStep, Draw, RequestStep] = Inr world_requested"
proof -
  have a: "animate props_4_3"
    by (simp add: props_4_3_def)
  show ?thesis
    unfolding start_def init_4_3
    by (simp add: state_4_3_def requestStep_def draw_def FPS_def world_requested_def a)
qed

theorem scheduler_single_pending_witness:
  "stepRequested (w_state world_requested) \<and>
   requestStep (w_state world_requested, w_timers world_requested) =
     (w_state world_requested, w_timers world_requested) \<and>
   \<not> stepRequested (fst state_4_3) \<and>
   requestStep (fst state_4_3, []) =
     ((fst state_4_3)\<lparr>stepRequested := True\<rparr>, [] @ [(1000 / 30, StepThenClearFlag)]) \<and>
   run_callback kernel_mark props_4_3 ctx_1 (fst state_4_3, snd state_4_3) =
     Inr (fst state_4_3_ticked, snd state_4_3_ticked) \<and>
   step kernel_mark props_4_3 ctx_1 (fst state_4_3, snd state_4_3) = Inr state_4_3_ticked \<and>
   requestStep (fst state_4_3_ticked, []) =
     ((fst state_4_3_ticked)\<lparr>stepRequested := True\<rparr>, [(1000 / 30, StepThenClearFlag)]) \<and>
   start kernel_mark props_4_3 initial_device [RequestStep, Draw, RequestStep] =
     Inr world_requested \<and>
   length (w_timers world_requested) \<le> 1 \<and>
   w_timers world_requested = [(1000 / 30, StepThenClearFlag)]"
proof -
  have h5: "w_timers world_requested = [(1000 / 30, StepThenClearFlag)]"
    by (simp add: world_requested_def)
  have h1: "stepRequested (w_state world_requested)"
    by (simp add: world_requested_def)
  have h2: "\<not> stepRequested (fst state_4_3)"
    by (simp add: state_4_3_def)
  have s: "step kernel_mark props_4_3 ctx_1 state_4_3 = Inr state_4_3_ticked"
    using step_4_3 by simp
  have f: "(fst state_4_3_ticked)\<lparr>stepRequested := False\<rparr> = fst state_4_3_ticked"
    by (simp add: state_4_3_ticked_def)
  have "run_callback kernel_mark props_4_3 ctx_1 state_4_3 =
     Inr ((fst state_4_3_ticked)\<lparr>stepRequested := False\<rparr>, snd state_4_3_ticked)"
    unfolding run_callback_def s by (simp add: case_prod_unfold)
  hence h3: "run_callback kernel_mark props_4_3 ctx_1 (fst state_4_3, snd state_4_3) =
     Inr (fst state_4_3_ticked, snd state_4_3_ticked)"
    using f by simp
  note h4 = start_requested
  note t1 = scheduler_single_pending[of "w_state world_requested" "w_timers world_requested"
      kernel_mark props_4_3 ctx_1 "snd state_4_3" "fst state_4_3_ticked" "snd state_4_3_ticked"
      initial_device "[RequestStep, Draw, RequestStep]" world_requested]
  note t2 = scheduler_single_pending[of "fst state_4_3" "[]"
      kernel_mark props_4_3 ctx_1 "snd state_4_3" "fst state_4_3_ticked" "snd state_4_3_ticked"
      initial_device "[RequestStep, Draw, RequestStep]" world_requested]
  show ?thesis
    using h1 h2 h3 h4 h5 step_4_3 t1 t2 by simp
qed

end
